theory Spec2Isabelle
  imports Complex_Main "HOL-Library.Char_ord" "HOL-Library.List_Lexorder"
begin

section \<open>JavaScript values\<close>

text \<open>
  The plugin keeps whatever the Indigo RESTful API returns: every property of a parsed
  JSON response is copied onto the accessory object, and the values the HomeKit framework
  hands to a handler are used as they come. A value is therefore one of the values
  \<^verbatim>\<open>JSON.parse\<close> produces, \<^verbatim>\<open>undefined\<close> (a property that was never set), or
  \<^verbatim>\<open>NaN\<close> (arithmetic on something that is not a number). A number is given by its
  real value. Where the plugin computes with temperatures, every intermediate result is
  rounded to the nearest double (\<open>to_double\<close> below); the numbers of a JSON text and the
  speed of a fan are kept as exact reals. The infinities, and hence the overflow of a
  double, are not part of the model. Strings are lists of 8-bit code units.
\<close>

datatype jsval =
    JUndefined
  | JNull
  | JBool bool
  | JNum real
  | JNaN
  | JStr string
  | JArr "jsval list"
  | JObj "(string \<times> jsval) list"

text \<open>\<^verbatim>\<open>if (v)\<close>, \<^verbatim>\<open>v ? a : b\<close>, \<^verbatim>\<open>v && w\<close>: the truthiness of a value.\<close>

fun truthy :: "jsval \<Rightarrow> bool" where
  "truthy JUndefined = False"
| "truthy JNull = False"
| "truthy (JBool b) = b"
| "truthy (JNum r) = (r \<noteq> 0)"
| "truthy JNaN = False"
| "truthy (JStr s) = (s \<noteq> [])"
| "truthy (JArr xs) = True"
| "truthy (JObj kvs) = True"

subsection \<open>Numbers and strings\<close>

definition is_digit :: "char \<Rightarrow> bool" where
  "is_digit c = (CHR ''0'' \<le> c \<and> c \<le> CHR ''9'')"

definition digit_value :: "char \<Rightarrow> nat" where
  "digit_value c = of_char c - 48"

definition digits_value :: "string \<Rightarrow> nat" where
  "digits_value ds = foldl (\<lambda>a c. 10 * a + digit_value c) 0 ds"

definition is_space :: "char \<Rightarrow> bool" where
  "is_space c = (c = CHR '' '' \<or> c = CHR 0x09 \<or> c = CHR 0x0A \<or> c = CHR 0x0D)"

text \<open>Digits, optionally followed by a point and more digits.\<close>

definition decimal_value :: "string \<Rightarrow> real option" where
  "decimal_value s =
     (let ip = takeWhile is_digit s; r = dropWhile is_digit s in
      if ip = [] then None
      else if r = [] then Some (real (digits_value ip))
      else if hd r = CHR ''.'' \<and> tl r \<noteq> [] \<and> list_all is_digit (tl r)
        then Some (real (digits_value ip) + real (digits_value (tl r)) / 10 ^ length (tl r))
      else None)"

definition signed_decimal_value :: "string \<Rightarrow> real option" where
  "signed_decimal_value s =
     (case s of
        [] \<Rightarrow> None
      | c # cs \<Rightarrow> if c = CHR ''-'' then map_option uminus (decimal_value cs) else decimal_value s)"

definition digit_char :: "nat \<Rightarrow> char" where
  "digit_char d = ''0123456789'' ! d"

fun show_nat :: "nat \<Rightarrow> string" where
  "show_nat n = (if n < 10 then [digit_char n] else show_nat (n div 10) @ [digit_char (n mod 10)])"

declare show_nat.simps [simp del]

fun show_frac :: "nat \<Rightarrow> real \<Rightarrow> string" where
  "show_frac 0 x = []"
| "show_frac (Suc k) x =
     (if x = 0 then []
      else digit_char (nat \<lfloor>x * 10\<rfloor>) # show_frac k (x * 10 - of_int \<lfloor>x * 10\<rfloor>))"

text \<open>
  The decimal text of a number. It is the text JavaScript prints for every integer below
  \<open>10\<^sup>2\<^sup>1\<close> in absolute value (device identifiers are such integers) and for a short
  decimal fraction; a fraction with a long expansion is cut after 16 places, where
  JavaScript prints the shortest text that reads back as the same double.
\<close>

definition show_num :: "real \<Rightarrow> string" where
  "show_num r =
     (let a = \<bar>r\<bar>; ip = nat \<lfloor>a\<rfloor>; fp = a - of_int \<lfloor>a\<rfloor> in
      (if r < 0 then ''-'' else []) @ show_nat ip @
      (if fp = 0 then [] else CHR ''.'' # show_frac 16 fp))"

fun join_with :: "string \<Rightarrow> string list \<Rightarrow> string" where
  "join_with sep [] = []"
| "join_with sep [x] = x"
| "join_with sep (x # y # ys) = x @ sep @ join_with sep (y # ys)"

text \<open>\<^verbatim>\<open>String(v)\<close>, also the conversion \<^verbatim>\<open>"..." + v\<close> applies.\<close>

fun js_String :: "jsval \<Rightarrow> string" where
  "js_String JUndefined = ''undefined''"
| "js_String JNull = ''null''"
| "js_String (JBool b) = (if b then ''true'' else ''false'')"
| "js_String (JNum r) = show_num r"
| "js_String JNaN = ''NaN''"
| "js_String (JStr s) = s"
| "js_String (JArr xs) =
     join_with '','' (map (\<lambda>x. if x = JUndefined \<or> x = JNull then [] else js_String x) xs)"
| "js_String (JObj kvs) = ''[object Object]''"

definition trim :: "string \<Rightarrow> string" where
  "trim s = rev (dropWhile is_space (rev (dropWhile is_space s)))"

text \<open>
  The number a string stands for, \<open>None\<close> for \<^verbatim>\<open>NaN\<close>: decimal literals with an optional
  sign; the empty string is 0. Exponents, hexadecimal literals and \<^verbatim>\<open>Infinity\<close> are not
  modelled.
\<close>

definition StringToNumber :: "string \<Rightarrow> real option" where
  "StringToNumber s =
     (let t = trim s in
      if t = [] then Some 0
      else if hd t = CHR ''+'' then decimal_value (tl t)
      else signed_decimal_value t)"

text \<open>\<^verbatim>\<open>ToNumber\<close>, \<open>None\<close> for \<^verbatim>\<open>NaN\<close>.\<close>

fun ToNumber :: "jsval \<Rightarrow> real option" where
  "ToNumber JUndefined = None"
| "ToNumber JNull = Some 0"
| "ToNumber (JBool b) = Some (if b then 1 else 0)"
| "ToNumber (JNum r) = Some r"
| "ToNumber JNaN = None"
| "ToNumber (JStr s) = StringToNumber s"
| "ToNumber (JArr xs) = StringToNumber (js_String (JArr xs))"
| "ToNumber (JObj kvs) = StringToNumber (js_String (JObj kvs))"

definition of_number :: "real option \<Rightarrow> jsval" where
  "of_number x = (case x of None \<Rightarrow> JNaN | Some r \<Rightarrow> JNum r)"

text \<open>Strings, and the objects that turn into strings where a primitive is wanted.\<close>

fun stringy :: "jsval \<Rightarrow> bool" where
  "stringy (JStr s) = True"
| "stringy (JArr xs) = True"
| "stringy (JObj kvs) = True"
| "stringy v = False"

fun is_object :: "jsval \<Rightarrow> bool" where
  "is_object (JArr xs) = True"
| "is_object (JObj kvs) = True"
| "is_object v = False"

fun nullish :: "jsval \<Rightarrow> bool" where
  "nullish JUndefined = True"
| "nullish JNull = True"
| "nullish v = False"

text \<open>
  \<^verbatim>\<open>a == b\<close>. Two objects are equal only when they are the same object; the plugin only
  ever compares a freshly parsed value with an older one, so two objects are never equal
  here.
\<close>

definition loose_eq :: "jsval \<Rightarrow> jsval \<Rightarrow> bool" where
  "loose_eq a b =
     (if nullish a \<or> nullish b then nullish a \<and> nullish b
      else if is_object a \<and> is_object b then False
      else if stringy a \<and> stringy b then js_String a = js_String b
      else (case (ToNumber a, ToNumber b) of
              (Some x, Some y) \<Rightarrow> x = y
            | _ \<Rightarrow> False))"

text \<open>\<^verbatim>\<open>a === b\<close>, under the same reading of objects.\<close>

definition strict_eq :: "jsval \<Rightarrow> jsval \<Rightarrow> bool" where
  "strict_eq a b = (a = b \<and> a \<noteq> JNaN \<and> \<not> is_object a)"

text \<open>\<^verbatim>\<open>v >= r\<close>, \<^verbatim>\<open>v <= r\<close> and \<^verbatim>\<open>v > r\<close> against a number: false on \<^verbatim>\<open>NaN\<close>.\<close>

definition js_ge :: "jsval \<Rightarrow> real \<Rightarrow> bool" where
  "js_ge v r = (case ToNumber v of None \<Rightarrow> False | Some x \<Rightarrow> x \<ge> r)"

definition js_le :: "jsval \<Rightarrow> real \<Rightarrow> bool" where
  "js_le v r = (case ToNumber v of None \<Rightarrow> False | Some x \<Rightarrow> x \<le> r)"

definition js_gt :: "jsval \<Rightarrow> real \<Rightarrow> bool" where
  "js_gt v r = (case ToNumber v of None \<Rightarrow> False | Some x \<Rightarrow> x > r)"

subsection \<open>Doubles\<close>

text \<open>
  The rounding of IEEE 754 double precision: a real other than zero is rounded to the
  nearest multiple of the unit in the last place of its binade, \<open>2\<close> to the power of its
  exponent less 52, a tie going to the even multiple. Below the exponent \<open>-1022\<close> the
  unit stays that of the subnormal numbers. The exponent is \<open>\<lfloor>log\<^sub>2 \<bar>x\<bar>\<rfloor>\<close>, found
  by halving the integer part of \<open>\<bar>x\<bar>\<close>, or of its inverse when \<open>\<bar>x\<bar> < 1\<close>. The exponent
  has no upper limit here: a real beyond the largest double is rounded like any other,
  where the machine gives infinity.
\<close>

function ilog2 :: "int \<Rightarrow> int" where
  "ilog2 n = (if n < 2 then 0 else 1 + ilog2 (n div 2))"
  by pat_completeness auto

termination
  by (relation "measure nat") auto

declare ilog2.simps [simp del]

definition exponent :: "real \<Rightarrow> int" where
  "exponent x =
     (if 1 \<le> \<bar>x\<bar> then ilog2 \<lfloor>\<bar>x\<bar>\<rfloor>
      else - (1 + ilog2 (\<lceil>1 / \<bar>x\<bar>\<rceil> - 1)))"

definition round_half_even :: "real \<Rightarrow> int" where
  "round_half_even y =
     (let n = \<lfloor>y\<rfloor> in
      if y - of_int n < 1 / 2 then n
      else if 1 / 2 < y - of_int n then n + 1
      else if even n then n else n + 1)"

definition to_double :: "real \<Rightarrow> real" where
  "to_double x =
     (if x = 0 then 0
      else (let q = 2 powi (max (exponent x) (- 1022) - 52)
            in of_int (round_half_even (x / q)) * q))"

text \<open>\<^verbatim>\<open>a * b\<close>, \<^verbatim>\<open>a / b\<close>, \<^verbatim>\<open>a + b\<close> and \<^verbatim>\<open>a - b\<close> on doubles (\<open>b\<close> is never zero here).\<close>

definition double_mul :: "real \<Rightarrow> real \<Rightarrow> real" where
  "double_mul a b = to_double (a * b)"

definition double_div :: "real \<Rightarrow> real \<Rightarrow> real" where
  "double_div a b = to_double (a / b)"

definition double_add :: "real \<Rightarrow> real \<Rightarrow> real" where
  "double_add a b = to_double (a + b)"

definition double_sub :: "real \<Rightarrow> real \<Rightarrow> real" where
  "double_sub a b = to_double (a - b)"

text \<open>\<^verbatim>\<open>a + b\<close>: concatenation as soon as one side is a string, addition otherwise.\<close>

definition js_add :: "jsval \<Rightarrow> jsval \<Rightarrow> jsval" where
  "js_add a b =
     (if stringy a \<or> stringy b then JStr (js_String a @ js_String b)
      else (case (ToNumber a, ToNumber b) of
              (Some x, Some y) \<Rightarrow> JNum (double_add x y)
            | _ \<Rightarrow> JNaN))"

text \<open>\<^verbatim>\<open>a - b\<close>.\<close>

definition js_sub :: "jsval \<Rightarrow> jsval \<Rightarrow> jsval" where
  "js_sub a b =
     (case (ToNumber a, ToNumber b) of
        (Some x, Some y) \<Rightarrow> JNum (double_sub x y)
      | _ \<Rightarrow> JNaN)"

text \<open>
  \<^verbatim>\<open>Math.round\<close>: the nearest integer, a tie going up. The result is exact: a double
  of magnitude \<open>2\<^sup>5\<^sup>2\<close> or more is an integer already.
\<close>

definition Math_round :: "real \<Rightarrow> real" where
  "Math_round x = of_int \<lfloor>x + 1 / 2\<rfloor>"

text \<open>\<^verbatim>\<open>s.indexOf(c)\<close> for a one-character \<open>c\<close>: the first position, or \<open>-1\<close>.\<close>

definition indexOf :: "string \<Rightarrow> char \<Rightarrow> int" where
  "indexOf s c = (if c \<in> set s then int (length (takeWhile (\<lambda>x. x \<noteq> c) s)) else - 1)"

text \<open>\<^verbatim>\<open>s.substr(start, len)\<close> and \<^verbatim>\<open>s.substr(start)\<close> for \<open>start \<ge> 0\<close>.\<close>

definition substr :: "string \<Rightarrow> nat \<Rightarrow> nat \<Rightarrow> string" where
  "substr s start len = take len (drop start s)"

definition substr_from :: "string \<Rightarrow> nat \<Rightarrow> string" where
  "substr_from s start = drop start s"

text \<open>\<^verbatim>\<open>xs.indexOf(x) >= 0\<close> on an array of strings.\<close>

definition array_has :: "string list \<Rightarrow> string \<Rightarrow> bool" where
  "array_has xs x = (x \<in> set xs)"

subsection \<open>Property access\<close>

text \<open>
  \<^verbatim>\<open>json.key\<close> for one of the fixed keys the plugin reads (\<^verbatim>\<open>name\<close>, \<^verbatim>\<open>id\<close>,
  \<^verbatim>\<open>restURL\<close>, \<^verbatim>\<open>restParent\<close>, \<^verbatim>\<open>type\<close>, the \<^verbatim>\<open>typeSupports...\<close> flags): \<open>None\<close> is the
  TypeError of reading a property of \<^verbatim>\<open>null\<close>; a value that is not an object has none
  of these keys.
\<close>

fun field :: "jsval \<Rightarrow> string \<Rightarrow> jsval option" where
  "field JNull k = None"
| "field JUndefined k = None"
| "field (JObj kvs) k = Some (case map_of kvs k of None \<Rightarrow> JUndefined | Some v \<Rightarrow> v)"
| "field v k = Some JUndefined"

text \<open>
  \<^verbatim>\<open>for (var prop in json) if (json.hasOwnProperty(prop))\<close>: the own properties in
  enumeration order; an array and a string enumerate their indices.
\<close>

fun own_props :: "jsval \<Rightarrow> (string \<times> jsval) list" where
  "own_props (JObj kvs) = kvs"
| "own_props (JArr xs) = zip (map show_nat [0..<length xs]) xs"
| "own_props (JStr s) = zip (map show_nat [0..<length s]) (map (\<lambda>c. JStr [c]) s)"
| "own_props v = []"

subsection \<open>\<^verbatim>\<open>JSON.parse\<close>\<close>

text \<open>
  A reader for JSON texts: white space, \<^verbatim>\<open>null\<close>, \<^verbatim>\<open>true\<close>, \<^verbatim>\<open>false\<close>, decimal numbers
  with an optional sign and fraction, strings with the single-character escapes, arrays
  and objects. \<open>None\<close> is the SyntaxError. Exponents and unicode escapes are outside the
  modelled fragment. The fuel is the length of the input, which bounds the number of
  tokens and the depth of nesting.
\<close>

datatype token = TLBrack | TRBrack | TLBrace | TRBrace | TComma | TColon
  | TStr string | TNum real | TTrue | TFalse | TNull

definition unescape :: "char \<Rightarrow> char option" where
  "unescape e =
     (if e = CHR 0x22 \<or> e = CHR 0x5C \<or> e = CHR ''/'' then Some e
      else if e = CHR ''n'' then Some (CHR 0x0A)
      else if e = CHR ''t'' then Some (CHR 0x09)
      else if e = CHR ''r'' then Some (CHR 0x0D)
      else if e = CHR ''b'' then Some (CHR 0x08)
      else if e = CHR ''f'' then Some (CHR 0x0C)
      else None)"

fun lex_string :: "string \<Rightarrow> string \<Rightarrow> (string \<times> string) option" where
  "lex_string acc [] = None"
| "lex_string acc [c] = (if c = CHR 0x22 then Some (rev acc, []) else None)"
| "lex_string acc (c # d # cs) =
     (if c = CHR 0x22 then Some (rev acc, d # cs)
      else if c = CHR 0x5C then
        (case unescape d of None \<Rightarrow> None | Some e \<Rightarrow> lex_string (e # acc) cs)
      else if c < CHR 0x20 then None
      else lex_string (c # acc) (d # cs))"

definition is_numchar :: "char \<Rightarrow> bool" where
  "is_numchar c = (is_digit c \<or> c = CHR ''-'' \<or> c = CHR ''.'')"

fun lex :: "nat \<Rightarrow> string \<Rightarrow> token list option" where
  "lex fuel [] = Some []"
| "lex 0 (c # cs) = None"
| "lex (Suc fuel) (c # cs) =
     (if is_space c then lex fuel cs
      else if c = CHR ''['' then map_option ((#) TLBrack) (lex fuel cs)
      else if c = CHR '']'' then map_option ((#) TRBrack) (lex fuel cs)
      else if c = CHR ''{'' then map_option ((#) TLBrace) (lex fuel cs)
      else if c = CHR ''}'' then map_option ((#) TRBrace) (lex fuel cs)
      else if c = CHR '','' then map_option ((#) TComma) (lex fuel cs)
      else if c = CHR '':'' then map_option ((#) TColon) (lex fuel cs)
      else if c = CHR 0x22 then
        (case lex_string [] cs of
           None \<Rightarrow> None
         | Some (s, rest) \<Rightarrow> map_option ((#) (TStr s)) (lex fuel rest))
      else if is_numchar c then
        (case signed_decimal_value (takeWhile is_numchar (c # cs)) of
           None \<Rightarrow> None
         | Some r \<Rightarrow> map_option ((#) (TNum r)) (lex fuel (dropWhile is_numchar cs)))
      else if take 4 (c # cs) = ''true'' then map_option ((#) TTrue) (lex fuel (drop 3 cs))
      else if take 5 (c # cs) = ''false'' then map_option ((#) TFalse) (lex fuel (drop 4 cs))
      else if take 4 (c # cs) = ''null'' then map_option ((#) TNull) (lex fuel (drop 3 cs))
      else None)"

text \<open>A repeated key keeps its first position and takes the last value.\<close>

fun obj_put :: "(string \<times> jsval) list \<Rightarrow> string \<Rightarrow> jsval \<Rightarrow> (string \<times> jsval) list" where
  "obj_put [] k v = [(k, v)]"
| "obj_put ((k', v') # kvs) k v =
     (if k' = k then (k, v) # kvs else (k', v') # obj_put kvs k v)"

fun parse_value :: "nat \<Rightarrow> token list \<Rightarrow> (jsval \<times> token list) option"
  and parse_elements :: "nat \<Rightarrow> jsval list \<Rightarrow> token list \<Rightarrow> (jsval \<times> token list) option"
  and parse_members ::
    "nat \<Rightarrow> (string \<times> jsval) list \<Rightarrow> token list \<Rightarrow> (jsval \<times> token list) option"
where
  "parse_value 0 ts = None"
| "parse_value (Suc n) [] = None"
| "parse_value (Suc n) (TNull # ts) = Some (JNull, ts)"
| "parse_value (Suc n) (TTrue # ts) = Some (JBool True, ts)"
| "parse_value (Suc n) (TFalse # ts) = Some (JBool False, ts)"
| "parse_value (Suc n) (TNum r # ts) = Some (JNum r, ts)"
| "parse_value (Suc n) (TStr s # ts) = Some (JStr s, ts)"
| "parse_value (Suc n) (TLBrack # ts) =
     (case ts of TRBrack # rest \<Rightarrow> Some (JArr [], rest) | _ \<Rightarrow> parse_elements n [] ts)"
| "parse_value (Suc n) (TLBrace # ts) =
     (case ts of TRBrace # rest \<Rightarrow> Some (JObj [], rest) | _ \<Rightarrow> parse_members n [] ts)"
| "parse_value (Suc n) (t # ts) = None"
| "parse_elements 0 acc ts = None"
| "parse_elements (Suc n) acc ts =
     (case parse_value n ts of
        None \<Rightarrow> None
      | Some (v, TComma # rest) \<Rightarrow> parse_elements n (acc @ [v]) rest
      | Some (v, TRBrack # rest) \<Rightarrow> Some (JArr (acc @ [v]), rest)
      | Some (v, rest) \<Rightarrow> None)"
| "parse_members 0 acc ts = None"
| "parse_members (Suc n) acc (TStr k # TColon # ts) =
     (case parse_value n ts of
        None \<Rightarrow> None
      | Some (v, TComma # rest) \<Rightarrow> parse_members n (obj_put acc k v) rest
      | Some (v, TRBrace # rest) \<Rightarrow> Some (JObj (obj_put acc k v), rest)
      | Some (v, rest) \<Rightarrow> None)"
| "parse_members (Suc n) acc ts = None"

definition JSON_parse :: "string \<Rightarrow> jsval option" where
  "JSON_parse body =
     (case lex (Suc (length body)) body of
        None \<Rightarrow> None
      | Some ts \<Rightarrow>
          (case parse_value (Suc (length ts)) ts of
             Some (v, []) \<Rightarrow> Some v
           | _ \<Rightarrow> None))"

section \<open>The platform\<close>

text \<open>
  The options object handed to \<^verbatim>\<open>request\<close>: \<^verbatim>\<open>followRedirect\<close> is always false and
  \<^verbatim>\<open>redirects\<close> always empty, so they are left out; \<open>http_method\<close> is the option
  \<^verbatim>\<open>method\<close>; \<open>qs\<close> is present only when the caller gave a query string.
\<close>

record options =
  url :: string
  http_method :: string
  auth :: "(string \<times> string) option"
  qs :: "(string \<times> jsval) list option"

text \<open>
  What \<^verbatim>\<open>request\<close> passes to its callback: an error, or a response with its body.
  The server is a function from the requests sent so far (the last one being the request
  to answer) to the reply, so it may keep any state it likes.
\<close>

datatype reply = Failure string | Response string

type_synonym server = "options list \<Rightarrow> reply"

datatype variant =
    ActionAccessory
  | SwitchAccessory
  | LockAccessory
  | DoorAccessory
  | GarageDoorAccessory
  | WindowAccessory
  | WindowCoveringAccessory
  | LightAccessory
  | FanAccessory
  | ThermostatAccessory

datatype characteristic =
    On
  | Brightness
  | LockCurrentState
  | LockTargetState
  | CurrentPosition
  | PositionState
  | TargetPosition
  | CurrentDoorState
  | TargetDoorState
  | ObstructionDetected
  | RotationSpeed
  | CurrentHeatingCoolingState
  | TargetHeatingCoolingState
  | CurrentTemperature
  | TargetTemperature
  | TemperatureDisplayUnits
  | CoolingThresholdTemperature
  | HeatingThresholdTemperature
  | CurrentRelativeHumidity

text \<open>
  An accessory object. \<open>props\<close> holds the properties copied from the JSON of the device;
  the other fields are the members the constructors set. The keys of a device's JSON are
  taken not to name one of those members or a method. \<open>brightnessHandlers\<close> and
  \<open>humidityHandlers\<close> record whether the constructor attached the optional handlers.
  \<open>setValueCalls\<close> lists the calls of \<^verbatim>\<open>setValue(value, undefined, context)\<close> made on the
  accessory's characteristics, and \<open>timers\<close> the calls of
  \<^verbatim>\<open>setValue(value, undefined, IndigoAccessory.REFRESH_CONTEXT)\<close> that \<^verbatim>\<open>setTimeout\<close>
  has scheduled for one second later.
\<close>

record accessory =
  variant :: variant
  deviceURL :: string
  name :: string
  props :: "(string \<times> jsval) list"
  thermostatsInCelsius :: bool
  temperatureDisplayUnits :: jsval
  brightnessHandlers :: bool
  humidityHandlers :: bool
  setValueCalls :: "(characteristic \<times> jsval \<times> jsval) list"
  timers :: "(characteristic \<times> jsval) list"

text \<open>
  The platform object. \<open>requestQueue\<close> lists every options object pushed to the queue, in
  the order of the pushes; \<open>logged\<close> lists the calls of \<^verbatim>\<open>this.log\<close>, each with its format
  string and its arguments as values. An optional list of the configuration is \<open>None\<close>
  when the key is missing. \<open>foundAccessories\<close> and \<open>accessoryMap\<close> hold the accessory
  objects by value.
\<close>

record platform =
  baseURL :: string
  platform_path :: string
  platform_auth :: "(string \<times> string) option"
  includeActions :: bool
  includeIds :: "string list option"
  excludeIds :: "string list option"
  treatAsSwitchIds :: "string list option"
  treatAsLockIds :: "string list option"
  treatAsDoorIds :: "string list option"
  treatAsGarageDoorIds :: "string list option"
  treatAsWindowIds :: "string list option"
  treatAsWindowCoveringIds :: "string list option"
  platform_thermostatsInCelsius :: bool
  accessoryNamePrefix :: string
  foundAccessories :: "accessory list"
  accessoryMap :: "string \<Rightarrow> accessory option"
  requestQueue :: "options list"
  logged :: "(string \<times> jsval list) list"

type_synonym state = "accessory \<times> platform"

definition log_line :: "string \<Rightarrow> jsval list \<Rightarrow> platform \<Rightarrow> platform" where
  "log_line fmt args pl = pl\<lparr>logged := logged pl @ [(fmt, args)]\<rparr>"

text \<open>
  \<^verbatim>\<open>IndigoPlatform.prototype.indigoRequest\<close>: the options are pushed to the request
  queue; the queue's worker logs the request and sends it, and the callback receives the
  server's reply.
\<close>

definition indigoRequest ::
  "server \<Rightarrow> string \<Rightarrow> string \<Rightarrow> (string \<times> jsval) list option \<Rightarrow> platform
     \<Rightarrow> reply \<times> platform" where
  "indigoRequest srv path meth query pl =
     (let opts = \<lparr>url = baseURL pl @ path, http_method = meth, auth = platform_auth pl, qs = query\<rparr>;
          pl1 = pl\<lparr>requestQueue := requestQueue pl @ [opts]\<rparr>;
          pl2 = log_line ''Indigo request: %s'' [JStr (url opts)] pl1
      in (srv (requestQueue pl2), pl2))"

text \<open>
  \<^verbatim>\<open>IndigoPlatform.prototype.indigoRequestJSON\<close>: \<open>Inl\<close> is \<^verbatim>\<open>callback(msg)\<close>, \<open>Inr\<close> is
  \<^verbatim>\<open>callback(undefined, json)\<close>. The text of the exception is not modelled.
\<close>

definition indigoRequestJSON ::
  "server \<Rightarrow> string \<Rightarrow> string \<Rightarrow> (string \<times> jsval) list option \<Rightarrow> (string \<Rightarrow> string) option
     \<Rightarrow> platform \<Rightarrow> (string + jsval) \<times> platform" where
  "indigoRequestJSON srv path meth query jsonFixer pl =
     (case indigoRequest srv path meth query pl of
        (Failure error, pl1) \<Rightarrow>
          (let msg = ''Error for Indigo request '' @ path @ '': '' @ error
           in (Inl msg, log_line msg [] pl1))
      | (Response body0, pl1) \<Rightarrow>
          (let body = (case jsonFixer of None \<Rightarrow> body0 | Some fix \<Rightarrow> fix body0) in
           case JSON_parse body of
             None \<Rightarrow>
               (let msg2 = ''Error parsing Indigo response for '' @ path @ [CHR 0x0A]
                           @ ''Exception: SyntaxError'' @ [CHR 0x0A] @ ''Response: '' @ body
                in (Inl msg2, log_line msg2 [] pl1))
           | Some json \<Rightarrow> (Inr json, pl1)))"

section \<open>Exceptions\<close>

text \<open>
  A function of the plugin returns, or an exception escapes from it: \<open>Threw\<close> keeps the
  platform as it was when the exception was thrown. No exception is caught anywhere in
  the plugin except the SyntaxError of \<^verbatim>\<open>JSON.parse\<close>.
\<close>

datatype 'a outcome = Threw platform | Returned 'a

definition and_then :: "'a outcome \<Rightarrow> ('a \<Rightarrow> 'b outcome) \<Rightarrow> 'b outcome" where
  "and_then r k = (case r of Threw p \<Rightarrow> Threw p | Returned x \<Rightarrow> k x)"

definition map_outcome :: "('a \<Rightarrow> 'b) \<Rightarrow> 'a outcome \<Rightarrow> 'b outcome" where
  "map_outcome f r = (case r of Threw p \<Rightarrow> Threw p | Returned x \<Rightarrow> Returned (f x))"

section \<open>The generic accessory\<close>

text \<open>\<^verbatim>\<open>IndigoAccessory.REFRESH_CONTEXT\<close>.\<close>

definition REFRESH_CONTEXT :: jsval where
  "REFRESH_CONTEXT = JStr ''refresh''"

text \<open>\<^verbatim>\<open>this[prop]\<close> and \<^verbatim>\<open>this[prop] = v\<close> on the copied properties.\<close>

definition get_prop :: "accessory \<Rightarrow> string \<Rightarrow> jsval" where
  "get_prop acc k = (case map_of (props acc) k of None \<Rightarrow> JUndefined | Some v \<Rightarrow> v)"

definition set_prop :: "accessory \<Rightarrow> string \<Rightarrow> jsval \<Rightarrow> accessory" where
  "set_prop acc k v = acc\<lparr>props := obj_put (props acc) k v\<rparr>"

text \<open>
  \<^verbatim>\<open>IndigoAccessory.prototype.updateFromJSON\<close>. The loop over the properties of the JSON
  comes first; an exception is thrown by the update callback or by reading
  \<^verbatim>\<open>json.name\<close> of \<^verbatim>\<open>null\<close>.
\<close>

fun updateFromJSON_loop ::
  "(string \<times> jsval) list \<Rightarrow> (string \<Rightarrow> jsval \<Rightarrow> state \<Rightarrow> state outcome) option \<Rightarrow> state
     \<Rightarrow> state outcome" where
  "updateFromJSON_loop [] updateCallback st = Returned st"
| "updateFromJSON_loop ((prop, v) # rest) updateCallback (acc, pl) =
     (if prop \<noteq> ''name'' \<and> \<not> loose_eq v (get_prop acc prop) then
        (case updateCallback of
           None \<Rightarrow> updateFromJSON_loop rest updateCallback (set_prop acc prop v, pl)
         | Some cb \<Rightarrow>
             (case cb prop v (set_prop acc prop v, pl) of
                Threw p \<Rightarrow> Threw p
              | Returned st1 \<Rightarrow> updateFromJSON_loop rest updateCallback st1))
      else updateFromJSON_loop rest updateCallback (acc, pl))"

definition updateFromJSON ::
  "jsval \<Rightarrow> (string \<Rightarrow> jsval \<Rightarrow> state \<Rightarrow> state outcome) option \<Rightarrow> state \<Rightarrow> state outcome" where
  "updateFromJSON json updateCallback st =
     (case updateFromJSON_loop (own_props json) updateCallback st of
        Threw p \<Rightarrow> Threw p
      | Returned (acc, pl) \<Rightarrow>
          (case field json ''name'' of
             None \<Rightarrow> Threw pl
           | Some n \<Rightarrow>
               Returned (if n \<noteq> JUndefined
                     then acc\<lparr>name := accessoryNamePrefix pl @ js_String n\<rparr> else acc, pl)))"

text \<open>
  \<^verbatim>\<open>IndigoAccessory.prototype.getStatus\<close>: the first component is the argument of
  \<^verbatim>\<open>callback\<close>, \<open>Some error\<close> or \<open>None\<close> for \<^verbatim>\<open>callback()\<close>.
\<close>

definition getStatus ::
  "server \<Rightarrow> (string \<Rightarrow> jsval \<Rightarrow> state \<Rightarrow> state outcome) option \<Rightarrow> state
     \<Rightarrow> (string option \<times> state) outcome" where
  "getStatus srv updateCallback st =
     (case st of (acc, pl) \<Rightarrow>
        (case indigoRequestJSON srv (deviceURL acc) ''GET'' None None pl of
           (Inl error, pl1) \<Rightarrow> Returned (Some error, (acc, pl1))
         | (Inr json, pl1) \<Rightarrow>
             map_outcome (Pair None) (updateFromJSON json updateCallback (acc, pl1))))"

text \<open>\<^verbatim>\<open>IndigoAccessory.prototype.updateStatus\<close>.\<close>

definition updateStatus ::
  "server \<Rightarrow> (string \<times> jsval) list \<Rightarrow> state \<Rightarrow> (string option \<times> state) outcome" where
  "updateStatus srv query st =
     (case st of (acc, pl) \<Rightarrow>
        (case indigoRequest srv (deviceURL acc) ''PUT'' (Some query)
                (log_line ''updateStatus of %s: %s'' [JStr (name acc), JObj query] pl) of
           (Failure error, pl1) \<Rightarrow> Returned (Some error, (acc, pl1))
         | (Response body, pl1) \<Rightarrow> getStatus srv None (acc, pl1)))"

text \<open>
  What a handler does with the callback the framework gave it: it never calls it, calls
  it with an error, or calls it with a value (\<open>()\<close> for a set handler).
\<close>

datatype 'a called = NotCalled | CalledError string | Called 'a

text \<open>\<^verbatim>\<open>function(error) { if (error) { callback(error); } else { ... } }\<close>\<close>

definition if_error ::
  "(string option \<times> state) outcome \<Rightarrow> (state \<Rightarrow> 'a called \<times> state) \<Rightarrow> ('a called \<times> state) outcome" where
  "if_error r k =
     (case r of
        Threw p \<Rightarrow> Threw p
      | Returned (Some error, st) \<Rightarrow> Returned (CalledError error, st)
      | Returned (None, st) \<Rightarrow> Returned (k st))"

text \<open>Passing \<^verbatim>\<open>callback\<close> itself to \<^verbatim>\<open>updateStatus\<close>.\<close>

definition pass_callback ::
  "(string option \<times> state) outcome \<Rightarrow> (unit called \<times> state) outcome" where
  "pass_callback r = if_error r (\<lambda>st. (Called (), st))"

text \<open>\<^verbatim>\<open>IndigoAccessory.prototype.query\<close>.\<close>

definition query :: "server \<Rightarrow> string \<Rightarrow> state \<Rightarrow> (jsval called \<times> state) outcome" where
  "query srv key st =
     if_error (getStatus srv None st)
       (\<lambda>(acc, pl). (Called (get_prop acc key),
          (acc, log_line ''%s: query(%s) => %s'' [JStr (name acc), JStr key, get_prop acc key] pl)))"

text \<open>\<^verbatim>\<open>IndigoAccessory.prototype.getOnState\<close>.\<close>

definition getOnState :: "server \<Rightarrow> state \<Rightarrow> (jsval called \<times> state) outcome" where
  "getOnState srv st =
     (if truthy (get_prop (fst st) ''typeSupportsOnOff'') then
        if_error (getStatus srv None st)
          (\<lambda>(acc, pl).
             (let onState = JBool (truthy (get_prop acc ''isOn''))
              in (Called onState,
                  (acc, log_line ''%s: getOnState() => %s'' [JStr (name acc), onState] pl))))
      else Returned (NotCalled, st))"

text \<open>\<^verbatim>\<open>IndigoAccessory.prototype.setOnState\<close>.\<close>

definition setOnState :: "server \<Rightarrow> jsval \<Rightarrow> jsval \<Rightarrow> state \<Rightarrow> (unit called \<times> state) outcome" where
  "setOnState srv onState context st =
     (case st of (acc, pl0) \<Rightarrow>
        (let pl = log_line ''%s: setOnState(%s)'' [JStr (name acc), onState] pl0 in
         if loose_eq context REFRESH_CONTEXT then Returned (Called (), (acc, pl))
         else if truthy (get_prop acc ''typeSupportsOnOff'') then
           pass_callback
             (updateStatus srv [(''isOn'', JNum (if truthy onState then 1 else 0))] (acc, pl))
         else Returned (CalledError ''Accessory does not support on/off'', (acc, pl))))"

section \<open>The accessories\<close>

text \<open>The values of the framework's enumerations.\<close>

definition UNSECURED :: jsval where "UNSECURED = JNum 0"
definition SECURED :: jsval where "SECURED = JNum 1"
definition DOOR_OPEN :: jsval where "DOOR_OPEN = JNum 0"
definition DOOR_CLOSED :: jsval where "DOOR_CLOSED = JNum 1"
definition STOPPED :: jsval where "STOPPED = JNum 2"
definition HC_OFF :: jsval where "HC_OFF = JNum 0"
definition HC_HEAT :: jsval where "HC_HEAT = JNum 1"
definition HC_COOL :: jsval where "HC_COOL = JNum 2"
definition HC_AUTO :: jsval where "HC_AUTO = JNum 3"
definition CELSIUS :: jsval where "CELSIUS = JNum 0"
definition FAHRENHEIT :: jsval where "FAHRENHEIT = JNum 1"

text \<open>\<^verbatim>\<open>setTimeout(function() { characteristic.setValue(v, undefined, REFRESH_CONTEXT) }, 1000)\<close>\<close>

definition setTimeout :: "characteristic \<Rightarrow> jsval \<Rightarrow> accessory \<Rightarrow> accessory" where
  "setTimeout c v acc = acc\<lparr>timers := timers acc @ [(c, v)]\<rparr>"

subsection \<open>Lock\<close>

text \<open>\<^verbatim>\<open>getLockCurrentState\<close> and \<^verbatim>\<open>getLockTargetState\<close> differ in the text they log.\<close>

definition getLockState :: "string \<Rightarrow> server \<Rightarrow> state \<Rightarrow> (jsval called \<times> state) outcome" where
  "getLockState fmt srv st =
     (if truthy (get_prop (fst st) ''typeSupportsOnOff'') then
        if_error (getStatus srv None st)
          (\<lambda>(acc, pl).
             (let lockState = (if truthy (get_prop acc ''isOn'') then SECURED else UNSECURED)
              in (Called lockState, (acc, log_line fmt [JStr (name acc), lockState] pl))))
      else Returned (NotCalled, st))"

definition getLockCurrentState :: "server \<Rightarrow> state \<Rightarrow> (jsval called \<times> state) outcome" where
  "getLockCurrentState = getLockState ''%s: getLockCurrentState() => %s''"

definition getLockTargetState :: "server \<Rightarrow> state \<Rightarrow> (jsval called \<times> state) outcome" where
  "getLockTargetState = getLockState ''%s: getLockTargetState() => %s''"

definition setLockTargetState ::
  "server \<Rightarrow> jsval \<Rightarrow> jsval \<Rightarrow> state \<Rightarrow> (unit called \<times> state) outcome" where
  "setLockTargetState srv lockState context st =
     (case st of (acc, pl0) \<Rightarrow>
        (let pl = log_line ''%s: setLockTargetState(%s)'' [JStr (name acc), lockState] pl0 in
         if loose_eq context REFRESH_CONTEXT then Returned (Called (), (acc, pl))
         else if truthy (get_prop acc ''typeSupportsOnOff'') then
           pass_callback
             (updateStatus srv [(''isOn'', JNum (if loose_eq lockState SECURED then 1 else 0))]
                (setTimeout LockCurrentState
                   (if loose_eq lockState SECURED then SECURED else UNSECURED) acc, pl))
         else Returned (CalledError ''Accessory does not support on/off'', (acc, pl))))"

subsection \<open>Door, window and window covering\<close>

definition getPosition :: "server \<Rightarrow> state \<Rightarrow> (jsval called \<times> state) outcome" where
  "getPosition srv st =
     (if truthy (get_prop (fst st) ''typeSupportsOnOff'')
         \<or> truthy (get_prop (fst st) ''typeSupportsDim'') then
        if_error (getStatus srv None st)
          (\<lambda>(acc, pl).
             (let position = (if truthy (get_prop acc ''typeSupportsDim'')
                              then get_prop acc ''brightness''
                              else if truthy (get_prop acc ''isOn'') then JNum 100 else JNum 0)
              in (Called position,
                  (acc, log_line ''%s: getPosition() => %s'' [JStr (name acc), position] pl))))
      else Returned (NotCalled, st))"

definition getPositionState :: "state \<Rightarrow> jsval called \<times> state" where
  "getPositionState st =
     (case st of (acc, pl) \<Rightarrow>
        if truthy (get_prop acc ''typeSupportsOnOff'') then
          (Called STOPPED,
           (acc, log_line ''%s: getPositionState() => %s'' [JStr (name acc), STOPPED] pl))
        else (NotCalled, st))"

definition setTargetPosition ::
  "server \<Rightarrow> jsval \<Rightarrow> jsval \<Rightarrow> state \<Rightarrow> (unit called \<times> state) outcome" where
  "setTargetPosition srv position context st =
     (case st of (acc, pl0) \<Rightarrow>
        (let pl = log_line ''%s: setTargetPosition(%s)'' [JStr (name acc), position] pl0 in
         if loose_eq context REFRESH_CONTEXT then Returned (Called (), (acc, pl))
         else if truthy (get_prop acc ''typeSupportsOnOff'')
                 \<or> truthy (get_prop acc ''typeSupportsDim'') then
           pass_callback
             (updateStatus srv
                (if truthy (get_prop acc ''typeSupportsDim'') then [(''brightness'', position)]
                 else [(''isOn'', JNum (if js_gt position 0 then 1 else 0))])
                (setTimeout CurrentPosition position acc, pl))
         else Returned (CalledError ''Accessory does not support on/off or dim'', (acc, pl))))"

subsection \<open>Garage door\<close>

definition getDoorState :: "server \<Rightarrow> state \<Rightarrow> (jsval called \<times> state) outcome" where
  "getDoorState srv st =
     (if truthy (get_prop (fst st) ''typeSupportsOnOff'') then
        if_error (getStatus srv None st)
          (\<lambda>(acc, pl).
             (let doorState = (if truthy (get_prop acc ''isOn'') then DOOR_OPEN else DOOR_CLOSED)
              in (Called doorState,
                  (acc, log_line ''%s: getPosition() => %s'' [JStr (name acc), doorState] pl))))
      else Returned (NotCalled, st))"

definition getCurrentDoorState :: "server \<Rightarrow> state \<Rightarrow> (jsval called \<times> state) outcome" where
  "getCurrentDoorState = getDoorState"

definition getTargetDoorState :: "server \<Rightarrow> state \<Rightarrow> (jsval called \<times> state) outcome" where
  "getTargetDoorState = getDoorState"

definition setTargetDoorState ::
  "server \<Rightarrow> jsval \<Rightarrow> jsval \<Rightarrow> state \<Rightarrow> (unit called \<times> state) outcome" where
  "setTargetDoorState srv doorState context st =
     (case st of (acc, pl0) \<Rightarrow>
        (let pl = log_line ''%s: setTargetPosition(%s)'' [JStr (name acc), doorState] pl0 in
         if loose_eq context REFRESH_CONTEXT then Returned (Called (), (acc, pl))
         else if truthy (get_prop acc ''typeSupportsOnOff'') then
           pass_callback
             (updateStatus srv [(''isOn'', JNum (if loose_eq doorState DOOR_OPEN then 1 else 0))]
                (setTimeout CurrentDoorState
                   (if loose_eq doorState DOOR_OPEN then DOOR_OPEN else DOOR_CLOSED) acc, pl))
         else Returned (CalledError ''Accessory does not support on/off'', (acc, pl))))"

definition getObstructionDetected :: "state \<Rightarrow> jsval called \<times> state" where
  "getObstructionDetected st =
     (case st of (acc, pl) \<Rightarrow>
        if truthy (get_prop acc ''typeSupportsOnOff'') then
          (Called (JBool False),
           (acc, log_line ''%s: getObstructionDetected() => %s'' [JStr (name acc), JBool False] pl))
        else (NotCalled, st))"

subsection \<open>Light\<close>

definition getBrightness :: "server \<Rightarrow> state \<Rightarrow> (jsval called \<times> state) outcome" where
  "getBrightness srv st =
     (if truthy (get_prop (fst st) ''typeSupportsDim'') then query srv ''brightness'' st
      else Returned (CalledError ''Accessory does not support brightness'', st))"

definition setBrightness ::
  "server \<Rightarrow> jsval \<Rightarrow> jsval \<Rightarrow> state \<Rightarrow> (unit called \<times> state) outcome" where
  "setBrightness srv brightness context st =
     (case st of (acc, pl0) \<Rightarrow>
        (let pl = log_line ''%s: setBrightness(%d)'' [JStr (name acc), brightness] pl0 in
         if loose_eq context REFRESH_CONTEXT then Returned (Called (), (acc, pl))
         else if truthy (get_prop acc ''typeSupportsDim'')
                 \<and> js_ge brightness 0 \<and> js_le brightness 100 then
           pass_callback (updateStatus srv [(''brightness'', brightness)] (acc, pl))
         else Returned (CalledError ''Accessory does not support brightness'', (acc, pl))))"

subsection \<open>Fan\<close>

text \<open>The arithmetic of \<^verbatim>\<open>(speedIndex / 3.0) * 100.0\<close>.\<close>

definition speed_of_index :: "jsval \<Rightarrow> jsval" where
  "speed_of_index speedIndex = of_number (map_option (\<lambda>i. (i / 3) * 100) (ToNumber speedIndex))"

definition getRotationSpeed :: "server \<Rightarrow> state \<Rightarrow> (jsval called \<times> state) outcome" where
  "getRotationSpeed srv st =
     (if truthy (get_prop (fst st) ''typeSupportsSpeedControl'') then
        (case query srv ''speedIndex'' st of
           Threw p \<Rightarrow> Threw p
         | Returned (CalledError error, st1) \<Rightarrow> Returned (CalledError error, st1)
         | Returned (Called speedIndex, st1) \<Rightarrow>
             Returned (Called (speed_of_index speedIndex), st1)
         | Returned (NotCalled, st1) \<Rightarrow> Returned (NotCalled, st1))
      else Returned (CalledError ''Accessory does not support rotation speed'', st))"

text \<open>The thresholds of \<^verbatim>\<open>setRotationSpeed\<close>.\<close>

definition index_of_speed :: "jsval \<Rightarrow> real" where
  "index_of_speed rotationSpeed =
     (if js_gt rotationSpeed 66.6 then 3
      else if js_gt rotationSpeed 33.3 then 2
      else if js_gt rotationSpeed 0 then 1
      else 0)"

definition setRotationSpeed :: "server \<Rightarrow> jsval \<Rightarrow> state \<Rightarrow> (unit called \<times> state) outcome" where
  "setRotationSpeed srv rotationSpeed st =
     (if truthy (get_prop (fst st) ''typeSupportsSpeedControl'')
         \<and> js_ge rotationSpeed 0 \<and> js_le rotationSpeed 100 then
        pass_callback (updateStatus srv [(''speedIndex'', JNum (index_of_speed rotationSpeed))] st)
      else Returned (CalledError ''Accessory does not support rotation speed'', st))"

subsection \<open>Thermostat\<close>

definition getCurrentHeatingCooling :: "server \<Rightarrow> state \<Rightarrow> (jsval called \<times> state) outcome" where
  "getCurrentHeatingCooling srv st =
     if_error (getStatus srv None st)
       (\<lambda>(acc, pl).
          (let mode = (if truthy (get_prop acc ''hvacHeaterIsOn'') then HC_HEAT
                       else if truthy (get_prop acc ''hvacCoolerIsOn'') then HC_COOL
                       else HC_OFF)
           in (Called mode,
               (acc, log_line ''%s: getCurrentHeatingCooling() => %s'' [JStr (name acc), mode] pl))))"

definition getTargetHeatingCooling :: "server \<Rightarrow> state \<Rightarrow> (jsval called \<times> state) outcome" where
  "getTargetHeatingCooling srv st =
     if_error (getStatus srv None st)
       (\<lambda>(acc, pl).
          (let mode =
             (if truthy (get_prop acc ''hvacOperationModeIsHeat'')
                 \<or> truthy (get_prop acc ''hvacOperationModeIsProgramHeat'') then HC_HEAT
              else if truthy (get_prop acc ''hvacOperationModeIsCool'')
                 \<or> truthy (get_prop acc ''hvacOperationModeIsProgramCool'') then HC_COOL
              else if truthy (get_prop acc ''hvacOperationModeIsAuto'')
                 \<or> truthy (get_prop acc ''hvacOperationModeIsProgramAuto'') then HC_AUTO
              else HC_OFF)
           in (Called mode,
               (acc, log_line ''%s: getTargetHeatingCooling() => %s'' [JStr (name acc), mode] pl))))"

definition setTargetHeatingCooling ::
  "server \<Rightarrow> jsval \<Rightarrow> state \<Rightarrow> (unit called \<times> state) outcome" where
  "setTargetHeatingCooling srv mode st =
     (case st of (acc, pl0) \<Rightarrow>
        (let pl = log_line ''%s: setTargetHeatingCooling(%s)'' [JStr (name acc), mode] pl0;
             params = (if loose_eq mode HC_OFF
                         then Some [(''hvacOperationModeIsOff'', JStr ''true'')]
                       else if loose_eq mode HC_HEAT
                         then Some [(''hvacOperationModeIsHeat'', JStr ''true'')]
                       else if loose_eq mode HC_COOL
                         then Some [(''hvacOperationModeIsCool'', JStr ''true'')]
                       else if loose_eq mode HC_AUTO
                         then Some [(''hvacOperationModeIsAuto'', JStr ''true'')]
                       else None)
         in case params of
              Some q \<Rightarrow> pass_callback (updateStatus srv q (acc, pl))
            | None \<Rightarrow> Returned (CalledError ''Unknown target heating/cooling state'', (acc, pl))))"

text \<open>
  \<^verbatim>\<open>celsiusToIndigoTemp\<close> and \<^verbatim>\<open>indigoTempToCelsius\<close>; the first argument is
  \<^verbatim>\<open>this.thermostatsInCelsius\<close>.
\<close>

definition celsiusToIndigoTemp :: "bool \<Rightarrow> jsval \<Rightarrow> jsval" where
  "celsiusToIndigoTemp inCelsius temperature =
     (if inCelsius then temperature
      else of_number
             (map_option
                (\<lambda>t. double_div
                       (Math_round (double_mul (double_add (double_div (double_mul t 9) 5) 32) 10))
                       10)
                (ToNumber temperature)))"

definition indigoTempToCelsius :: "bool \<Rightarrow> jsval \<Rightarrow> jsval" where
  "indigoTempToCelsius inCelsius temperature =
     (if inCelsius then temperature
      else of_number
             (map_option
                (\<lambda>t. double_div
                       (Math_round (double_mul (double_div (double_mul (double_sub t 32) 5) 9) 10))
                       10)
                (ToNumber temperature)))"

definition getTemperatureValue :: "server \<Rightarrow> string \<Rightarrow> state \<Rightarrow> (jsval called \<times> state) outcome" where
  "getTemperatureValue srv key st =
     (case query srv key st of
        Threw p \<Rightarrow> Threw p
      | Returned (CalledError error, st1) \<Rightarrow> Returned (CalledError error, st1)
      | Returned (NotCalled, st1) \<Rightarrow> Returned (NotCalled, st1)
      | Returned (Called temperature, (acc, pl)) \<Rightarrow>
          (let t = indigoTempToCelsius (thermostatsInCelsius acc) temperature
           in Returned (Called t,
                (acc, log_line ''%s: getTemperatureValue(%s) => %s'' [JStr (name acc), JStr key, t] pl))))"

definition setTemperatureValue ::
  "server \<Rightarrow> string \<Rightarrow> jsval \<Rightarrow> state \<Rightarrow> (unit called \<times> state) outcome" where
  "setTemperatureValue srv key temperature st =
     (case st of (acc, pl) \<Rightarrow>
        pass_callback
          (updateStatus srv [(key, celsiusToIndigoTemp (thermostatsInCelsius acc) temperature)]
             (acc, log_line ''%s: setTemperatureValue(%s, %s)''
                     [JStr (name acc), JStr key, temperature] pl)))"

definition getCurrentTemperature :: "server \<Rightarrow> state \<Rightarrow> (jsval called \<times> state) outcome" where
  "getCurrentTemperature srv = getTemperatureValue srv ''inputTemperatureVals''"

definition getTargetTemperature :: "server \<Rightarrow> state \<Rightarrow> (jsval called \<times> state) outcome" where
  "getTargetTemperature srv st =
     if_error (getStatus srv None st)
       (\<lambda>(acc, pl).
          (let temperature =
             (if truthy (get_prop acc ''hvacOperationModeIsHeat'')
                 \<or> truthy (get_prop acc ''hvacOperationModeIsProgramHeat'')
              then get_prop acc ''setpointHeat''
              else if truthy (get_prop acc ''hvacOperationModeIsCool'')
                 \<or> truthy (get_prop acc ''hvacOperationModeIsProgramCool'')
              then get_prop acc ''setpointCool''
              else of_number (map_option (\<lambda>x. double_div x 2)
                     (ToNumber (js_add (get_prop acc ''setpointHeat'') (get_prop acc ''setpointCool'')))));
               t = indigoTempToCelsius (thermostatsInCelsius acc) temperature
           in (Called t,
               (acc, log_line ''%s: getTargetTemperature() => %s'' [JStr (name acc), t] pl))))"

text \<open>
  \<^verbatim>\<open>setTargetTemperature\<close>: the query string it builds once the status has arrived, and
  the handler.
\<close>

definition setTargetTemperature_qs :: "accessory \<Rightarrow> jsval \<Rightarrow> (string \<times> jsval) list" where
  "setTargetTemperature_qs acc t =
     (if truthy (get_prop acc ''hvacOperationModeIsHeat'') then [(''setpointHeat'', t)]
      else if truthy (get_prop acc ''hvacOperationModeIsCool'') then [(''setpointCool'', t)]
      else (let adjust = JNum (if thermostatsInCelsius acc then 2 else 5)
            in [(''setpointCool'', js_add t adjust), (''setpointHeat'', js_sub t adjust)]))"

definition setTargetTemperature ::
  "server \<Rightarrow> jsval \<Rightarrow> state \<Rightarrow> (unit called \<times> state) outcome" where
  "setTargetTemperature srv temperature st =
     (case st of (acc0, pl0) \<Rightarrow>
        (let t = celsiusToIndigoTemp (thermostatsInCelsius acc0) temperature in
         case getStatus srv None
                (acc0, log_line ''%s: setTargetTemperature(%s)'' [JStr (name acc0), temperature] pl0) of
           Threw p \<Rightarrow> Threw p
         | Returned (Some error, st1) \<Rightarrow> Returned (CalledError error, st1)
         | Returned (None, (acc, pl)) \<Rightarrow>
             pass_callback (updateStatus srv (setTargetTemperature_qs acc t) (acc, pl))))"

definition getTemperatureDisplayUnits :: "state \<Rightarrow> jsval called \<times> state" where
  "getTemperatureDisplayUnits st =
     (case st of (acc, pl) \<Rightarrow>
        (Called (temperatureDisplayUnits acc),
         (acc, log_line ''%s: getTemperatureDisplayUnits() => %s''
                 [JStr (name acc), temperatureDisplayUnits acc] pl)))"

definition setTemperatureDisplayUnits :: "jsval \<Rightarrow> state \<Rightarrow> unit called \<times> state" where
  "setTemperatureDisplayUnits units st =
     (case st of (acc, pl) \<Rightarrow>
        (Called (),
         (acc\<lparr>temperatureDisplayUnits := units\<rparr>,
          log_line ''%s: setTemperatureDisplayUnits(%s)'' [JStr (name acc), units] pl)))"

definition getCoolingThresholdTemperature :: "server \<Rightarrow> state \<Rightarrow> (jsval called \<times> state) outcome" where
  "getCoolingThresholdTemperature srv = getTemperatureValue srv ''setpointCool''"

definition setCoolingThresholdTemperature ::
  "server \<Rightarrow> jsval \<Rightarrow> state \<Rightarrow> (unit called \<times> state) outcome" where
  "setCoolingThresholdTemperature srv = setTemperatureValue srv ''setpointCool''"

definition getHeatingThresholdTemperature :: "server \<Rightarrow> state \<Rightarrow> (jsval called \<times> state) outcome" where
  "getHeatingThresholdTemperature srv = getTemperatureValue srv ''setpointHeat''"

definition setHeatingThresholdTemperature ::
  "server \<Rightarrow> jsval \<Rightarrow> state \<Rightarrow> (unit called \<times> state) outcome" where
  "setHeatingThresholdTemperature srv = setTemperatureValue srv ''setpointHeat''"

definition getCurrentRelativeHumidity :: "server \<Rightarrow> state \<Rightarrow> (jsval called \<times> state) outcome" where
  "getCurrentRelativeHumidity srv st =
     (if truthy (get_prop (fst st) ''displayHumidityInRemoteUI'')
      then query srv ''inputHumidityVals'' st
      else Returned (CalledError ''Accessory does not support current relative humidity'', st))"

subsection \<open>Action\<close>

definition getActionState :: "state \<Rightarrow> jsval called \<times> state" where
  "getActionState st =
     (case st of (acc, pl) \<Rightarrow>
        (Called (JBool False),
         (acc, log_line ''%s: getActionState() => %s'' [JStr (name acc), JBool False] pl)))"

text \<open>
  \<^verbatim>\<open>executeAction\<close>: the callback of the EXECUTE request only logs, and the handler's own
  callback is called at once; the framework always passes one.
\<close>

definition executeAction :: "server \<Rightarrow> jsval \<Rightarrow> jsval \<Rightarrow> state \<Rightarrow> unit called \<times> state" where
  "executeAction srv v context st =
     (case st of (acc, pl0) \<Rightarrow>
        (let pl = log_line ''%s: executeAction(%s)'' [JStr (name acc), v] pl0 in
         if truthy v \<and> \<not> strict_eq context REFRESH_CONTEXT then
           (case indigoRequest srv (deviceURL acc) ''EXECUTE'' None pl of
              (Failure error, pl1) \<Rightarrow>
                (Called (), (setTimeout On (JBool False) acc,
                             log_line ''Error executing action group: %s'' [JStr error] pl1))
            | (Response body, pl1) \<Rightarrow> (Called (), (setTimeout On (JBool False) acc, pl1)))
         else (Called (), (acc, pl))))"

section \<open>The framework's characteristics\<close>

text \<open>
  The handler each constructor attaches with \<^verbatim>\<open>.on('set', ...)\<close>, by class of accessory
  and characteristic. The handlers of the fan's speed and of the thermostat take no
  context argument.
\<close>

definition position_set_handler ::
  "characteristic \<Rightarrow> (server \<Rightarrow> jsval \<Rightarrow> jsval \<Rightarrow> state \<Rightarrow> (unit called \<times> state) outcome) option" where
  "position_set_handler c = (if c = TargetPosition then Some setTargetPosition else None)"

definition thermostat_set_handler ::
  "characteristic \<Rightarrow> (server \<Rightarrow> jsval \<Rightarrow> jsval \<Rightarrow> state \<Rightarrow> (unit called \<times> state) outcome) option" where
  "thermostat_set_handler c =
     (if c = TargetHeatingCoolingState then Some (\<lambda>srv v context. setTargetHeatingCooling srv v)
      else if c = TargetTemperature then Some (\<lambda>srv v context. setTargetTemperature srv v)
      else if c = TemperatureDisplayUnits
        then Some (\<lambda>srv v context st. Returned (setTemperatureDisplayUnits v st))
      else if c = CoolingThresholdTemperature
        then Some (\<lambda>srv v context. setCoolingThresholdTemperature srv v)
      else if c = HeatingThresholdTemperature
        then Some (\<lambda>srv v context. setHeatingThresholdTemperature srv v)
      else None)"

definition set_handler ::
  "accessory \<Rightarrow> characteristic
     \<Rightarrow> (server \<Rightarrow> jsval \<Rightarrow> jsval \<Rightarrow> state \<Rightarrow> (unit called \<times> state) outcome) option" where
  "set_handler acc c =
     (case variant acc of
        ActionAccessory \<Rightarrow>
          (if c = On then Some (\<lambda>srv v context st. Returned (executeAction srv v context st))
           else None)
      | SwitchAccessory \<Rightarrow> (if c = On then Some setOnState else None)
      | LockAccessory \<Rightarrow> (if c = LockTargetState then Some setLockTargetState else None)
      | DoorAccessory \<Rightarrow> position_set_handler c
      | GarageDoorAccessory \<Rightarrow> (if c = TargetDoorState then Some setTargetDoorState else None)
      | WindowAccessory \<Rightarrow> position_set_handler c
      | WindowCoveringAccessory \<Rightarrow> position_set_handler c
      | LightAccessory \<Rightarrow>
          (if c = On then Some setOnState
           else if c = Brightness \<and> brightnessHandlers acc then Some setBrightness
           else None)
      | FanAccessory \<Rightarrow>
          (if c = On then Some setOnState
           else if c = RotationSpeed then Some (\<lambda>srv v context. setRotationSpeed srv v)
           else None)
      | ThermostatAccessory \<Rightarrow> thermostat_set_handler c)"

text \<open>The handler each constructor attaches with \<^verbatim>\<open>.on('get', ...)\<close>.\<close>

definition position_get_handler ::
  "characteristic \<Rightarrow> (server \<Rightarrow> state \<Rightarrow> (jsval called \<times> state) outcome) option" where
  "position_get_handler c =
     (if c = CurrentPosition then Some getPosition
      else if c = PositionState then Some (\<lambda>srv st. Returned (getPositionState st))
      else if c = TargetPosition then Some getPosition
      else None)"

definition thermostat_get_handler ::
  "accessory \<Rightarrow> characteristic
     \<Rightarrow> (server \<Rightarrow> state \<Rightarrow> (jsval called \<times> state) outcome) option" where
  "thermostat_get_handler acc c =
     (if c = CurrentHeatingCoolingState then Some getCurrentHeatingCooling
      else if c = TargetHeatingCoolingState then Some getTargetHeatingCooling
      else if c = CurrentTemperature then Some getCurrentTemperature
      else if c = TargetTemperature then Some getTargetTemperature
      else if c = TemperatureDisplayUnits
        then Some (\<lambda>srv st. Returned (getTemperatureDisplayUnits st))
      else if c = CoolingThresholdTemperature then Some getCoolingThresholdTemperature
      else if c = HeatingThresholdTemperature then Some getHeatingThresholdTemperature
      else if c = CurrentRelativeHumidity \<and> humidityHandlers acc
        then Some getCurrentRelativeHumidity
      else None)"

definition get_handler ::
  "accessory \<Rightarrow> characteristic
     \<Rightarrow> (server \<Rightarrow> state \<Rightarrow> (jsval called \<times> state) outcome) option" where
  "get_handler acc c =
     (case variant acc of
        ActionAccessory \<Rightarrow>
          (if c = On then Some (\<lambda>srv st. Returned (getActionState st)) else None)
      | SwitchAccessory \<Rightarrow> (if c = On then Some getOnState else None)
      | LockAccessory \<Rightarrow>
          (if c = LockCurrentState then Some getLockCurrentState
           else if c = LockTargetState then Some getLockTargetState
           else None)
      | DoorAccessory \<Rightarrow> position_get_handler c
      | GarageDoorAccessory \<Rightarrow>
          (if c = CurrentDoorState then Some getCurrentDoorState
           else if c = TargetDoorState then Some getTargetDoorState
           else if c = ObstructionDetected
             then Some (\<lambda>srv st. Returned (getObstructionDetected st))
           else None)
      | WindowAccessory \<Rightarrow> position_get_handler c
      | WindowCoveringAccessory \<Rightarrow> position_get_handler c
      | LightAccessory \<Rightarrow>
          (if c = On then Some getOnState
           else if c = Brightness \<and> brightnessHandlers acc then Some getBrightness
           else None)
      | FanAccessory \<Rightarrow>
          (if c = On then Some getOnState
           else if c = RotationSpeed then Some getRotationSpeed
           else None)
      | ThermostatAccessory \<Rightarrow> thermostat_get_handler acc c)"

text \<open>
  \<^verbatim>\<open>characteristic.setValue(value, undefined, context)\<close>: the framework hands the value and
  the context to the set handler, if the characteristic has one. What the handler tells
  its callback is dropped, since no callback was given to \<^verbatim>\<open>setValue\<close>.
\<close>

definition setValue :: "server \<Rightarrow> characteristic \<Rightarrow> jsval \<Rightarrow> jsval \<Rightarrow> state \<Rightarrow> state outcome" where
  "setValue srv c v context st =
     (case st of (acc0, pl) \<Rightarrow>
        (let acc = acc0\<lparr>setValueCalls := setValueCalls acc0 @ [(c, v, context)]\<rparr> in
         case set_handler acc c of
           None \<Rightarrow> Returned (acc, pl)
         | Some handler \<Rightarrow> map_outcome snd (handler srv v context (acc, pl))))"

text \<open>A timer set by \<open>setTimeout\<close> goes off.\<close>

definition fire_timer :: "server \<Rightarrow> characteristic \<times> jsval \<Rightarrow> state \<Rightarrow> state outcome" where
  "fire_timer srv t st = setValue srv (fst t) (snd t) REFRESH_CONTEXT st"

section \<open>Mirroring a change of the device\<close>

text \<open>The \<^verbatim>\<open>update_isOn\<close> and \<^verbatim>\<open>update_brightness\<close> methods of the classes.\<close>

definition Switch_update_isOn :: "server \<Rightarrow> jsval \<Rightarrow> state \<Rightarrow> state outcome" where
  "Switch_update_isOn srv isOn st = setValue srv On (JBool (truthy isOn)) REFRESH_CONTEXT st"

definition Lock_update_isOn :: "server \<Rightarrow> jsval \<Rightarrow> state \<Rightarrow> state outcome" where
  "Lock_update_isOn srv isOn st =
     and_then
       (setValue srv LockCurrentState (if truthy isOn then SECURED else UNSECURED) REFRESH_CONTEXT st)
       (setValue srv LockTargetState (if truthy isOn then SECURED else UNSECURED) REFRESH_CONTEXT)"

definition Position_update_isOn :: "server \<Rightarrow> jsval \<Rightarrow> state \<Rightarrow> state outcome" where
  "Position_update_isOn srv isOn st =
     (if \<not> truthy (get_prop (fst st) ''typeSupportsDim'') then
        and_then
          (setValue srv CurrentPosition (JNum (if truthy isOn then 100 else 0)) REFRESH_CONTEXT st)
          (setValue srv TargetPosition (JNum (if truthy isOn then 100 else 0)) REFRESH_CONTEXT)
      else Returned st)"

definition Position_update_brightness :: "server \<Rightarrow> jsval \<Rightarrow> state \<Rightarrow> state outcome" where
  "Position_update_brightness srv brightness st =
     and_then (setValue srv CurrentPosition brightness REFRESH_CONTEXT st)
       (setValue srv TargetPosition brightness REFRESH_CONTEXT)"

definition GarageDoor_update_isOn :: "server \<Rightarrow> jsval \<Rightarrow> state \<Rightarrow> state outcome" where
  "GarageDoor_update_isOn srv isOn st =
     and_then
       (setValue srv CurrentDoorState (if truthy isOn then DOOR_OPEN else DOOR_CLOSED)
          REFRESH_CONTEXT st)
       (setValue srv TargetDoorState (if truthy isOn then DOOR_OPEN else DOOR_CLOSED)
          REFRESH_CONTEXT)"

definition Light_update_isOn :: "server \<Rightarrow> jsval \<Rightarrow> state \<Rightarrow> state outcome" where
  "Light_update_isOn srv isOn st = setValue srv On (JBool (truthy isOn)) REFRESH_CONTEXT st"

definition Light_update_brightness :: "server \<Rightarrow> jsval \<Rightarrow> state \<Rightarrow> state outcome" where
  "Light_update_brightness srv brightness st = setValue srv Brightness brightness REFRESH_CONTEXT st"

text \<open>The method \<^verbatim>\<open>update_KEY\<close> of a class, if the class has one.\<close>

definition position_update_method ::
  "string \<Rightarrow> (server \<Rightarrow> jsval \<Rightarrow> state \<Rightarrow> state outcome) option" where
  "position_update_method prop =
     (if prop = ''isOn'' then Some Position_update_isOn
      else if prop = ''brightness'' then Some Position_update_brightness
      else None)"

definition update_method ::
  "variant \<Rightarrow> string \<Rightarrow> (server \<Rightarrow> jsval \<Rightarrow> state \<Rightarrow> state outcome) option" where
  "update_method v prop =
     (case v of
        ActionAccessory \<Rightarrow> None
      | SwitchAccessory \<Rightarrow> (if prop = ''isOn'' then Some Switch_update_isOn else None)
      | LockAccessory \<Rightarrow> (if prop = ''isOn'' then Some Lock_update_isOn else None)
      | DoorAccessory \<Rightarrow> position_update_method prop
      | GarageDoorAccessory \<Rightarrow> (if prop = ''isOn'' then Some GarageDoor_update_isOn else None)
      | WindowAccessory \<Rightarrow> position_update_method prop
      | WindowCoveringAccessory \<Rightarrow> position_update_method prop
      | LightAccessory \<Rightarrow>
          (if prop = ''isOn'' then Some Light_update_isOn
           else if prop = ''brightness'' then Some Light_update_brightness
           else None)
      | FanAccessory \<Rightarrow> None
      | ThermostatAccessory \<Rightarrow> None)"

text \<open>
  The update callback of \<^verbatim>\<open>refresh\<close>. \<^verbatim>\<open>this[updateFunction]\<close> finds a property copied
  from the JSON before it finds a method: calling such a property is a TypeError when it
  is truthy, and the method is hidden when it is not.
\<close>

definition refresh_updateCallback :: "server \<Rightarrow> string \<Rightarrow> jsval \<Rightarrow> state \<Rightarrow> state outcome" where
  "refresh_updateCallback srv prop v st =
     (case st of (acc, pl) \<Rightarrow>
        (let updateFunction = ''update_'' @ prop in
         case map_of (props acc) updateFunction of
           Some own \<Rightarrow> (if truthy own then Threw pl else Returned st)
         | None \<Rightarrow>
             (case update_method (variant acc) prop of
                None \<Rightarrow> Returned st
              | Some update \<Rightarrow>
                  update srv v
                    (acc, log_line ''%s: %s(%s)'' [JStr (name acc), JStr updateFunction, v] pl))))"

text \<open>\<^verbatim>\<open>IndigoAccessory.prototype.refresh\<close>.\<close>

definition refresh :: "server \<Rightarrow> state \<Rightarrow> (string option \<times> state) outcome" where
  "refresh srv st =
     (case st of (acc, pl) \<Rightarrow>
        getStatus srv (Some (refresh_updateCallback srv))
          (acc, log_line ''%s: refresh()'' [JStr (name acc)] pl))"

section \<open>Discovery\<close>

text \<open>
  The constructor \<^verbatim>\<open>IndigoAccessory\<close>; \<open>None\<close> is an exception. The framework's
  \<^verbatim>\<open>Accessory\<close> constructor throws when the display name is missing or empty; the empty
  name of the blank object stands for the missing one.
\<close>

definition IndigoAccessory :: "variant \<Rightarrow> platform \<Rightarrow> string \<Rightarrow> jsval \<Rightarrow> accessory option" where
  "IndigoAccessory v pl devURL json =
     (case updateFromJSON json None
             (\<lparr>variant = v, deviceURL = devURL, name = [], props = [],
               thermostatsInCelsius = False, temperatureDisplayUnits = JUndefined,
               brightnessHandlers = False, humidityHandlers = False,
               setValueCalls = [], timers = []\<rparr>, pl) of
        Threw p \<Rightarrow> None
      | Returned (acc, pl1) \<Rightarrow> if name acc = [] then None else Some acc)"

definition IndigoLightAccessory :: "platform \<Rightarrow> string \<Rightarrow> jsval \<Rightarrow> accessory option" where
  "IndigoLightAccessory pl devURL json =
     map_option (\<lambda>acc. acc\<lparr>brightnessHandlers := truthy (get_prop acc ''typeSupportsDim'')\<rparr>)
       (IndigoAccessory LightAccessory pl devURL json)"

definition IndigoThermostatAccessory ::
  "platform \<Rightarrow> string \<Rightarrow> jsval \<Rightarrow> bool \<Rightarrow> accessory option" where
  "IndigoThermostatAccessory pl devURL json inCelsius =
     map_option
       (\<lambda>acc. acc\<lparr>thermostatsInCelsius := inCelsius,
                  temperatureDisplayUnits := (if inCelsius then CELSIUS else FAHRENHEIT),
                  humidityHandlers := truthy (get_prop acc ''displayHumidityInRemoteUI'')\<rparr>)
       (IndigoAccessory ThermostatAccessory pl devURL json)"

text \<open>A property of a JSON value that is known not to be \<^verbatim>\<open>null\<close>.\<close>

definition fld :: "jsval \<Rightarrow> string \<Rightarrow> jsval" where
  "fld json k = (case field json k of None \<Rightarrow> JUndefined | Some v \<Rightarrow> v)"

text \<open>\<^verbatim>\<open>IndigoPlatform.prototype.includeItemId\<close>.\<close>

definition includeItemId :: "platform \<Rightarrow> jsval \<Rightarrow> bool" where
  "includeItemId pl ident =
     (if (case includeIds pl of None \<Rightarrow> False | Some ids \<Rightarrow> \<not> array_has ids (js_String ident))
        then False
      else if (case excludeIds pl of None \<Rightarrow> False | Some ids \<Rightarrow> array_has ids (js_String ident))
        then False
      else True)"

text \<open>
  \<^verbatim>\<open>json.typeSupportsOnOff && ids && (ids.indexOf(String(json.id)) >= 0)\<close>
\<close>

definition treatAs :: "string list option \<Rightarrow> jsval \<Rightarrow> bool" where
  "treatAs ids json =
     (truthy (fld json ''typeSupportsOnOff'')
      \<and> (case ids of None \<Rightarrow> False | Some xs \<Rightarrow> array_has xs (js_String (fld json ''id''))))"

text \<open>
  \<^verbatim>\<open>IndigoPlatform.prototype.createAccessoryFromJSON\<close>: \<open>None\<close> is an exception,
  \<open>Some None\<close> is \<^verbatim>\<open>null\<close>.
\<close>

definition createAccessoryFromJSON ::
  "platform \<Rightarrow> string \<Rightarrow> jsval \<Rightarrow> accessory option option" where
  "createAccessoryFromJSON pl devURL json =
     (case field json ''restParent'' of
        None \<Rightarrow> None
      | Some restParent \<Rightarrow>
          if loose_eq restParent (JStr ''actions'')
            then map_option Some (IndigoAccessory ActionAccessory pl devURL json)
          else if treatAs (treatAsSwitchIds pl) json
            then map_option Some (IndigoAccessory SwitchAccessory pl devURL json)
          else if treatAs (treatAsLockIds pl) json
            then map_option Some (IndigoAccessory LockAccessory pl devURL json)
          else if treatAs (treatAsDoorIds pl) json
            then map_option Some (IndigoAccessory DoorAccessory pl devURL json)
          else if treatAs (treatAsGarageDoorIds pl) json
            then map_option Some (IndigoAccessory GarageDoorAccessory pl devURL json)
          else if treatAs (treatAsWindowIds pl) json
            then map_option Some (IndigoAccessory WindowAccessory pl devURL json)
          else if treatAs (treatAsWindowCoveringIds pl) json
            then map_option Some (IndigoAccessory WindowCoveringAccessory pl devURL json)
          else if truthy (fld json ''typeSupportsHVAC'')
            then map_option Some
                   (IndigoThermostatAccessory pl devURL json (platform_thermostatsInCelsius pl))
          else if truthy (fld json ''typeSupportsSpeedControl'')
            then map_option Some (IndigoAccessory FanAccessory pl devURL json)
          else if truthy (fld json ''typeSupportsDim'') \<or> truthy (fld json ''typeSupportsOnOff'')
            then map_option Some (IndigoLightAccessory pl devURL json)
          else Some None)"

text \<open>\<^verbatim>\<open>json.type = "Action"\<close>\<close>

fun set_field :: "jsval \<Rightarrow> string \<Rightarrow> jsval \<Rightarrow> jsval" where
  "set_field (JObj kvs) k v = JObj (obj_put kvs k v)"
| "set_field json k v = json"

text \<open>
  \<^verbatim>\<open>IndigoPlatform.prototype.addAccessory\<close>: it always calls \<^verbatim>\<open>callback()\<close> without an
  error, so the result is the platform alone.
\<close>

definition addAccessory :: "server \<Rightarrow> jsval \<Rightarrow> platform \<Rightarrow> platform outcome" where
  "addAccessory srv item pl =
     (case field item ''restURL'' of
        None \<Rightarrow> Threw pl
      | Some restURL \<Rightarrow>
          (case indigoRequestJSON srv (js_String restURL) ''GET'' None None pl of
             (Inl error, pl1) \<Rightarrow>
               Returned (log_line ''Ignoring accessory %s due to error'' [restURL] pl1)
           | (Inr json0, pl1) \<Rightarrow>
               (case field json0 ''restParent'' of
                  None \<Rightarrow> Threw pl1
                | Some restParent \<Rightarrow>
                    (let json = (if loose_eq restParent (JStr ''actions'')
                                 then set_field json0 ''type'' (JStr ''Action'') else json0);
                         pl2 = log_line ''Discovered %s (ID %s): %s''
                                 [fld json ''type'', fld json ''id'', fld json ''name''] pl1
                     in if includeItemId pl2 (fld json ''id'') then
                          (case createAccessoryFromJSON pl2 (js_String restURL) json of
                             None \<Rightarrow> Threw pl2
                           | Some None \<Rightarrow>
                               Returned (log_line ''Ignoring unknown accessory type %s''
                                       [fld json ''type''] pl2)
                           | Some (Some accessory) \<Rightarrow>
                               Returned (pl2\<lparr>foundAccessories := foundAccessories pl2 @ [accessory],
                                         accessoryMap := (accessoryMap pl2)
                                            (js_String (fld json ''id'') \<mapsto> accessory)\<rparr>))
                        else Returned (log_line ''Ignoring excluded ID %s'' [fld json ''id''] pl2)))))"

text \<open>\<^verbatim>\<open>async.eachSeries(json, this.addAccessory.bind(this), ...)\<close>\<close>

fun eachSeries_addAccessory :: "server \<Rightarrow> jsval list \<Rightarrow> platform \<Rightarrow> platform outcome" where
  "eachSeries_addAccessory srv [] pl = Returned pl"
| "eachSeries_addAccessory srv (item # items) pl =
     (case addAccessory srv item pl of
        Threw p \<Rightarrow> Threw p
      | Returned pl1 \<Rightarrow> eachSeries_addAccessory srv items pl1)"

text \<open>The items \<^verbatim>\<open>eachSeries\<close> visits: a listing that is not an array has none.\<close>

fun items_of :: "jsval \<Rightarrow> jsval list" where
  "items_of (JArr xs) = xs"
| "items_of json = []"

text \<open>The \<^verbatim>\<open>jsonFixer\<close> of \<^verbatim>\<open>discoverAccessories\<close>.\<close>

definition jsonFixer :: "string \<Rightarrow> string" where
  "jsonFixer body =
     (let firstComma = indexOf body (CHR '','') in
      if firstComma > 0 \<and> firstComma < 5
        then substr body 0 (nat firstComma) @ substr_from body (nat firstComma + 1)
      else body)"

text \<open>
  \<^verbatim>\<open>IndigoPlatform.prototype.discoverAccessories\<close>: the first component is the argument
  of \<^verbatim>\<open>callback\<close>.
\<close>

definition discoverAccessories ::
  "server \<Rightarrow> string \<Rightarrow> platform \<Rightarrow> (string option \<times> platform) outcome" where
  "discoverAccessories srv requestURL pl =
     (case indigoRequestJSON srv requestURL ''GET'' None (Some jsonFixer) pl of
        (Inl error, pl1) \<Rightarrow> Returned (Some error, pl1)
      | (Inr json, pl1) \<Rightarrow>
          map_outcome (Pair None) (eachSeries_addAccessory srv (items_of json) pl1))"

text \<open>\<^verbatim>\<open>async.eachSeries(requestURLs, ...)\<close>: the first error ends the series.\<close>

fun eachSeries_discover ::
  "server \<Rightarrow> string list \<Rightarrow> platform \<Rightarrow> (string option \<times> platform) outcome" where
  "eachSeries_discover srv [] pl = Returned (None, pl)"
| "eachSeries_discover srv (requestURL # rest) pl =
     (case discoverAccessories srv requestURL pl of
        Threw p \<Rightarrow> Threw p
      | Returned (Some asyncError, pl1) \<Rightarrow> Returned (Some asyncError, pl1)
      | Returned (None, pl1) \<Rightarrow> eachSeries_discover srv rest pl1)"

text \<open>
  The final callback of \<^verbatim>\<open>accessories\<close>: the list handed to the framework, and the
  platform. \<^verbatim>\<open>sort\<close> with the comparator \<^verbatim>\<open>(a.name > b.name) - (a.name < b.name)\<close> orders
  by name, code unit by code unit; accessories of the same name keep their order.
\<close>

definition accessories_done :: "string option \<Rightarrow> platform \<Rightarrow> accessory list \<times> platform" where
  "accessories_done asyncError pl0 =
     (let pl1 = (case asyncError of None \<Rightarrow> pl0 | Some e \<Rightarrow> log_line e [] pl0);
          pl2 = (if length (foundAccessories pl1) > 99 then
                   (log_line ''*** See README.md for how to filter your list. ***'' []
                     (log_line ''*** Limiting to the first 99 discovered. ***'' []
                       (log_line ''*** WARNING *** you have %s accessories.''
                          [JNum (real (length (foundAccessories pl1)))] pl1)))
                   \<lparr>foundAccessories := take 99 (foundAccessories pl1)\<rparr>
                 else pl1);
          pl3 = log_line ''Created %s accessories''
                  [JNum (real (length (foundAccessories pl2)))] pl2;
          sorted_list = sort_key name (foundAccessories pl3)
      in (sorted_list, pl3\<lparr>foundAccessories := sorted_list\<rparr>))"

text \<open>\<^verbatim>\<open>IndigoPlatform.prototype.accessories\<close>.\<close>

definition accessories :: "server \<Rightarrow> platform \<Rightarrow> (accessory list \<times> platform) outcome" where
  "accessories srv pl =
     (let requestURLs = [platform_path pl @ ''/devices.json/'']
                        @ (if includeActions pl then [platform_path pl @ ''/actions.json/''] else [])
      in case eachSeries_discover srv requestURLs pl of
           Threw p \<Rightarrow> Threw p
         | Returned (asyncError, pl1) \<Rightarrow> Returned (accessories_done asyncError pl1))"

section \<open>The update listener\<close>

text \<open>
  \<^verbatim>\<open>IndigoPlatform.prototype.updateAccessory\<close>: the status sent with
  \<^verbatim>\<open>response.sendStatus\<close>, and the platform with the refreshed accessory in its map.
\<close>

definition updateAccessory :: "server \<Rightarrow> string \<Rightarrow> platform \<Rightarrow> (nat \<times> platform) outcome" where
  "updateAccessory srv ident pl0 =
     (let pl = log_line ''Got update request for device ID %s'' [JStr ident] pl0 in
      case accessoryMap pl ident of
        None \<Rightarrow> Returned (404, pl)
      | Some accessory \<Rightarrow>
          (case refresh srv (accessory, pl) of
             Threw p \<Rightarrow> Threw p
           | Returned (Some error, (acc1, pl1)) \<Rightarrow>
               Returned (500, (log_line ''Error updating device ID %s: %s'' [JStr ident, JStr error] pl1)
                            \<lparr>accessoryMap := (accessoryMap pl1)(ident \<mapsto> acc1)\<rparr>)
           | Returned (None, (acc1, pl1)) \<Rightarrow>
               Returned (200, pl1\<lparr>accessoryMap := (accessoryMap pl1)(ident \<mapsto> acc1)\<rparr>)))"

section \<open>What an operation sends\<close>

text \<open>
  The platform an operation leaves behind, whether it returned or threw; the requests
  pushed to the queue between two platforms; those among them that are not GET requests
  (the plugin sends PUT and EXECUTE besides GET); and the options \<open>indigoRequest\<close> builds.
\<close>

definition platform_of :: "('a \<times> state) outcome \<Rightarrow> platform" where
  "platform_of r = (case r of Threw p \<Rightarrow> p | Returned (x, (acc, pl)) \<Rightarrow> pl)"

definition sent :: "platform \<Rightarrow> platform \<Rightarrow> options list" where
  "sent pl pl' = drop (length (requestQueue pl)) (requestQueue pl')"

definition writes :: "options list \<Rightarrow> options list" where
  "writes reqs = filter (\<lambda>r. http_method r \<noteq> ''GET'') reqs"

definition request_for ::
  "platform \<Rightarrow> string \<Rightarrow> string \<Rightarrow> (string \<times> jsval) list option \<Rightarrow> options" where
  "request_for pl path meth q =
     \<lparr>url = baseURL pl @ path, http_method = meth, auth = platform_auth pl, qs = q\<rparr>"

text \<open>Two accessory objects that differ at most in the copied properties and the name.\<close>

definition members_kept :: "accessory \<Rightarrow> accessory \<Rightarrow> bool" where
  "members_kept a b \<longleftrightarrow> b = a\<lparr>props := props b, name := name b\<rparr>"

text \<open>What an operation returned, if it returned.\<close>

definition result_of :: "'a outcome \<Rightarrow> 'a option" where
  "result_of r = (case r of Threw p \<Rightarrow> None | Returned x \<Rightarrow> Some x)"

text \<open>A reply that makes \<open>indigoRequestJSON\<close> call back with an error.\<close>

definition fetch_fails :: "reply \<Rightarrow> bool" where
  "fetch_fails r = (case r of Failure error \<Rightarrow> True | Response body \<Rightarrow> JSON_parse body = None)"

text \<open>
  The calls of \<open>setValue\<close> that the \<^verbatim>\<open>update_isOn\<close> method of an accessory's class makes
  when the device has turned on; a class without the method makes none.
\<close>

definition isOn_mirror :: "accessory \<Rightarrow> (characteristic \<times> jsval \<times> jsval) list" where
  "isOn_mirror acc =
     (case variant acc of
        ActionAccessory \<Rightarrow> []
      | SwitchAccessory \<Rightarrow> [(On, JBool True, REFRESH_CONTEXT)]
      | LockAccessory \<Rightarrow>
          [(LockCurrentState, SECURED, REFRESH_CONTEXT), (LockTargetState, SECURED, REFRESH_CONTEXT)]
      | DoorAccessory \<Rightarrow>
          (if truthy (get_prop acc ''typeSupportsDim'') then []
           else [(CurrentPosition, JNum 100, REFRESH_CONTEXT),
                 (TargetPosition, JNum 100, REFRESH_CONTEXT)])
      | GarageDoorAccessory \<Rightarrow>
          [(CurrentDoorState, DOOR_OPEN, REFRESH_CONTEXT),
           (TargetDoorState, DOOR_OPEN, REFRESH_CONTEXT)]
      | WindowAccessory \<Rightarrow>
          (if truthy (get_prop acc ''typeSupportsDim'') then []
           else [(CurrentPosition, JNum 100, REFRESH_CONTEXT),
                 (TargetPosition, JNum 100, REFRESH_CONTEXT)])
      | WindowCoveringAccessory \<Rightarrow>
          (if truthy (get_prop acc ''typeSupportsDim'') then []
           else [(CurrentPosition, JNum 100, REFRESH_CONTEXT),
                 (TargetPosition, JNum 100, REFRESH_CONTEXT)])
      | LightAccessory \<Rightarrow> [(On, JBool True, REFRESH_CONTEXT)]
      | FanAccessory \<Rightarrow> []
      | ThermostatAccessory \<Rightarrow> [])"

text \<open>
  What a refresh may change of the platform besides the log: nothing. In particular the
  queue of requests is the same.
\<close>

definition quiet :: "platform \<Rightarrow> platform \<Rightarrow> bool" where
  "quiet pl pl' \<longleftrightarrow>
     requestQueue pl' = requestQueue pl \<and> baseURL pl' = baseURL pl
     \<and> platform_auth pl' = platform_auth pl \<and> accessoryNamePrefix pl' = accessoryNamePrefix pl
     \<and> foundAccessories pl' = foundAccessories pl \<and> accessoryMap pl' = accessoryMap pl"

text \<open>
  A set handler that, given \<open>REFRESH_CONTEXT\<close>, calls back without an error, leaves the
  accessory alone and pushes no request.
\<close>

definition echo_suppressed ::
  "(server \<Rightarrow> jsval \<Rightarrow> jsval \<Rightarrow> state \<Rightarrow> (unit called \<times> state) outcome) \<Rightarrow> bool" where
  "echo_suppressed handler \<longleftrightarrow>
     (\<forall>srv v acc pl. \<exists>pl'. handler srv v REFRESH_CONTEXT (acc, pl) = Returned (Called (), (acc, pl'))
                         \<and> quiet pl pl')"

text \<open>The characteristics of an accessory whose set handler, if there is one, is such.\<close>

definition suppressing :: "accessory \<Rightarrow> characteristic \<Rightarrow> bool" where
  "suppressing acc c \<longleftrightarrow>
     (case set_handler acc c of None \<Rightarrow> True | Some handler \<Rightarrow> echo_suppressed handler)"

text \<open>
  Two accessory objects that differ at most in the copied properties, in the name, and
  in calls of \<open>setValue\<close> made with \<open>REFRESH_CONTEXT\<close>.
\<close>

definition echoes :: "accessory \<Rightarrow> accessory \<Rightarrow> bool" where
  "echoes acc acc' \<longleftrightarrow>
     variant acc' = variant acc \<and> deviceURL acc' = deviceURL acc
     \<and> thermostatsInCelsius acc' = thermostatsInCelsius acc
     \<and> temperatureDisplayUnits acc' = temperatureDisplayUnits acc
     \<and> brightnessHandlers acc' = brightnessHandlers acc
     \<and> humidityHandlers acc' = humidityHandlers acc \<and> timers acc' = timers acc
     \<and> (\<exists>calls. setValueCalls acc' = setValueCalls acc @ calls
                \<and> (\<forall>call \<in> set calls. snd (snd call) = REFRESH_CONTEXT))"

text \<open>
  The calls of \<open>setValue\<close> that the \<^verbatim>\<open>update_KEY\<close> method of an accessory's class makes for
  a new value of the property; \<open>isOn_mirror\<close> is the case of \<^verbatim>\<open>isOn\<close> and \<^verbatim>\<open>true\<close>.
\<close>

definition mirror_calls :: "accessory \<Rightarrow> string \<Rightarrow> jsval \<Rightarrow> (characteristic \<times> jsval \<times> jsval) list" where
  "mirror_calls acc prop v =
     (let position =
        (if prop = ''isOn'' then
           (if truthy (get_prop acc ''typeSupportsDim'') then []
            else [(CurrentPosition, JNum (if truthy v then 100 else 0), REFRESH_CONTEXT),
                  (TargetPosition, JNum (if truthy v then 100 else 0), REFRESH_CONTEXT)])
         else if prop = ''brightness'' then
           [(CurrentPosition, v, REFRESH_CONTEXT), (TargetPosition, v, REFRESH_CONTEXT)]
         else [])
      in case variant acc of
        ActionAccessory \<Rightarrow> []
      | SwitchAccessory \<Rightarrow>
          (if prop = ''isOn'' then [(On, JBool (truthy v), REFRESH_CONTEXT)] else [])
      | LockAccessory \<Rightarrow>
          (if prop = ''isOn'' then
             [(LockCurrentState, if truthy v then SECURED else UNSECURED, REFRESH_CONTEXT),
              (LockTargetState, if truthy v then SECURED else UNSECURED, REFRESH_CONTEXT)]
           else [])
      | DoorAccessory \<Rightarrow> position
      | GarageDoorAccessory \<Rightarrow>
          (if prop = ''isOn'' then
             [(CurrentDoorState, if truthy v then DOOR_OPEN else DOOR_CLOSED, REFRESH_CONTEXT),
              (TargetDoorState, if truthy v then DOOR_OPEN else DOOR_CLOSED, REFRESH_CONTEXT)]
           else [])
      | WindowAccessory \<Rightarrow> position
      | WindowCoveringAccessory \<Rightarrow> position
      | LightAccessory \<Rightarrow>
          (if prop = ''isOn'' then [(On, JBool (truthy v), REFRESH_CONTEXT)]
           else if prop = ''brightness'' then [(Brightness, v, REFRESH_CONTEXT)]
           else [])
      | FanAccessory \<Rightarrow> []
      | ThermostatAccessory \<Rightarrow> [])"

text \<open>
  The property \<open>k\<close> of an accessory once the properties \<open>kvs\<close> of a reply have been copied
  onto it by \<open>updateFromJSON\<close>: a value of the reply replaces the cached one when the two
  differ under \<^verbatim>\<open>!=\<close>, and \<^verbatim>\<open>name\<close> is not copied.
\<close>

definition fetched :: "accessory \<Rightarrow> (string \<times> jsval) list \<Rightarrow> string \<Rightarrow> jsval" where
  "fetched acc kvs k =
     (case map_of kvs k of
        None \<Rightarrow> get_prop acc k
      | Some v \<Rightarrow> if k \<noteq> ''name'' \<and> \<not> loose_eq v (get_prop acc k) then v else get_prop acc k)"

text \<open>
  The calls of \<open>setValue\<close> of a whole refresh: property by property in the order of the
  reply, the calls of the \<^verbatim>\<open>update_KEY\<close> method for each property that has changed.
\<close>

fun mirror_all ::
  "accessory \<Rightarrow> (string \<times> jsval) list \<Rightarrow> (characteristic \<times> jsval \<times> jsval) list" where
  "mirror_all acc [] = []"
| "mirror_all acc ((k, v) # rest) =
     (if k \<noteq> ''name'' \<and> \<not> loose_eq v (get_prop acc k)
      then mirror_calls (set_prop acc k v) k v @ mirror_all (set_prop acc k v) rest
      else mirror_all acc rest)"

text \<open>
  A property that the reply leaves as it is cached; and a list of properties none of
  which has a name that begins with \<^verbatim>\<open>update_\<close>, so that none hides an \<^verbatim>\<open>update_KEY\<close>
  method.
\<close>

definition steady :: "accessory \<Rightarrow> (string \<times> jsval) list \<Rightarrow> string \<Rightarrow> bool" where
  "steady acc kvs k =
     (case map_of kvs k of None \<Rightarrow> True | Some v \<Rightarrow> loose_eq v (get_prop acc k))"

definition plain :: "(string \<times> jsval) list \<Rightarrow> bool" where
  "plain ps = list_all (\<lambda>kv. take 7 (fst kv) \<noteq> ''update_'') ps"


definition platform_after :: "('a \<times> platform) outcome \<Rightarrow> platform" where
  "platform_after r = (case r of Threw p \<Rightarrow> p | Returned (x, pl) \<Rightarrow> pl)"

text \<open>The lines logged between two platforms, and the first line of the warning.\<close>

definition new_log :: "platform \<Rightarrow> platform \<Rightarrow> (string \<times> jsval list) list" where
  "new_log pl pl' = drop (length (logged pl)) (logged pl')"

definition warning_line :: "nat \<Rightarrow> string \<times> jsval list" where
  "warning_line n = (''*** WARNING *** you have %s accessories.'', [JNum (real n)])"


text \<open>What discovery leaves alone while every item is rejected.\<close>

definition discovery_frame :: "platform \<Rightarrow> platform \<Rightarrow> bool" where
  "discovery_frame pl pl' \<longleftrightarrow>
     includeIds pl' = includeIds pl \<and> excludeIds pl' = excludeIds pl
     \<and> foundAccessories pl' = foundAccessories pl \<and> accessoryMap pl' = accessoryMap pl"

text \<open>
  The settings of the platform that discovery reads and never writes; an accessory that
  \<open>createAccessoryFromJSON\<close> has built from a JSON whose \<^verbatim>\<open>id\<close> passes \<open>includeItemId\<close>; and
  a platform with the same settings all of whose accessories are such.
\<close>

definition same_settings :: "platform \<Rightarrow> platform \<Rightarrow> bool" where
  "same_settings pl pl' \<longleftrightarrow>
     includeIds pl' = includeIds pl \<and> excludeIds pl' = excludeIds pl
     \<and> treatAsSwitchIds pl' = treatAsSwitchIds pl \<and> treatAsLockIds pl' = treatAsLockIds pl
     \<and> treatAsDoorIds pl' = treatAsDoorIds pl
     \<and> treatAsGarageDoorIds pl' = treatAsGarageDoorIds pl
     \<and> treatAsWindowIds pl' = treatAsWindowIds pl
     \<and> treatAsWindowCoveringIds pl' = treatAsWindowCoveringIds pl
     \<and> platform_thermostatsInCelsius pl' = platform_thermostatsInCelsius pl
     \<and> accessoryNamePrefix pl' = accessoryNamePrefix pl"



section \<open>Example objects\<close>

definition example_platform :: platform where
  "example_platform =
     \<lparr>baseURL = ''http://127.0.0.1:8176'', platform_path = [], platform_auth = None,
      includeActions = False, includeIds = None, excludeIds = None,
      treatAsSwitchIds = None, treatAsLockIds = None, treatAsDoorIds = None,
      treatAsGarageDoorIds = None, treatAsWindowIds = None, treatAsWindowCoveringIds = None,
      platform_thermostatsInCelsius = False, accessoryNamePrefix = [],
      foundAccessories = [], accessoryMap = Map.empty, requestQueue = [], logged = []\<rparr>"

definition example_accessory :: "variant \<Rightarrow> string \<Rightarrow> (string \<times> jsval) list \<Rightarrow> accessory" where
  "example_accessory v n ps =
     \<lparr>variant = v, deviceURL = ''/devices/'' @ n @ ''.json'', name = n, props = ps,
      thermostatsInCelsius = False, temperatureDisplayUnits = FAHRENHEIT,
      brightnessHandlers = False, humidityHandlers = False, setValueCalls = [], timers = []\<rparr>"

definition example_fan :: accessory where
  "example_fan = example_accessory FanAccessory ''fan''
     [(''id'', JNum 11), (''typeSupportsSpeedControl'', JBool True), (''speedIndex'', JNum 0)]"

definition server_fan :: server where
  \<open>server_fan reqs = Response ''{"id":11,"typeSupportsSpeedControl":true,"speedIndex":2}''\<close>

definition example_thermostat :: accessory where
  "example_thermostat = example_accessory ThermostatAccessory ''hall''
     [(''id'', JNum 12), (''typeSupportsHVAC'', JBool True)]"

definition server_auto :: server where
  \<open>server_auto reqs = Response ''{"id":12,"typeSupportsHVAC":true,"hvacOperationModeIsAuto":true}''\<close>


definition server_home :: server where
  \<open>server_home reqs =
     (if url (last reqs) = ''http://127.0.0.1:8176/devices.json/''
      then Response ''[{"restURL":"/devices/lamp.json"}]''
      else Response ''{"id":10,"name":"lamp","typeSupportsOnOff":true,"isOn":false}'')\<close>

text \<open>
  A hundred accessories in the order of their discovery: ninety-nine named \<open>b\<close>, \<open>bb\<close>,
  \<open>bbb\<close> and so on, then one named \<open>a\<close>.
\<close>

definition example_found :: "accessory list" where
  "example_found =
     map (\<lambda>i. example_accessory SwitchAccessory (replicate i (CHR ''b'')) []) [1..<100]
     @ [example_accessory SwitchAccessory ''a'' []]"

definition example_full :: platform where
  "example_full = example_platform\<lparr>foundAccessories := example_found\<rparr>"

text \<open>
  A switch that is off and known to the platform; a server that reports it on, one that
  cannot be reached and one that answers with a page of HTML.
\<close>

definition example_switch :: accessory where
  "example_switch = example_accessory SwitchAccessory ''lamp''
     [(''id'', JNum 10), (''typeSupportsOnOff'', JBool True), (''isOn'', JBool False)]"

definition example_home :: platform where
  "example_home = example_platform\<lparr>foundAccessories := [example_switch],
     accessoryMap := [''10'' \<mapsto> example_switch]\<rparr>"

definition server_on :: server where
  \<open>server_on reqs = Response ''{"id":10,"name":"lamp","typeSupportsOnOff":true,"isOn":true}''\<close>

definition server_down :: server where
  "server_down reqs = Failure ''ECONNREFUSED''"

definition server_garbled :: server where
  "server_garbled reqs = Response ''<html>Unauthorized</html>''"

text \<open>
  A dimmer without \<^verbatim>\<open>typeSupportsOnOff\<close>, as \<open>createAccessoryFromJSON\<close> builds it from its
  JSON.
\<close>

definition example_dimmer_json :: jsval where
  "example_dimmer_json = JObj [(''id'', JNum 20), (''name'', JStr ''dimmer''),
     (''typeSupportsDim'', JBool True), (''brightness'', JNum 40)]"

definition example_dimmer :: accessory where
  "example_dimmer = (example_accessory LightAccessory ''dimmer''
     [(''id'', JNum 20), (''typeSupportsDim'', JBool True), (''brightness'', JNum 40)])
     \<lparr>temperatureDisplayUnits := JUndefined, brightnessHandlers := True\<rparr>"

text \<open>A fan and a lock that are off, and servers that report them on.\<close>

definition example_idle_fan :: accessory where
  "example_idle_fan = example_accessory FanAccessory ''fan''
     [(''id'', JNum 11), (''typeSupportsSpeedControl'', JBool True), (''isOn'', JBool False)]"

definition server_fan_on :: server where
  \<open>server_fan_on reqs = Response ''{"id":11,"typeSupportsSpeedControl":true,"isOn":true}''\<close>

definition example_lock :: accessory where
  "example_lock = example_accessory LockAccessory ''gate''
     [(''id'', JNum 13), (''typeSupportsOnOff'', JBool True), (''isOn'', JBool False)]"

definition server_locked :: server where
  \<open>server_locked reqs = Response ''{"id":13,"typeSupportsOnOff":true,"isOn":true}''\<close>

text \<open>Servers that report the thermostat in heat mode and in cool mode.\<close>

definition server_heat :: server where
  \<open>server_heat reqs = Response
     ''{"id":12,"typeSupportsHVAC":true,"hvacOperationModeIsHeat":true,"hvacOperationModeIsCool":false}''\<close>

definition server_cool :: server where
  \<open>server_cool reqs = Response
     ''{"id":12,"typeSupportsHVAC":true,"hvacOperationModeIsHeat":false,"hvacOperationModeIsCool":true}''\<close>




text \<open>
  A server that reports the switch on together with a property it did not have before,
  and one that reports the dimmer on and brighter.
\<close>

definition server_switched :: server where
  \<open>server_switched reqs = Response
     ''{"id":10,"name":"lamp","typeSupportsOnOff":true,"isOn":true,"lastChanged":"18:02"}''\<close>

definition server_dimmed :: server where
  \<open>server_dimmed reqs = Response
     ''{"id":20,"name":"dimmer","typeSupportsDim":true,"brightness":80,"isOn":true}''\<close>

section \<open>Evaluation and frame lemmas\<close>

lemmas model_defs =
  is_digit_def digit_value_def digits_value_def is_space_def decimal_value_def
  signed_decimal_value_def digit_char_def show_nat.simps show_num_def trim_def StringToNumber_def
  of_number_def loose_eq_def strict_eq_def js_ge_def js_le_def js_gt_def js_add_def js_sub_def
  Math_round_def indexOf_def substr_def substr_from_def array_has_def unescape_def is_numchar_def
  JSON_parse_def log_line_def indigoRequest_def indigoRequestJSON_def REFRESH_CONTEXT_def
  get_prop_def set_prop_def updateFromJSON_def getStatus_def updateStatus_def if_error_def
  pass_callback_def query_def getOnState_def setOnState_def and_then_def map_outcome_def
  UNSECURED_def SECURED_def DOOR_OPEN_def DOOR_CLOSED_def STOPPED_def HC_OFF_def HC_HEAT_def
  HC_COOL_def HC_AUTO_def CELSIUS_def FAHRENHEIT_def setTimeout_def
  speed_of_index_def getRotationSpeed_def index_of_speed_def setRotationSpeed_def
  celsiusToIndigoTemp_def indigoTempToCelsius_def setTargetTemperature_qs_def
  setTargetTemperature_def platform_of_def sent_def writes_def request_for_def
  example_platform_def example_accessory_def Let_def

lemma requestQueue_log_line [simp]: "requestQueue (log_line fmt args pl) = requestQueue pl"
  by (simp add: log_line_def)

lemma baseURL_log_line [simp]: "baseURL (log_line fmt args pl) = baseURL pl"
  by (simp add: log_line_def)

lemma platform_auth_log_line [simp]: "platform_auth (log_line fmt args pl) = platform_auth pl"
  by (simp add: log_line_def)

lemma indigoRequest_queue:
  "indigoRequest srv path meth q pl = (r, pl') \<Longrightarrow>
     requestQueue pl' = requestQueue pl @ [request_for pl path meth q]
     \<and> baseURL pl' = baseURL pl \<and> platform_auth pl' = platform_auth pl
     \<and> r = srv (requestQueue pl @ [request_for pl path meth q])"
  by (auto simp: indigoRequest_def request_for_def Let_def)

lemma indigoRequestJSON_queue:
  "indigoRequestJSON srv path meth q fixer pl = (r, pl') \<Longrightarrow>
     requestQueue pl' = requestQueue pl @ [request_for pl path meth q]
     \<and> baseURL pl' = baseURL pl \<and> platform_auth pl' = platform_auth pl"
  unfolding indigoRequestJSON_def
  by (auto simp: Let_def split: prod.splits reply.splits option.splits dest!: indigoRequest_queue)

lemma updateFromJSON_loop_None:
  "\<exists>ps. updateFromJSON_loop kvs None (acc, pl) = Returned (acc\<lparr>props := ps\<rparr>, pl)"
proof (induction kvs arbitrary: acc)
  case Nil
  have "acc = acc\<lparr>props := props acc\<rparr>" by simp
  then show ?case by (metis updateFromJSON_loop.simps(1))
next
  case (Cons kv kvs)
  obtain k v where kv: "kv = (k, v)" by (cases kv)
  show ?case
  proof (cases "k \<noteq> ''name'' \<and> \<not> loose_eq v (get_prop acc k)")
    case True
    from Cons.IH [of "set_prop acc k v"] obtain ps where
      "updateFromJSON_loop kvs None (set_prop acc k v, pl) = Returned ((set_prop acc k v)\<lparr>props := ps\<rparr>, pl)"
      by blast
    then show ?thesis using True kv by (auto simp: set_prop_def)
  next
    case False
    then show ?thesis using Cons.IH [of acc] kv by auto
  qed
qed

lemma members_kept_refl [simp]: "members_kept a a"
  by (simp add: members_kept_def)

lemma members_kept_props [simp]: "members_kept a (a\<lparr>props := ps\<rparr>)"
  by (simp add: members_kept_def)

lemma members_kept_props_name [simp]: "members_kept a (a\<lparr>props := ps, name := n\<rparr>)"
  by (simp add: members_kept_def)

lemma members_kept_fields:
  "members_kept a b \<Longrightarrow>
     variant b = variant a \<and> deviceURL b = deviceURL a
     \<and> thermostatsInCelsius b = thermostatsInCelsius a
     \<and> temperatureDisplayUnits b = temperatureDisplayUnits a
     \<and> brightnessHandlers b = brightnessHandlers a \<and> humidityHandlers b = humidityHandlers a
     \<and> setValueCalls b = setValueCalls a \<and> timers b = timers a"
  unfolding members_kept_def
  by (metis accessory.select_convs accessory.surjective accessory.update_convs)

lemma updateFromJSON_None:
  "updateFromJSON json None (acc, pl) = Threw pl
   \<or> (\<exists>acc'. updateFromJSON json None (acc, pl) = Returned (acc', pl) \<and> members_kept acc acc')"
proof -
  obtain ps where l: "updateFromJSON_loop (own_props json) None (acc, pl) = Returned (acc\<lparr>props := ps\<rparr>, pl)"
    using updateFromJSON_loop_None by blast
  show ?thesis
    by (cases "field json ''name''") (simp_all add: updateFromJSON_def l)
qed

lemma getStatus_None:
  "(\<exists>p. getStatus srv None (acc, pl) = Threw p
        \<and> requestQueue p = requestQueue pl @ [request_for pl (deviceURL acc) ''GET'' None]
        \<and> baseURL p = baseURL pl \<and> platform_auth p = platform_auth pl)
   \<or> (\<exists>e acc' pl'. getStatus srv None (acc, pl) = Returned (e, (acc', pl'))
        \<and> requestQueue pl' = requestQueue pl @ [request_for pl (deviceURL acc) ''GET'' None]
        \<and> baseURL pl' = baseURL pl \<and> platform_auth pl' = platform_auth pl
        \<and> members_kept acc acc' \<and> (e \<noteq> None \<longrightarrow> acc' = acc))"
proof -
  obtain r pl1 where rq: "indigoRequestJSON srv (deviceURL acc) ''GET'' None None pl = (r, pl1)"
    by (cases "indigoRequestJSON srv (deviceURL acc) ''GET'' None None pl")
  note q = indigoRequestJSON_queue [OF rq]
  show ?thesis
  proof (cases r)
    case (Inl error)
    then show ?thesis using rq q by (simp add: getStatus_def)
  next
    case (Inr json)
    then show ?thesis
      using rq q updateFromJSON_None [of json acc pl1]
      by (auto simp: getStatus_def map_outcome_def)
  qed
qed


lemma http_method_request_for [simp]: "http_method (request_for pl path meth q) = meth"
  by (simp add: request_for_def)

lemma qs_request_for [simp]: "qs (request_for pl path meth q) = q"
  by (simp add: request_for_def)

lemma request_for_log_line [simp]:
  "request_for (log_line fmt args pl) path meth q = request_for pl path meth q"
  by (simp add: request_for_def)

lemma sent_append [simp]: "requestQueue pl' = requestQueue pl @ rs \<Longrightarrow> sent pl pl' = rs"
  by (simp add: sent_def)

lemma sent_log_line [simp]: "sent (log_line fmt args pl) pl' = sent pl pl'"
  by (simp add: sent_def)

lemma updateStatus_writes:
  "writes (sent pl (platform_of (updateStatus srv q (acc, pl))))
     = [request_for pl (deviceURL acc) ''PUT'' (Some q)]"
proof -
  let ?pl = "log_line ''updateStatus of %s: %s'' [JStr (name acc), JObj q] pl"
  obtain r pl1 where rq: "indigoRequest srv (deviceURL acc) ''PUT'' (Some q) ?pl = (r, pl1)"
    by (cases "indigoRequest srv (deviceURL acc) ''PUT'' (Some q) ?pl")
  note iq = indigoRequest_queue [OF rq]
  show ?thesis
  proof (cases r)
    case (Failure error)
    then have "updateStatus srv q (acc, pl) = Returned (Some error, (acc, pl1))"
      using rq by (simp add: updateStatus_def)
    then show ?thesis
      using iq by (simp add: platform_of_def writes_def)
  next
    case (Response body)
    then have us: "updateStatus srv q (acc, pl) = getStatus srv None (acc, pl1)"
      using rq by (simp add: updateStatus_def)
    have "requestQueue (platform_of (getStatus srv None (acc, pl1)))
            = requestQueue pl @ [request_for pl (deviceURL acc) ''PUT'' (Some q),
                                 request_for pl1 (deviceURL acc) ''GET'' None]"
      using getStatus_None [of srv acc pl1] iq by (auto simp: platform_of_def)
    then show ?thesis
      unfolding us by (simp add: writes_def)
  qed
qed

lemma platform_of_pass_callback [simp]: "platform_of (pass_callback r) = platform_of r"
  by (auto simp: pass_callback_def if_error_def platform_of_def split: outcome.splits option.splits)

lemma index_of_speed_num:
  "index_of_speed (JNum p) = (if p > 66.6 then 3 else if p > 33.3 then 2 else if p > 0 then 1 else 0)"
  by (simp add: index_of_speed_def js_gt_def)

lemma speed_of_index_num: "speed_of_index (JNum i) = JNum (i / 3 * 100)"
  by (simp add: speed_of_index_def of_number_def)

lemma query_Called:
  "query srv key st = Returned (Called v, (acc', pl')) \<Longrightarrow> v = get_prop acc' key"
  by (auto simp: query_def if_error_def split: outcome.splits option.splits prod.splits)

lemma updateStatus_queue:
  "\<exists>rs. requestQueue (platform_of (updateStatus srv q (acc, pl)))
           = requestQueue pl @ request_for pl (deviceURL acc) ''PUT'' (Some q) # rs
         \<and> (\<forall>r \<in> set rs. http_method r = ''GET'')"
proof -
  let ?pl = "log_line ''updateStatus of %s: %s'' [JStr (name acc), JObj q] pl"
  obtain r pl1 where rq: "indigoRequest srv (deviceURL acc) ''PUT'' (Some q) ?pl = (r, pl1)"
    by (cases "indigoRequest srv (deviceURL acc) ''PUT'' (Some q) ?pl")
  note iq = indigoRequest_queue [OF rq]
  show ?thesis
  proof (cases r)
    case (Failure error)
    then have "updateStatus srv q (acc, pl) = Returned (Some error, (acc, pl1))"
      using rq by (simp add: updateStatus_def)
    then show ?thesis
      using iq by (simp add: platform_of_def)
  next
    case (Response body)
    then have us: "updateStatus srv q (acc, pl) = getStatus srv None (acc, pl1)"
      using rq by (simp add: updateStatus_def)
    have "requestQueue (platform_of (getStatus srv None (acc, pl1)))
            = requestQueue pl @ [request_for pl (deviceURL acc) ''PUT'' (Some q),
                                 request_for pl1 (deviceURL acc) ''GET'' None]"
      using getStatus_None [of srv acc pl1] iq by (auto simp: platform_of_def)
    then show ?thesis
      unfolding us by simp
  qed
qed

lemma sent_trans:
  "requestQueue pl1 = requestQueue pl @ rs \<Longrightarrow> requestQueue pl2 = requestQueue pl1 @ rs'
     \<Longrightarrow> sent pl pl2 = rs @ rs'"
  by (simp add: sent_def)

lemma js_add_num [simp]: "js_add (JNum x) (JNum y) = JNum (double_add x y)"
  by (simp add: js_add_def)

lemma js_sub_num [simp]: "js_sub (JNum x) (JNum y) = JNum (double_sub x y)"
  by (simp add: js_sub_def)

lemma celsiusToIndigoTemp_num:
  "celsiusToIndigoTemp inCelsius (JNum c)
     = JNum (if inCelsius then c
             else double_div
                    (Math_round (double_mul (double_add (double_div (double_mul c 9) 5) 32) 10))
                    10)"
  by (simp add: celsiusToIndigoTemp_def of_number_def)

lemma indigoTempToCelsius_num:
  "indigoTempToCelsius inCelsius (JNum f)
     = JNum (if inCelsius then f
             else double_div
                    (Math_round (double_mul (double_div (double_mul (double_sub f 32) 5) 9) 10))
                    10)"
  by (simp add: indigoTempToCelsius_def of_number_def)

section \<open>Fan speed\<close>

text \<open>
  C3: on a fan that supports speed control, \<open>setRotationSpeed\<close> with a percentage \<open>p\<close>
  between 0 and 100 sends exactly one write, whose query string sets \<open>speedIndex\<close> to 3
  if \<open>p > 66.6\<close>, else 2 if \<open>p > 33.3\<close>, else 1 if \<open>p > 0\<close>, else 0; \<open>getRotationSpeed\<close>
  answers \<open>speedIndex / 3 * 100\<close>; so reading back what was set gives one of the four
  values 0, 100/3, 200/3 and 100, and gives \<open>p\<close> again only if \<open>p\<close> is one of these.
\<close>

theorem fan_speed_quantization:
  "truthy (get_prop acc ''typeSupportsSpeedControl'') \<Longrightarrow> 0 \<le> p \<Longrightarrow> p \<le> 100 \<Longrightarrow>
     map qs (writes (sent pl (platform_of (setRotationSpeed srv (JNum p) (acc, pl)))))
       = [Some [(''speedIndex'',
            JNum (if p > 66.6 then 3 else if p > 33.3 then 2 else if p > 0 then 1 else 0))]]
     \<and> (\<forall>v acc' pl' i.
           getRotationSpeed srv (acc, pl) = Returned (Called v, (acc', pl'))
           \<and> get_prop acc' ''speedIndex'' = JNum i \<longrightarrow> v = JNum (i / 3 * 100))
     \<and> speed_of_index (JNum (index_of_speed (JNum p)))
           \<in> {JNum 0, JNum (100 / 3), JNum (200 / 3), JNum 100}
     \<and> (speed_of_index (JNum (index_of_speed (JNum p))) = JNum p
           \<longrightarrow> p \<in> {0, 100 / 3, 200 / 3, 100})"
proof -
  assume sc: "truthy (get_prop acc ''typeSupportsSpeedControl'')" and p: "0 \<le> p" "p \<le> 100"
  have w: "map qs (writes (sent pl (platform_of (setRotationSpeed srv (JNum p) (acc, pl)))))
           = [Some [(''speedIndex'',
                JNum (if p > 66.6 then 3 else if p > 33.3 then 2 else if p > 0 then 1 else 0))]]"
    using sc p
    by (simp add: setRotationSpeed_def js_ge_def js_le_def updateStatus_writes index_of_speed_num
          del: if_split cong: if_cong)
  have g: "v = JNum (i / 3 * 100)"
    if "getRotationSpeed srv (acc, pl) = Returned (Called v, (acc', pl'))"
      and "get_prop acc' ''speedIndex'' = JNum i" for v acc' pl' i
    using that sc
    by (auto simp: getRotationSpeed_def speed_of_index_num
          split: outcome.splits called.splits prod.splits dest!: query_Called)
  have b: "speed_of_index (JNum (index_of_speed (JNum p)))
           \<in> {JNum 0, JNum (100 / 3), JNum (200 / 3), JNum 100}"
    by (simp add: index_of_speed_num speed_of_index_num)
  have f: "p \<in> {0, 100 / 3, 200 / 3, 100}"
    if "speed_of_index (JNum (index_of_speed (JNum p))) = JNum p"
    using that by (auto simp: index_of_speed_num speed_of_index_num split: if_splits)
  from w g b f show ?thesis by blast
qed

theorem fan_speed_quantization_witness:
  "map qs (writes (sent example_platform (platform_of
       (setRotationSpeed server_fan (JNum 50) (example_fan, example_platform)))))
     = [Some [(''speedIndex'', JNum 2)]]
   \<and> (case getRotationSpeed server_fan (example_fan, example_platform) of
         Returned (Called v, st) \<Rightarrow> v = JNum (200 / 3)
       | _ \<Rightarrow> False)
   \<and> speed_of_index (JNum (index_of_speed (JNum 50))) = JNum (200 / 3)
   \<and> speed_of_index (JNum (index_of_speed (JNum 50))) \<noteq> JNum 50"
proof -
  have sc: "truthy (get_prop example_fan ''typeSupportsSpeedControl'')"
    by (simp add: example_fan_def model_defs)
  have p: "(0::real) \<le> 50" "(50::real) \<le> 100" by simp_all
  note t = fan_speed_quantization [OF sc p, of example_platform server_fan]
  have g: "case getRotationSpeed server_fan (example_fan, example_platform) of
             Returned (Called v, st) \<Rightarrow> v = JNum (200 / 3)
           | _ \<Rightarrow> False"
    by (simp add: example_fan_def server_fan_def model_defs)
  have r: "speed_of_index (JNum (index_of_speed (JNum 50))) = JNum (200 / 3)"
    by (simp add: model_defs)
  from t g r show ?thesis by simp
qed

section \<open>Thermostat temperatures\<close>

subsection \<open>The error of a rounding\<close>

lemma ilog2_nonneg: "0 \<le> ilog2 n"
  by (induction n rule: ilog2.induct) (subst ilog2.simps, simp)

lemma ilog2_bound: "1 \<le> n \<Longrightarrow> 2 ^ nat (ilog2 n) \<le> n"
proof (induction n rule: ilog2.induct)
  case (1 n)
  show ?case
  proof (cases "n < 2")
    case True
    then show ?thesis using "1.prems" by (subst ilog2.simps) simp
  next
    case False
    then have h: "1 \<le> n div 2" by simp
    have IH: "2 ^ nat (ilog2 (n div 2)) \<le> n div 2"
      using "1.IH" [OF False h] .
    have e: "ilog2 n = 1 + ilog2 (n div 2)"
      using False by (subst ilog2.simps) simp
    have "nat (1 + ilog2 (n div 2)) = Suc (nat (ilog2 (n div 2)))"
      using ilog2_nonneg [of "n div 2"] by simp
    then have "(2::int) ^ nat (ilog2 n) = 2 * 2 ^ nat (ilog2 (n div 2))"
      by (simp add: e)
    also have "\<dots> \<le> 2 * (n div 2)" using IH by simp
    also have "\<dots> \<le> n" by simp
    finally show ?thesis .
  qed
qed

lemma exponent_le:
  assumes "\<bar>x\<bar> \<le> 2 ^ k"
  shows "exponent x \<le> int k"
proof (cases "1 \<le> \<bar>x\<bar>")
  case True
  then have f: "1 \<le> \<lfloor>\<bar>x\<bar>\<rfloor>" by simp
  have "(2::int) ^ nat (ilog2 \<lfloor>\<bar>x\<bar>\<rfloor>) \<le> \<lfloor>\<bar>x\<bar>\<rfloor>"
    using f by (rule ilog2_bound)
  then have "(2::real) ^ nat (ilog2 \<lfloor>\<bar>x\<bar>\<rfloor>) \<le> of_int \<lfloor>\<bar>x\<bar>\<rfloor>"
    by (metis of_int_le_iff of_int_numeral of_int_power)
  also have "\<dots> \<le> \<bar>x\<bar>" by simp
  also have "\<dots> \<le> 2 ^ k" by (rule assms)
  finally have "nat (ilog2 \<lfloor>\<bar>x\<bar>\<rfloor>) \<le> k" by simp
  then show ?thesis using True by (simp add: exponent_def)
next
  case False
  then show ?thesis
    using ilog2_nonneg [of "\<lceil>1 / \<bar>x\<bar>\<rceil> - 1"] by (simp add: exponent_def)
qed

lemma round_half_even_close: "\<bar>of_int (round_half_even y) - y\<bar> \<le> 1 / 2"
  unfolding round_half_even_def Let_def by (auto; linarith)

lemma to_double_close:
  assumes "\<bar>x\<bar> \<le> 2 ^ k"
  shows "\<bar>to_double x - x\<bar> \<le> 2 powi (int k - 53)"
proof (cases "x = 0")
  case True
  then show ?thesis by (simp add: to_double_def)
next
  case False
  define q :: real where "q = 2 powi (max (exponent x) (- 1022) - 52)"
  have q: "0 < q" by (simp add: q_def)
  have "max (exponent x) (- 1022) - 52 \<le> int k - 52"
    using exponent_le [OF assms] by simp
  then have "q \<le> 2 powi (int k - 52)"
    unfolding q_def by (intro power_int_increasing) simp_all
  also have "\<dots> = 2 * 2 powi (int k - 53)"
    by (simp add: power_int_diff)
  finally have qk: "q / 2 \<le> 2 powi (int k - 53)" by simp
  have "to_double x - x = (of_int (round_half_even (x / q)) - x / q) * q"
    using False q by (simp add: to_double_def q_def Let_def field_simps)
  then have "\<bar>to_double x - x\<bar> = \<bar>of_int (round_half_even (x / q)) - x / q\<bar> * q"
    using q by (simp add: abs_mult)
  also have "\<dots> \<le> 1 / 2 * q"
    using round_half_even_close [of "x / q"] q by (intro mult_right_mono) simp_all
  finally show ?thesis using qk by simp
qed

lemma to_double_close26: "\<bar>x\<bar> \<le> 67108864 \<Longrightarrow> \<bar>to_double x - x\<bar> \<le> 1 / 134217728"
  using to_double_close [of x 26] by (simp add: power_int_minus)

lemma Math_round_close: "\<bar>Math_round x - x\<bar> \<le> 1 / 2"
  unfolding Math_round_def by linarith

lemmas double_defs = double_mul_def double_div_def double_add_def double_sub_def to_double_def
  exponent_def round_half_even_def Math_round_def Let_def ilog2.simps power_int_minus

lemma double_close26:
  "\<bar>a * b\<bar> \<le> 67108864 \<Longrightarrow> \<bar>double_mul a b - a * b\<bar> \<le> 1 / 134217728"
  "\<bar>a / b\<bar> \<le> 67108864 \<Longrightarrow> \<bar>double_div a b - a / b\<bar> \<le> 1 / 134217728"
  "\<bar>a + b\<bar> \<le> 67108864 \<Longrightarrow> \<bar>double_add a b - (a + b)\<bar> \<le> 1 / 134217728"
  "\<bar>a - b\<bar> \<le> 67108864 \<Longrightarrow> \<bar>double_sub a b - (a - b)\<bar> \<le> 1 / 134217728"
  unfolding double_mul_def double_div_def double_add_def double_sub_def
  by (erule to_double_close26)+

lemma Math_round_int: "\<exists>n::int. Math_round x = of_int n"
  by (auto simp: Math_round_def)

subsection \<open>The round trip\<close>

text \<open>
  C4. With a Fahrenheit thermostat and a Celsius temperature of at most a million
  degrees in magnitude, the conversion to the native unit gives the double nearest to a
  number with one decimal place that is within 0.05 of the exact Fahrenheit value (and
  the rounding errors of the arithmetic, less than a ten-millionth); the conversion back
  does the same for the exact Celsius value; and the round trip gives the temperature
  again to within 0.1. With a Celsius thermostat both conversions are the identity on
  every value.
\<close>

theorem temperature_round_trip:
  "(\<bar>t\<bar> \<le> 1000000 \<longrightarrow>
      (\<exists>f c. celsiusToIndigoTemp False (JNum t) = JNum f
         \<and> indigoTempToCelsius False (JNum f) = JNum c
         \<and> \<bar>c - t\<bar> \<le> 1 / 10
         \<and> (\<exists>n::int. f = to_double (of_int n / 10)
               \<and> \<bar>of_int n / 10 - (t * 9 / 5 + 32)\<bar> \<le> 1 / 20 + 1 / 10000000)
         \<and> (\<exists>m::int. c = to_double (of_int m / 10)
               \<and> \<bar>of_int m / 10 - (f - 32) * 5 / 9\<bar> \<le> 1 / 20 + 1 / 10000000)))
   \<and> celsiusToIndigoTemp True v = v \<and> indigoTempToCelsius True v = v"
proof -
  have trip: "\<exists>f c. celsiusToIndigoTemp False (JNum t) = JNum f
         \<and> indigoTempToCelsius False (JNum f) = JNum c
         \<and> \<bar>c - t\<bar> \<le> 1 / 10
         \<and> (\<exists>n::int. f = to_double (of_int n / 10)
               \<and> \<bar>of_int n / 10 - (t * 9 / 5 + 32)\<bar> \<le> 1 / 20 + 1 / 10000000)
         \<and> (\<exists>m::int. c = to_double (of_int m / 10)
               \<and> \<bar>of_int m / 10 - (f - 32) * 5 / 9\<bar> \<le> 1 / 20 + 1 / 10000000)"
    if t: "\<bar>t\<bar> \<le> 1000000"
  proof -
    define a1 where "a1 = double_mul t 9"
    define a2 where "a2 = double_div a1 5"
    define a3 where "a3 = double_add a2 32"
    define a4 where "a4 = double_mul a3 10"
    obtain n :: int where n: "Math_round a4 = of_int n"
      using Math_round_int by blast
    define f where "f = double_div (of_int n) 10"
    define b1 where "b1 = double_sub f 32"
    define b2 where "b2 = double_mul b1 5"
    define b3 where "b3 = double_div b2 9"
    define b4 where "b4 = double_mul b3 10"
    obtain m :: int where m: "Math_round b4 = of_int m"
      using Math_round_int by blast
    define c where "c = double_div (of_int m) 10"
    have 1: "\<bar>a1 - t * 9\<bar> \<le> 1 / 134217728"
      unfolding a1_def using t by (intro double_close26) argo
    have 2: "\<bar>a2 - a1 / 5\<bar> \<le> 1 / 134217728"
      unfolding a2_def using t 1 by (intro double_close26) argo
    have 3: "\<bar>a3 - (a2 + 32)\<bar> \<le> 1 / 134217728"
      unfolding a3_def using t 1 2 by (intro double_close26) argo
    have 4: "\<bar>a4 - a3 * 10\<bar> \<le> 1 / 134217728"
      unfolding a4_def using t 1 2 3 by (intro double_close26) argo
    have 5: "\<bar>of_int n - a4\<bar> \<le> 1 / 2"
      using Math_round_close [of a4] unfolding n .
    have N: "\<bar>of_int n / 10 - (t * 9 / 5 + 32)\<bar> \<le> 1 / 20 + 1 / 10000000"
      using 1 2 3 4 5 by argo
    have 6: "\<bar>f - of_int n / 10\<bar> \<le> 1 / 134217728"
      unfolding f_def using t N by (intro double_close26) argo
    have 7: "\<bar>b1 - (f - 32)\<bar> \<le> 1 / 134217728"
      unfolding b1_def using t N 6 by (intro double_close26) argo
    have 8: "\<bar>b2 - b1 * 5\<bar> \<le> 1 / 134217728"
      unfolding b2_def using t N 6 7 by (intro double_close26) argo
    have 9: "\<bar>b3 - b2 / 9\<bar> \<le> 1 / 134217728"
      unfolding b3_def using t N 6 7 8 by (intro double_close26) argo
    have 10: "\<bar>b4 - b3 * 10\<bar> \<le> 1 / 134217728"
      unfolding b4_def using t N 6 7 8 9 by (intro double_close26) argo
    have 11: "\<bar>of_int m - b4\<bar> \<le> 1 / 2"
      using Math_round_close [of b4] unfolding m .
    have M: "\<bar>of_int m / 10 - (f - 32) * 5 / 9\<bar> \<le> 1 / 20 + 1 / 10000000"
      using 7 8 9 10 11 by argo
    have 12: "\<bar>c - of_int m / 10\<bar> \<le> 1 / 134217728"
      unfolding c_def using t N 6 M by (intro double_close26) argo
    have close: "\<bar>c - t\<bar> \<le> 1 / 10"
      using N 6 M 12 by argo
    have F: "celsiusToIndigoTemp False (JNum t) = JNum f"
      by (simp add: celsiusToIndigoTemp_num f_def n [symmetric] a4_def a3_def a2_def a1_def)
    have C: "indigoTempToCelsius False (JNum f) = JNum c"
      by (simp add: indigoTempToCelsius_num c_def m [symmetric] b4_def b3_def b2_def b1_def)
    have fn: "f = to_double (of_int n / 10)" by (simp add: f_def double_div_def)
    have cm: "c = to_double (of_int m / 10)" by (simp add: c_def double_div_def)
    from F C close fn N cm M show ?thesis by blast
  qed
  have "celsiusToIndigoTemp True v = v" "indigoTempToCelsius True v = v"
    by (simp_all add: celsiusToIndigoTemp_def indigoTempToCelsius_def)
  with trip show ?thesis by blast
qed

theorem temperature_round_trip_witness:
  "\<bar>22 :: real\<bar> \<le> 1000000
   \<and> celsiusToIndigoTemp False (JNum 22) = JNum (to_double (716 / 10))
   \<and> indigoTempToCelsius False (JNum (to_double (716 / 10))) = JNum 22
   \<and> celsiusToIndigoTemp False (JNum (- 44.25)) = JNum (to_double (- 477 / 10))
   \<and> (\<exists>c. indigoTempToCelsius False (celsiusToIndigoTemp False (JNum (- 44.25))) = JNum c
          \<and> \<bar>c - (- 44.25)\<bar> \<le> 1 / 10)"
proof -
  have 1: "celsiusToIndigoTemp False (JNum 22) = JNum (to_double (716 / 10))"
    by (simp add: celsiusToIndigoTemp_num double_defs)
  have 2: "indigoTempToCelsius False (JNum (to_double (716 / 10))) = JNum 22"
    by (simp add: indigoTempToCelsius_num double_defs)
  have 3: "celsiusToIndigoTemp False (JNum (- 44.25)) = JNum (to_double (- 477 / 10))"
    by (simp add: celsiusToIndigoTemp_num double_defs)
  have "\<bar>- 44.25 :: real\<bar> \<le> 1000000" by simp
  with temperature_round_trip [of "- 44.25"]
  have 4: "\<exists>c. indigoTempToCelsius False (celsiusToIndigoTemp False (JNum (- 44.25))) = JNum c
          \<and> \<bar>c - (- 44.25)\<bar> \<le> 1 / 10"
    by force
  from 1 2 3 4 show ?thesis by simp
qed

theorem temperature_round_trip_counterexample:
  "indigoTempToCelsius False (celsiusToIndigoTemp False (JNum 9007199254740991))
     = JNum 9007199254740990"
  by (simp add: celsiusToIndigoTemp_num indigoTempToCelsius_num double_defs)

subsection \<open>The reply of the device and the cached properties\<close>

lemma keys_obj_put: "fst ` set (obj_put ps k v) = insert k (fst ` set ps)"
proof (induction ps)
  case Nil
  show ?case by simp
next
  case (Cons p ps)
  obtain a b where p: "p = (a, b)" by (cases p)
  show ?case
  proof (cases "a = k")
    case True
    then show ?thesis by (simp add: p)
  next
    case False
    then show ?thesis using Cons.IH by (simp add: p insert_commute)
  qed
qed

lemma distinct_obj_put:
  "distinct (map fst ps) \<Longrightarrow> distinct (map fst (obj_put ps k v))"
proof (induction ps)
  case Nil
  show ?case by simp
next
  case (Cons p ps)
  obtain a b where p: "p = (a, b)" by (cases p)
  show ?case
  proof (cases "a = k")
    case True
    then show ?thesis using Cons.prems by (simp add: p)
  next
    case False
    have "a \<notin> fst ` set (obj_put ps k v)"
      using Cons.prems False by (simp add: keys_obj_put p)
    then show ?thesis using Cons False by (simp add: p)
  qed
qed

lemma parse_distinct_aux:
  "(\<forall>ts kvs rest. parse_value n ts = Some (JObj kvs, rest) \<longrightarrow> distinct (map fst kvs))
   \<and> (\<forall>xs ts kvs rest. parse_elements n xs ts \<noteq> Some (JObj kvs, rest))
   \<and> (\<forall>ps ts kvs rest. distinct (map fst ps)
          \<longrightarrow> parse_members n ps ts = Some (JObj kvs, rest) \<longrightarrow> distinct (map fst kvs))"
proof (induction n)
  case 0
  show ?case by simp
next
  case (Suc n)
  note IH1 = Suc.IH [THEN conjunct1, rule_format]
  note IH2 = Suc.IH [THEN conjunct2, THEN conjunct1, rule_format]
  note IH3 = Suc.IH [THEN conjunct2, THEN conjunct2, rule_format]
  have 1: "distinct (map fst kvs)" if "parse_value (Suc n) ts = Some (JObj kvs, rest)"
    for ts kvs rest
  proof (cases ts)
    case Nil
    then show ?thesis using that by simp
  next
    case (Cons t ts')
    show ?thesis
    proof (cases t)
      case TLBrack
      then show ?thesis
        using that Cons IH2 [of "[]" ts' kvs rest]
        by (cases ts'; cases "hd ts'") (auto split: list.splits token.splits)
    next
      case TLBrace
      have e: "parse_value (Suc n) (TLBrace # ts')
                 = (case ts' of TRBrace # r \<Rightarrow> Some (JObj [], r) | _ \<Rightarrow> parse_members n [] ts')"
        by simp
      show ?thesis
      proof (cases "\<exists>r. ts' = TRBrace # r")
        case True
        then show ?thesis using that Cons TLBrace by auto
      next
        case False
        then have "parse_value (Suc n) (TLBrace # ts') = parse_members n [] ts'"
          unfolding e by (auto split: list.splits token.splits)
        then show ?thesis
          using that Cons TLBrace IH3 [of "[]" ts' kvs rest] by simp
      qed
    qed (use that Cons in simp_all)
  qed
  have 2: "parse_elements (Suc n) xs ts \<noteq> Some (JObj kvs, rest)" for xs ts kvs rest
  proof (cases "parse_value n ts")
    case None
    then show ?thesis by simp
  next
    case (Some r)
    obtain v ts' where r: "r = (v, ts')" by (cases r)
    show ?thesis
    proof (cases ts')
      case Nil
      then show ?thesis using Some r by simp
    next
      case (Cons t ts'')
      then show ?thesis
        using Some r IH2 [of "xs @ [v]" ts'' kvs rest] by (cases t) simp_all
    qed
  qed
  have 3: "distinct (map fst kvs)"
    if d: "distinct (map fst ps)" and p: "parse_members (Suc n) ps ts = Some (JObj kvs, rest)"
    for ps ts kvs rest
  proof -
    have "\<exists>k ts'. ts = TStr k # TColon # ts'"
    proof (rule ccontr)
      assume "\<not> (\<exists>k ts'. ts = TStr k # TColon # ts')"
      then have "parse_members (Suc n) ps ts = None"
        by (cases "(Suc n, ps, ts)" rule: parse_members.cases) auto
      then show False using p by simp
    qed
    then obtain k ts' where ts: "ts = TStr k # TColon # ts'" by blast
    show ?thesis
    proof (cases "parse_value n ts'")
      case None
      then show ?thesis using p ts by simp
    next
      case (Some r)
      obtain v ts2 where r: "r = (v, ts2)" by (cases r)
      note dp = distinct_obj_put [OF d, of k v]
      show ?thesis
      proof (cases ts2)
        case Nil
        then show ?thesis using p ts Some r by simp
      next
        case (Cons t ts3)
        then show ?thesis
          using p ts Some r dp IH3 [of "obj_put ps k v" ts3 kvs rest]
          by (cases t) auto
      qed
    qed
  qed
  from 1 2 3 show ?case by blast
qed

lemma JSON_parse_distinct:
  "JSON_parse body = Some (JObj kvs) \<Longrightarrow> distinct (map fst kvs)"
  using parse_distinct_aux [THEN conjunct1, rule_format]
  by (auto simp: JSON_parse_def split: option.splits prod.splits list.splits)

lemma map_of_obj_put: "map_of (obj_put ps k v) k' = (if k' = k then Some v else map_of ps k')"
  by (induction ps) auto

lemma get_prop_set_prop:
  "get_prop (set_prop acc k v) k' = (if k' = k then v else get_prop acc k')"
  by (simp add: get_prop_def set_prop_def map_of_obj_put)

lemma updateFromJSON_loop_fetched:
  assumes "distinct (map fst kvs)"
  shows "\<exists>acc'. updateFromJSON_loop kvs None (acc, pl) = Returned (acc', pl)
           \<and> members_kept acc acc' \<and> name acc' = name acc
           \<and> (\<forall>k. get_prop acc' k = fetched acc kvs k)"
  using assms
proof (induction kvs arbitrary: acc)
  case Nil
  show ?case by (simp add: fetched_def)
next
  case (Cons kv kvs)
  obtain k v where kv: "kv = (k, v)" by (cases kv)
  have d: "distinct (map fst kvs)" and nk: "map_of kvs k = None"
    using Cons.prems by (auto simp: kv map_of_eq_None_iff)
  show ?case
  proof (cases "k \<noteq> ''name'' \<and> \<not> loose_eq v (get_prop acc k)")
    case True
    let ?acc1 = "set_prop acc k v"
    from Cons.IH [OF d, of ?acc1] obtain acc' where
      l: "updateFromJSON_loop kvs None (?acc1, pl) = Returned (acc', pl)"
      and m: "members_kept ?acc1 acc'" and n: "name acc' = name ?acc1"
      and g: "\<forall>k'. get_prop acc' k' = fetched ?acc1 kvs k'"
      by blast
    have m': "members_kept acc acc'"
      using m by (simp add: members_kept_def set_prop_def)
    have f: "fetched ?acc1 kvs k' = fetched acc (kv # kvs) k'" for k'
      using True nk
      by (cases "k' = k") (auto simp: fetched_def kv get_prop_set_prop split: option.splits)
    show ?thesis
      using True l m' n g f by (simp add: kv set_prop_def)
  next
    case False
    from Cons.IH [OF d, of acc] obtain acc' where
      l: "updateFromJSON_loop kvs None (acc, pl) = Returned (acc', pl)"
      and m: "members_kept acc acc'" and n: "name acc' = name acc"
      and g: "\<forall>k'. get_prop acc' k' = fetched acc kvs k'"
      by blast
    have f: "fetched acc kvs k' = fetched acc (kv # kvs) k'" for k'
      using False nk by (auto simp: fetched_def kv)
    show ?thesis
      using False l m n g f by (auto simp: kv)
  qed
qed

lemma getStatus_fetched:
  assumes reply: "srv (requestQueue pl @ [request_for pl (deviceURL acc) ''GET'' None]) = Response body"
    and json: "JSON_parse body = Some (JObj kvs)"
  shows "\<exists>acc' pl'. getStatus srv None (acc, pl) = Returned (None, (acc', pl'))
           \<and> requestQueue pl' = requestQueue pl @ [request_for pl (deviceURL acc) ''GET'' None]
           \<and> baseURL pl' = baseURL pl \<and> platform_auth pl' = platform_auth pl
           \<and> members_kept acc acc' \<and> (\<forall>k. get_prop acc' k = fetched acc kvs k)"
proof -
  obtain pl1 where j: "indigoRequestJSON srv (deviceURL acc) ''GET'' None None pl = (Inr (JObj kvs), pl1)"
    using reply json
    by (simp add: indigoRequestJSON_def indigoRequest_def Let_def request_for_def log_line_def
          split: prod.splits)
  note q = indigoRequestJSON_queue [OF j]
  from updateFromJSON_loop_fetched [OF JSON_parse_distinct [OF json], of acc pl1] obtain acc1 where
    l: "updateFromJSON_loop kvs None (acc, pl1) = Returned (acc1, pl1)"
    and m: "members_kept acc acc1" and g: "\<forall>k. get_prop acc1 k = fetched acc kvs k"
    by blast
  let ?n = "case map_of kvs ''name'' of None \<Rightarrow> JUndefined | Some v \<Rightarrow> v"
  let ?acc' = "if ?n \<noteq> JUndefined then acc1\<lparr>name := accessoryNamePrefix pl1 @ js_String ?n\<rparr> else acc1"
  have r: "getStatus srv None (acc, pl) = Returned (None, (?acc', pl1))"
    using j l by (simp add: getStatus_def updateFromJSON_def map_outcome_def)
  have m': "members_kept acc ?acc'"
    using m by (cases acc; cases acc1) (auto simp: members_kept_def)
  have g': "\<forall>k. get_prop ?acc' k = fetched acc kvs k"
    using g by (simp add: get_prop_def)
  from r q m' g' show ?thesis by blast
qed

lemma loose_eq_True_truthy: "loose_eq (JBool True) v \<Longrightarrow> truthy v"
  by (cases v) (auto simp: loose_eq_def StringToNumber_def trim_def split: if_splits option.splits)

lemma fetched_True:
  "k \<noteq> ''name'' \<Longrightarrow> map_of kvs k = Some (JBool True) \<Longrightarrow> truthy (fetched acc kvs k)"
  by (auto simp: fetched_def loose_eq_True_truthy)

lemma fetched_False:
  "map_of kvs k = Some (JBool False) \<Longrightarrow> k \<noteq> ''name'' \<Longrightarrow>
   get_prop acc k = JUndefined \<or> (\<exists>b. get_prop acc k = JBool b) \<Longrightarrow>
   \<not> truthy (fetched acc kvs k)"
  by (auto simp: fetched_def loose_eq_def)

lemma one_write:
  assumes "\<exists>rs. sent pl pl' = a # b # rs \<and> (\<forall>r \<in> set rs. http_method r = ''GET'')"
    and "http_method a = ''GET''" and "http_method b \<noteq> ''GET''"
  shows "writes (sent pl pl') = [b]"
  using assms by (auto simp: writes_def filter_empty_conv)

subsection \<open>The target temperature\<close>

text \<open>
  C5. When the device answers the status request of \<open>setTargetTemperature\<close> with a JSON
  object, the plugin sends that GET, then exactly one PUT, then nothing but GET
  requests. With \<open>t\<close> the temperature in the thermostat's unit, the query string of the
  PUT is \<open>setpointHeat = t\<close> alone when the fetched status has
  \<^verbatim>\<open>hvacOperationModeIsHeat\<close>, \<open>setpointCool = t\<close> alone when it has
  \<^verbatim>\<open>hvacOperationModeIsCool\<close> and not the former, and otherwise both
  \<open>setpointCool = t + d\<close> and \<open>setpointHeat = t - d\<close>, where \<open>d\<close> is 2 for a Celsius
  thermostat and 5 for a Fahrenheit one. The fetched status is that of the reply: a flag
  the reply gives as \<^verbatim>\<open>true\<close> is set; a flag it gives as \<^verbatim>\<open>false\<close> is not, provided the
  cached flag is a boolean or missing; a flag the reply does not mention stays as cached.
\<close>

theorem setTargetTemperature_writes:
  "(srv (requestQueue pl @ [request_for pl (deviceURL acc) ''GET'' None]) = Response body
    \<and> JSON_parse body = Some (JObj kvs) \<longrightarrow>
    (\<exists>rs. sent pl (platform_of (setTargetTemperature srv temperature (acc, pl)))
            = request_for pl (deviceURL acc) ''GET'' None
              # request_for pl (deviceURL acc) ''PUT''
                  (Some (let t = celsiusToIndigoTemp (thermostatsInCelsius acc) temperature;
                             d = JNum (if thermostatsInCelsius acc then 2 else 5)
                         in if truthy (fetched acc kvs ''hvacOperationModeIsHeat'')
                              then [(''setpointHeat'', t)]
                            else if truthy (fetched acc kvs ''hvacOperationModeIsCool'')
                              then [(''setpointCool'', t)]
                            else [(''setpointCool'', js_add t d), (''setpointHeat'', js_sub t d)]))
              # rs
         \<and> (\<forall>r \<in> set rs. http_method r = ''GET'')))
   \<and> (\<forall>k. k \<noteq> ''name'' \<and> map_of kvs k = Some (JBool True) \<longrightarrow> truthy (fetched acc kvs k))
   \<and> (\<forall>k. k \<noteq> ''name'' \<and> map_of kvs k = Some (JBool False)
          \<and> (get_prop acc k = JUndefined \<or> (\<exists>b. get_prop acc k = JBool b))
        \<longrightarrow> \<not> truthy (fetched acc kvs k))
   \<and> (\<forall>k. map_of kvs k = None \<longrightarrow> fetched acc kvs k = get_prop acc k)"
proof -
  let ?t = "celsiusToIndigoTemp (thermostatsInCelsius acc) temperature"
  let ?d = "JNum (if thermostatsInCelsius acc then 2 else 5)"
  let ?q = "if truthy (fetched acc kvs ''hvacOperationModeIsHeat'') then [(''setpointHeat'', ?t)]
            else if truthy (fetched acc kvs ''hvacOperationModeIsCool'') then [(''setpointCool'', ?t)]
            else [(''setpointCool'', js_add ?t ?d), (''setpointHeat'', js_sub ?t ?d)]"
  have main: "\<exists>rs. sent pl (platform_of (setTargetTemperature srv temperature (acc, pl)))
            = request_for pl (deviceURL acc) ''GET'' None
              # request_for pl (deviceURL acc) ''PUT'' (Some ?q) # rs
         \<and> (\<forall>r \<in> set rs. http_method r = ''GET'')"
    if reply: "srv (requestQueue pl @ [request_for pl (deviceURL acc) ''GET'' None]) = Response body"
      and json: "JSON_parse body = Some (JObj kvs)"
  proof -
    let ?pl = "log_line ''%s: setTargetTemperature(%s)'' [JStr (name acc), temperature] pl"
    have reply': "srv (requestQueue ?pl @ [request_for ?pl (deviceURL acc) ''GET'' None]) = Response body"
      using reply by simp
    from getStatus_fetched [of srv ?pl acc body kvs] reply' json obtain acc1 pl1 where
      gs: "getStatus srv None (acc, ?pl) = Returned (None, (acc1, pl1))"
      and q1: "requestQueue pl1 = requestQueue pl @ [request_for pl (deviceURL acc) ''GET'' None]"
      and b: "baseURL pl1 = baseURL pl" "platform_auth pl1 = platform_auth pl"
      and mk: "members_kept acc acc1" and g: "\<forall>k. get_prop acc1 k = fetched acc kvs k"
      by auto
    have f: "thermostatsInCelsius acc1 = thermostatsInCelsius acc" "deviceURL acc1 = deviceURL acc"
      using members_kept_fields [OF mk] by simp_all
    have qs: "setTargetTemperature_qs acc1 ?t = ?q"
      by (simp add: setTargetTemperature_qs_def g f Let_def)
    have st: "setTargetTemperature srv temperature (acc, pl)
                = pass_callback (updateStatus srv ?q (acc1, pl1))"
      using gs qs by (simp add: setTargetTemperature_def)
    obtain rs where q2: "requestQueue (platform_of (updateStatus srv ?q (acc1, pl1)))
             = requestQueue pl1 @ request_for pl1 (deviceURL acc1) ''PUT'' (Some ?q) # rs"
      and gets: "\<forall>r \<in> set rs. http_method r = ''GET''"
      using updateStatus_queue by blast
    have rf: "request_for pl1 (deviceURL acc1) ''PUT'' (Some ?q)
                = request_for pl (deviceURL acc) ''PUT'' (Some ?q)"
      by (simp add: request_for_def b f)
    have "sent pl (platform_of (updateStatus srv ?q (acc1, pl1)))
            = [request_for pl (deviceURL acc) ''GET'' None]
              @ request_for pl1 (deviceURL acc1) ''PUT'' (Some ?q) # rs"
      by (rule sent_trans [OF q1 q2])
    then show ?thesis
      using gets unfolding st rf by auto
  qed
  have 2: "\<forall>k. k \<noteq> ''name'' \<and> map_of kvs k = Some (JBool True) \<longrightarrow> truthy (fetched acc kvs k)"
    using fetched_True by blast
  have 3: "\<forall>k. k \<noteq> ''name'' \<and> map_of kvs k = Some (JBool False)
          \<and> (get_prop acc k = JUndefined \<or> (\<exists>b. get_prop acc k = JBool b))
        \<longrightarrow> \<not> truthy (fetched acc kvs k)"
    using fetched_False by blast
  have 4: "\<forall>k. map_of kvs k = None \<longrightarrow> fetched acc kvs k = get_prop acc k"
    by (simp add: fetched_def)
  from main 2 3 4 show ?thesis unfolding Let_def by blast
qed


theorem setTargetTemperature_writes_witness:
  "map (\<lambda>r. (http_method r, qs r)) (writes (sent example_platform (platform_of
       (setTargetTemperature server_heat (JNum 22) (example_thermostat, example_platform)))))
     = [(''PUT'', Some [(''setpointHeat'', JNum (to_double (716 / 10)))])]
   \<and> map (\<lambda>r. (http_method r, qs r)) (writes (sent example_platform (platform_of
       (setTargetTemperature server_cool (JNum 22) (example_thermostat, example_platform)))))
     = [(''PUT'', Some [(''setpointCool'', JNum (to_double (716 / 10)))])]
   \<and> map (\<lambda>r. (http_method r, qs r)) (writes (sent example_platform (platform_of
       (setTargetTemperature server_auto (JNum 22) (example_thermostat, example_platform)))))
     = [(''PUT'', Some [(''setpointCool'', JNum (to_double (766 / 10))),
                        (''setpointHeat'', JNum (to_double (666 / 10)))])]"
proof -
  let ?heat = "[(''id'', JNum 12), (''typeSupportsHVAC'', JBool True),
                (''hvacOperationModeIsHeat'', JBool True), (''hvacOperationModeIsCool'', JBool False)]"
  let ?cool = "[(''id'', JNum 12), (''typeSupportsHVAC'', JBool True),
                (''hvacOperationModeIsHeat'', JBool False), (''hvacOperationModeIsCool'', JBool True)]"
  let ?auto = "[(''id'', JNum 12), (''typeSupportsHVAC'', JBool True),
                (''hvacOperationModeIsAuto'', JBool True)]"
  let ?get = "request_for example_platform (deviceURL example_thermostat) ''GET'' None"
  have u: "\<not> thermostatsInCelsius example_thermostat"
    by (simp add: example_thermostat_def example_accessory_def)
  have h: \<open>server_heat (requestQueue example_platform @ [?get]) = Response
     ''{"id":12,"typeSupportsHVAC":true,"hvacOperationModeIsHeat":true,"hvacOperationModeIsCool":false}''\<close>
    by (simp add: server_heat_def)
  have hj: \<open>JSON_parse
     ''{"id":12,"typeSupportsHVAC":true,"hvacOperationModeIsHeat":true,"hvacOperationModeIsCool":false}''
     = Some (JObj ?heat)\<close>
    by (simp add: model_defs)
  have hf: "truthy (fetched example_thermostat ?heat ''hvacOperationModeIsHeat'')"
    by (simp add: fetched_def example_thermostat_def example_accessory_def get_prop_def loose_eq_def)
  have c: \<open>server_cool (requestQueue example_platform @ [?get]) = Response
     ''{"id":12,"typeSupportsHVAC":true,"hvacOperationModeIsHeat":false,"hvacOperationModeIsCool":true}''\<close>
    by (simp add: server_cool_def)
  have cj: \<open>JSON_parse
     ''{"id":12,"typeSupportsHVAC":true,"hvacOperationModeIsHeat":false,"hvacOperationModeIsCool":true}''
     = Some (JObj ?cool)\<close>
    by (simp add: model_defs)
  have cf: "\<not> truthy (fetched example_thermostat ?cool ''hvacOperationModeIsHeat'')"
    "truthy (fetched example_thermostat ?cool ''hvacOperationModeIsCool'')"
    by (simp_all add: fetched_def example_thermostat_def example_accessory_def get_prop_def
          loose_eq_def)
  have a: \<open>server_auto (requestQueue example_platform @ [?get]) = Response
     ''{"id":12,"typeSupportsHVAC":true,"hvacOperationModeIsAuto":true}''\<close>
    by (simp add: server_auto_def)
  have aj: \<open>JSON_parse ''{"id":12,"typeSupportsHVAC":true,"hvacOperationModeIsAuto":true}''
     = Some (JObj ?auto)\<close>
    by (simp add: model_defs)
  have af: "\<not> truthy (fetched example_thermostat ?auto ''hvacOperationModeIsHeat'')"
    "\<not> truthy (fetched example_thermostat ?auto ''hvacOperationModeIsCool'')"
    by (simp_all add: fetched_def example_thermostat_def example_accessory_def get_prop_def)
  note H = setTargetTemperature_writes [of server_heat example_platform example_thermostat _ ?heat
      "JNum 22", THEN conjunct1, rule_format, OF conjI, OF h hj]
  note C = setTargetTemperature_writes [of server_cool example_platform example_thermostat _ ?cool
      "JNum 22", THEN conjunct1, rule_format, OF conjI, OF c cj]
  note A = setTargetTemperature_writes [of server_auto example_platform example_thermostat _ ?auto
      "JNum 22", THEN conjunct1, rule_format, OF conjI, OF a aj]
  have 1: "writes (sent example_platform (platform_of
       (setTargetTemperature server_heat (JNum 22) (example_thermostat, example_platform))))
     = [request_for example_platform (deviceURL example_thermostat) ''PUT''
          (Some [(''setpointHeat'', JNum (to_double (716 / 10)))])]"
  proof (rule one_write)
    show "\<exists>rs. sent example_platform (platform_of
       (setTargetTemperature server_heat (JNum 22) (example_thermostat, example_platform)))
         = ?get # request_for example_platform (deviceURL example_thermostat) ''PUT''
          (Some [(''setpointHeat'', JNum (to_double (716 / 10)))]) # rs
        \<and> (\<forall>r \<in> set rs. http_method r = ''GET'')"
      using H by (simp add: hf u celsiusToIndigoTemp_num double_defs)
  qed simp_all
  have 2: "writes (sent example_platform (platform_of
       (setTargetTemperature server_cool (JNum 22) (example_thermostat, example_platform))))
     = [request_for example_platform (deviceURL example_thermostat) ''PUT''
          (Some [(''setpointCool'', JNum (to_double (716 / 10)))])]"
  proof (rule one_write)
    show "\<exists>rs. sent example_platform (platform_of
       (setTargetTemperature server_cool (JNum 22) (example_thermostat, example_platform)))
         = ?get # request_for example_platform (deviceURL example_thermostat) ''PUT''
          (Some [(''setpointCool'', JNum (to_double (716 / 10)))]) # rs
        \<and> (\<forall>r \<in> set rs. http_method r = ''GET'')"
      using C by (simp add: cf u celsiusToIndigoTemp_num double_defs)
  qed simp_all
  have 3: "writes (sent example_platform (platform_of
       (setTargetTemperature server_auto (JNum 22) (example_thermostat, example_platform))))
     = [request_for example_platform (deviceURL example_thermostat) ''PUT''
          (Some [(''setpointCool'', JNum (to_double (766 / 10))),
                 (''setpointHeat'', JNum (to_double (666 / 10)))])]"
  proof (rule one_write)
    show "\<exists>rs. sent example_platform (platform_of
       (setTargetTemperature server_auto (JNum 22) (example_thermostat, example_platform)))
         = ?get # request_for example_platform (deviceURL example_thermostat) ''PUT''
          (Some [(''setpointCool'', JNum (to_double (766 / 10))),
                 (''setpointHeat'', JNum (to_double (666 / 10)))]) # rs
        \<and> (\<forall>r \<in> set rs. http_method r = ''GET'')"
      using A by (simp add: af u celsiusToIndigoTemp_num double_defs)
  qed simp_all
  show ?thesis
    unfolding 1 2 3 by simp
qed

section \<open>Discovery: the include and exclude lists\<close>


lemma includeIds_log_line [simp]: "includeIds (log_line fmt args pl) = includeIds pl"
  by (simp add: log_line_def)

lemma excludeIds_log_line [simp]: "excludeIds (log_line fmt args pl) = excludeIds pl"
  by (simp add: log_line_def)

lemma foundAccessories_log_line [simp]: "foundAccessories (log_line fmt args pl) = foundAccessories pl"
  by (simp add: log_line_def)

lemma accessoryMap_log_line [simp]: "accessoryMap (log_line fmt args pl) = accessoryMap pl"
  by (simp add: log_line_def)

lemma discovery_frame_refl [simp]: "discovery_frame pl pl"
  by (simp add: discovery_frame_def)


lemma discovery_frame_log_line [simp]: "discovery_frame pl (log_line fmt args pl)"
  by (simp add: discovery_frame_def)











lemma same_settings_refl [simp]: "same_settings pl pl"
  by (simp add: same_settings_def)


lemma same_settings_log_line [simp]: "same_settings pl (log_line fmt args pl)"
  by (simp add: same_settings_def log_line_def)


















lemmas discovery_defs =
  model_defs fld_def includeItemId_def treatAs_def createAccessoryFromJSON_def IndigoAccessory_def
  IndigoLightAccessory_def IndigoThermostatAccessory_def addAccessory_def jsonFixer_def
  discoverAccessories_def accessories_done_def accessories_def platform_after_def




section \<open>Discovery: the repair of the listing\<close>

lemma indexOf_first:
  "c \<notin> set xs \<Longrightarrow> indexOf (xs @ c # ys) c = int (length xs)"
  by (induction xs) (auto simp: indexOf_def)

lemma jsonFixer_strips:
  assumes "c \<noteq> CHR '',''" "CHR '','' \<notin> set ws" "length ws < 4"
  shows "jsonFixer (c # ws @ CHR '','' # rest) = c # ws @ rest"
proof -
  have "indexOf ((c # ws) @ CHR '','' # rest) (CHR '','') = int (length (c # ws))"
    using assms by (intro indexOf_first) auto
  then have i: "indexOf (c # ws @ CHR '','' # rest) (CHR '','') = 1 + int (length ws)"
    by simp
  show ?thesis
    using assms(3) by (simp add: jsonFixer_def i substr_def substr_from_def nat_add_distrib)
qed

lemma jsonFixer_keeps:
  "indexOf body (CHR '','') \<notin> {1, 2, 3, 4} \<Longrightarrow> jsonFixer body = body"
  by (auto simp: jsonFixer_def Let_def)

text \<open>
  C2, as amended: the repair deletes the first comma of the body exactly when it stands at
  index 1 to 4, so a stray comma after the opening bracket, with at most three characters
  between them, is removed and \<^verbatim>\<open>[,X\<close> parses as \<^verbatim>\<open>[X\<close>; every body whose first comma
  stands elsewhere, or that has no comma, is left as it is.
\<close>

theorem jsonFixer_repair:
  "(c \<noteq> CHR '','' \<and> CHR '','' \<notin> set ws \<and> length ws < 4
      \<longrightarrow> jsonFixer (c # ws @ CHR '','' # rest) = c # ws @ rest)
   \<and> (indexOf body (CHR '','') \<notin> {1, 2, 3, 4} \<longrightarrow> jsonFixer body = body)
   \<and> JSON_parse (jsonFixer (CHR ''['' # CHR '','' # rest)) = JSON_parse (CHR ''['' # rest)"
  using jsonFixer_strips [of c ws rest] jsonFixer_strips [of "CHR ''[''" "[]" rest]
    jsonFixer_keeps [of body]
  by simp

lemmas string_defs = jsonFixer_def indexOf_def substr_def substr_from_def Let_def

theorem jsonFixer_repair_witness:
  \<open>jsonFixer ''[,{"id":1},{"id":2}]'' = ''[{"id":1},{"id":2}]''
   \<and> jsonFixer ''[ ,{"id":1}]'' = ''[ {"id":1}]''
   \<and> indexOf ''[{"restURL":"/devices/lamp.json"},{"restURL":"/devices/fan.json"}]'' (CHR '','') = 33
   \<and> jsonFixer ''[{"restURL":"/devices/lamp.json"},{"restURL":"/devices/fan.json"}]''
       = ''[{"restURL":"/devices/lamp.json"},{"restURL":"/devices/fan.json"}]''\<close>
proof -
  have i: \<open>indexOf ''[{"restURL":"/devices/lamp.json"},{"restURL":"/devices/fan.json"}]'' (CHR '','') = 33\<close>
    by (simp add: indexOf_def)
  note a = jsonFixer_repair [of \<open>CHR ''[''\<close> \<open>[]\<close> \<open>''{"id":1},{"id":2}]''\<close>
      \<open>''[{"restURL":"/devices/lamp.json"},{"restURL":"/devices/fan.json"}]''\<close>]
  note b = jsonFixer_repair [of \<open>CHR ''[''\<close> \<open>'' ''\<close> \<open>''{"id":1}]''\<close> \<open>[]\<close>]
  from a b i show ?thesis by simp
qed

text \<open>
  C2, as stated, fails: a body that begins with the comma is not repaired and does not
  parse, and the well-formed body \<^verbatim>\<open>[1,2]\<close> is altered into \<^verbatim>\<open>[12]\<close>.
\<close>

theorem jsonFixer_counterexample:
  \<open>JSON_parse (jsonFixer '',{"id":1},{"id":2}]'') = None
   \<and> JSON_parse ''[{"id":1},{"id":2}]''
       = Some (JArr [JObj [(''id'', JNum 1)], JObj [(''id'', JNum 2)]])
   \<and> JSON_parse ''[1,2]'' = Some (JArr [JNum 1, JNum 2])
   \<and> JSON_parse (jsonFixer ''[1,2]'') = Some (JArr [JNum 12])\<close>
  by (simp add: string_defs model_defs)


section \<open>Discovery: the bound and the order\<close>

lemma accessories_done_result:
  "fst (accessories_done asyncError pl) = sort_key name (take 99 (foundAccessories pl))"
  by (cases asyncError) (simp_all add: accessories_done_def Let_def log_line_def)

lemma accessories_done_log:
  "count_list (new_log pl (snd (accessories_done asyncError pl)))
      (warning_line (length (foundAccessories pl)))
     = (if length (foundAccessories pl) > 99 then 1 else 0)"
  by (cases asyncError)
     (simp_all add: accessories_done_def Let_def log_line_def new_log_def warning_line_def)

text \<open>
  C6, as amended: the list handed to the framework is the first 99 accessories in the
  order of their discovery, sorted by name; it is sorted and has at most 99 entries, and
  the warning is logged once when more than 99 were found and not at all otherwise.
\<close>

theorem accessories_bounded_then_sorted:
  "fst (accessories_done asyncError pl) = sort_key name (take 99 (foundAccessories pl))
   \<and> sorted (map name (fst (accessories_done asyncError pl)))
   \<and> length (fst (accessories_done asyncError pl)) \<le> 99
   \<and> count_list (new_log pl (snd (accessories_done asyncError pl)))
        (warning_line (length (foundAccessories pl)))
       = (if length (foundAccessories pl) > 99 then 1 else 0)
   \<and> (\<forall>accs pl'. accessories srv pl = Returned (accs, pl')
         \<longrightarrow> sorted (map name accs) \<and> length accs \<le> 99)"
proof -
  have r: "fst (accessories_done e p) = sort_key name (take 99 (foundAccessories p))" for e p
    by (rule accessories_done_result)
  have a: "sorted (map name accs) \<and> length accs \<le> 99"
    if "accessories srv pl = Returned (accs, pl')" for accs pl'
  proof -
    from that obtain e p where "accs = fst (accessories_done e p)"
      by (auto simp: accessories_def Let_def split: outcome.splits prod.splits) (metis fst_conv)
    then show ?thesis by (simp add: r)
  qed
  show ?thesis
    using a by (simp add: r accessories_done_log)
qed

theorem accessories_bounded_then_sorted_witness:
  "length (foundAccessories example_full) = 100
   \<and> length (fst (accessories_done None example_full)) \<le> 99
   \<and> count_list (new_log example_full (snd (accessories_done None example_full)))
        (warning_line 100) = 1
   \<and> (\<exists>acc pl'. accessories server_home example_platform = Returned ([acc], pl')
         \<and> sorted (map name [acc]))"
proof -
  have len: "length (foundAccessories example_full) = 100"
    by (simp add: example_full_def example_found_def)
  note t = accessories_bounded_then_sorted [of None example_full server_home]
  note u = accessories_bounded_then_sorted [of None example_platform server_home]
  have "\<exists>acc pl'. accessories server_home example_platform = Returned ([acc], pl')"
    by (simp add: server_home_def discovery_defs)
  then obtain acc pl' where r: "accessories server_home example_platform = Returned ([acc], pl')"
    by blast
  then have "sorted (map name [acc])" using u by blast
  then show ?thesis using t len r by auto
qed

lemma name_example_accessory [simp]: "name (example_accessory v n ps) = n"
  by (simp add: example_accessory_def)

lemma a_less_b: "''a'' < replicate i (CHR ''b'') \<longleftrightarrow> 0 < i"
  by (cases i) simp_all

lemma a_not_b: "''a'' \<noteq> replicate i (CHR ''b'')"
  by (cases i) simp_all

lemma take_example_found:
  "take 99 example_found
     = map (\<lambda>i. example_accessory SwitchAccessory (replicate i (CHR ''b'')) []) [1..<100]"
  by (simp add: example_found_def)

lemma first_of_sorted:
  assumes "x \<in> set xs" and "\<forall>y \<in> set xs. y \<noteq> x \<longrightarrow> f x < f y"
  shows "hd (sort_key f xs) = x"
proof -
  let ?s = "sort_key f xs"
  have "set ?s = set xs" by simp
  then have ne: "?s \<noteq> []" using assms(1) by (metis empty_iff empty_set)
  have hd_in: "hd ?s \<in> set xs" using ne by (metis list.set_sel(1) set_sort)
  have "x \<in> set ?s" using assms(1) by simp
  then have "f (hd ?s) \<le> f x"
    using ne sorted_sort_key [of f xs]
    by (cases ?s) (auto simp: )
  then show ?thesis using assms(2) hd_in by force
qed

text \<open>
  C6, as stated, fails: of the hundred accessories of the example, the one named \<open>a\<close>,
  discovered last, is the first of the list sorted by name, and it is not in the list
  handed to the framework.
\<close>

theorem accessories_order_counterexample:
  "length (foundAccessories example_full) = 100
   \<and> hd (take 99 (sort_key name (foundAccessories example_full)))
       = example_accessory SwitchAccessory ''a'' []
   \<and> example_accessory SwitchAccessory ''a'' [] \<notin> set (fst (accessories_done None example_full))
   \<and> fst (accessories_done None example_full)
       \<noteq> take 99 (sort_key name (foundAccessories example_full))"
proof -
  let ?a = "example_accessory SwitchAccessory ''a'' []"
  have f: "foundAccessories example_full = example_found"
    by (simp add: example_full_def)
  have len: "length example_found = 100" by (simp add: example_found_def)
  have "hd (sort_key name example_found) = ?a"
  proof (rule first_of_sorted)
    show "?a \<in> set example_found" by (simp add: example_found_def)
    show "\<forall>y \<in> set example_found. y \<noteq> ?a \<longrightarrow> name ?a < name y"
      by (auto simp: example_found_def a_less_b)
  qed
  then have h: "hd (take 99 (sort_key name example_found)) = ?a"
    by (simp add: hd_take)
  have "set (fst (accessories_done None example_full)) = set (take 99 example_found)"
    by (simp add: accessories_done_result f)
  moreover have "?a \<notin> set (take 99 example_found)"
    by (auto simp: take_example_found example_accessory_def a_not_b)
  ultimately have n: "?a \<notin> set (fst (accessories_done None example_full))" by simp
  have "example_found \<noteq> []" using len by auto
  then have "sort_key name example_found \<noteq> []"
    by (metis length_sort length_0_conv)
  then have ne: "take 99 (sort_key name example_found) \<noteq> []" by simp
  have "?a \<in> set (take 99 (sort_key name example_found))"
    using h ne by (metis list.set_sel(1))
  then have "fst (accessories_done None example_full) \<noteq> take 99 (sort_key name example_found)"
    using n by metis
  then show ?thesis using f len h n by simp
qed

section \<open>The update listener: the three responses\<close>

lemma indigoRequestJSON_fails:
  "fetch_fails (srv (requestQueue pl @ [request_for pl path meth q])) \<Longrightarrow>
     \<exists>error pl'. indigoRequestJSON srv path meth q None pl = (Inl error, pl')
        \<and> accessoryMap pl' = accessoryMap pl"
  by (auto simp: indigoRequestJSON_def indigoRequest_def request_for_def fetch_fails_def Let_def
        log_line_def split: reply.splits)

lemma refresh_fails:
  assumes "fetch_fails (srv (requestQueue pl @ [request_for pl (deviceURL acc) ''GET'' None]))"
  shows "\<exists>error pl'. refresh srv (acc, pl) = Returned (Some error, (acc, pl'))
           \<and> accessoryMap pl' = accessoryMap pl"
proof -
  let ?pl = "log_line ''%s: refresh()'' [JStr (name acc)] pl"
  have "fetch_fails (srv (requestQueue ?pl @ [request_for ?pl (deviceURL acc) ''GET'' None]))"
    using assms by simp
  with indigoRequestJSON_fails [of srv ?pl "deviceURL acc" "''GET''" None] obtain error pl' where
    "indigoRequestJSON srv (deviceURL acc) ''GET'' None None ?pl = (Inl error, pl')"
    and "accessoryMap pl' = accessoryMap pl"
    by auto
  then show ?thesis
    by (simp add: refresh_def getStatus_def)
qed

lemmas refresh_defs =
  discovery_defs setLockTargetState_def setTargetPosition_def setTargetDoorState_def
  setBrightness_def executeAction_def position_set_handler_def thermostat_set_handler_def
  set_handler_def setValue_def Switch_update_isOn_def Lock_update_isOn_def
  Position_update_isOn_def Position_update_brightness_def GarageDoor_update_isOn_def
  Light_update_isOn_def Light_update_brightness_def position_update_method_def update_method_def
  refresh_updateCallback_def refresh_def updateAccessory_def result_of_def fetch_fails_def

text \<open>
  C8. The listener answers 404 when the identifier is not in the accessory map; 500 when
  it is and the fetch of the status fails, whether the request fails or the body does
  not parse, and then the accessory map, and with it every cached property, is as it
  was; and 200 when the refresh calls back without an error, the refreshed accessory
  taking its place in the map.
\<close>

theorem updateAccessory_responses:
  "(accessoryMap pl ident = None \<longrightarrow> (\<exists>pl'. updateAccessory srv ident pl = Returned (404, pl')))
   \<and> (\<forall>acc. accessoryMap pl ident = Some acc
         \<and> fetch_fails (srv (requestQueue pl @ [request_for pl (deviceURL acc) ''GET'' None]))
        \<longrightarrow> (\<exists>pl'. updateAccessory srv ident pl = Returned (500, pl')
               \<and> accessoryMap pl' = accessoryMap pl))
   \<and> (\<forall>acc acc1 pl1. accessoryMap pl ident = Some acc
         \<and> refresh srv (acc, log_line ''Got update request for device ID %s'' [JStr ident] pl)
             = Returned (None, (acc1, pl1))
        \<longrightarrow> updateAccessory srv ident pl
              = Returned (200, pl1\<lparr>accessoryMap := (accessoryMap pl1)(ident \<mapsto> acc1)\<rparr>))"
proof -
  let ?pl = "log_line ''Got update request for device ID %s'' [JStr ident] pl"
  have a: "\<exists>pl'. updateAccessory srv ident pl = Returned (404, pl')"
    if "accessoryMap pl ident = None"
    using that by (simp add: updateAccessory_def Let_def)
  have b: "\<exists>pl'. updateAccessory srv ident pl = Returned (500, pl')
               \<and> accessoryMap pl' = accessoryMap pl"
    if m: "accessoryMap pl ident = Some acc"
      and f: "fetch_fails (srv (requestQueue pl @ [request_for pl (deviceURL acc) ''GET'' None]))"
    for acc
  proof -
    have "fetch_fails (srv (requestQueue ?pl @ [request_for ?pl (deviceURL acc) ''GET'' None]))"
      using f by simp
    with refresh_fails [of srv ?pl acc] obtain error pl' where
      r: "refresh srv (acc, ?pl) = Returned (Some error, (acc, pl'))"
      and k: "accessoryMap pl' = accessoryMap pl"
      by auto
    have "(accessoryMap pl)(ident \<mapsto> acc) = accessoryMap pl"
      using m by (rule map_upd_triv)
    then show ?thesis
      using m r k by (simp add: updateAccessory_def Let_def)
  qed
  have c: "updateAccessory srv ident pl
              = Returned (200, pl1\<lparr>accessoryMap := (accessoryMap pl1)(ident \<mapsto> acc1)\<rparr>)"
    if "accessoryMap pl ident = Some acc"
      and "refresh srv (acc, ?pl) = Returned (None, (acc1, pl1))"
    for acc acc1 pl1
    using that by (simp add: updateAccessory_def Let_def)
  from a b c show ?thesis by blast
qed

theorem updateAccessory_responses_witness:
  "map_option fst (result_of (updateAccessory server_on ''11'' example_home)) = Some 404
   \<and> map_option fst (result_of (updateAccessory server_down ''10'' example_home)) = Some 500
   \<and> map_option (\<lambda>r. accessoryMap (snd r) ''10'')
        (result_of (updateAccessory server_down ''10'' example_home)) = Some (Some example_switch)
   \<and> map_option fst (result_of (updateAccessory server_garbled ''10'' example_home)) = Some 500
   \<and> map_option fst (result_of (updateAccessory server_on ''10'' example_home)) = Some 200"
proof -
  have m: "accessoryMap example_home ''11'' = None"
    "accessoryMap example_home ''10'' = Some example_switch"
    by (simp_all add: example_home_def)
  have f: "fetch_fails (server_down (requestQueue example_home
             @ [request_for example_home (deviceURL example_switch) ''GET'' None]))"
    "fetch_fails (server_garbled (requestQueue example_home
             @ [request_for example_home (deviceURL example_switch) ''GET'' None]))"
    by (simp_all add: server_down_def server_garbled_def fetch_fails_def model_defs)
  have "\<exists>acc1 pl1. refresh server_on
          (example_switch, log_line ''Got update request for device ID %s'' [JStr ''10''] example_home)
          = Returned (None, (acc1, pl1))"
    by (simp add: example_switch_def example_home_def server_on_def refresh_defs)
  then obtain acc1 pl1 where r: "refresh server_on
          (example_switch, log_line ''Got update request for device ID %s'' [JStr ''10''] example_home)
          = Returned (None, (acc1, pl1))"
    by blast
  note t404 = updateAccessory_responses [of example_home "''11''" server_on]
  note t500 = updateAccessory_responses [of example_home "''10''" server_down]
  note t500g = updateAccessory_responses [of example_home "''10''" server_garbled]
  note t200 = updateAccessory_responses [of example_home "''10''" server_on]
  from t404 m obtain p1 where 1: "updateAccessory server_on ''11'' example_home = Returned (404, p1)"
    by blast
  from t500 m f obtain p2 where 2: "updateAccessory server_down ''10'' example_home = Returned (500, p2)"
    and 3: "accessoryMap p2 = accessoryMap example_home"
    by blast
  from t500g m f obtain p3 where 4: "updateAccessory server_garbled ''10'' example_home = Returned (500, p3)"
    by blast
  from t200 m r have 5: "updateAccessory server_on ''10'' example_home
      = Returned (200, pl1\<lparr>accessoryMap := (accessoryMap pl1)(''10'' \<mapsto> acc1)\<rparr>)"
    by blast
  show ?thesis
    by (simp add: 1 2 3 4 5 m result_of_def)
qed

section \<open>Traits the device does not support\<close>

lemma getOnState_unsupported:
  "\<not> truthy (get_prop acc ''typeSupportsOnOff'') \<Longrightarrow>
     getOnState srv (acc, pl) = Returned (NotCalled, (acc, pl))"
  by (simp add: getOnState_def)

text \<open>
  C9. \<^verbatim>\<open>getOnState\<close> has no branch for a device without \<^verbatim>\<open>typeSupportsOnOff\<close>: on the
  dimmer that discovery builds from a device with \<^verbatim>\<open>typeSupportsDim\<close> alone, the get
  handler of \<open>On\<close> is \<open>getOnState\<close>, and it returns without calling its callback and
  without a request, where \<open>setOnState\<close> on the same accessory calls back with an error.
\<close>

theorem getOnState_never_calls_back:
  "createAccessoryFromJSON example_platform ''/devices/dimmer.json'' example_dimmer_json
     = Some (Some example_dimmer)
   \<and> get_handler example_dimmer On = Some getOnState
   \<and> getOnState server_down (example_dimmer, example_platform)
       = Returned (NotCalled, (example_dimmer, example_platform))
   \<and> map_option fst (result_of
        (setOnState server_down (JBool True) JUndefined (example_dimmer, example_platform)))
       = Some (CalledError ''Accessory does not support on/off'')"
proof -
  have 1: "createAccessoryFromJSON example_platform ''/devices/dimmer.json'' example_dimmer_json
     = Some (Some example_dimmer)"
    by (simp add: example_dimmer_json_def example_dimmer_def discovery_defs)
  have 2: "get_handler example_dimmer On = Some getOnState"
    by (simp add: get_handler_def example_dimmer_def example_accessory_def)
  have u: "\<not> truthy (get_prop example_dimmer ''typeSupportsOnOff'')"
    by (simp add: example_dimmer_def example_accessory_def get_prop_def)
  have 3: "getOnState server_down (example_dimmer, example_platform)
       = Returned (NotCalled, (example_dimmer, example_platform))"
    using u by (rule getOnState_unsupported)
  have 4: "map_option fst (result_of
        (setOnState server_down (JBool True) JUndefined (example_dimmer, example_platform)))
       = Some (CalledError ''Accessory does not support on/off'')"
    using u by (simp add: setOnState_def result_of_def loose_eq_def REFRESH_CONTEXT_def Let_def)
  from 1 2 3 4 show ?thesis by simp
qed

section \<open>Refresh\<close>

lemma quiet_refl [simp]: "quiet pl pl"
  by (simp add: quiet_def)

lemma quiet_log_line [simp]: "quiet pl (log_line fmt args pl)"
  by (simp add: quiet_def log_line_def)

lemma quiet_trans: "quiet pl pl1 \<Longrightarrow> quiet pl1 pl2 \<Longrightarrow> quiet pl pl2"
  by (simp add: quiet_def)

lemma echoes_refl [simp]: "echoes acc acc"
  by (simp add: echoes_def)

lemma echoes_trans:
  assumes "echoes a b" "echoes b c"
  shows "echoes a c"
proof -
  from assms(1) obtain c1 where 1: "setValueCalls b = setValueCalls a @ c1"
    and r1: "\<forall>call \<in> set c1. snd (snd call) = REFRESH_CONTEXT"
    unfolding echoes_def by blast
  from assms(2) obtain c2 where 2: "setValueCalls c = setValueCalls b @ c2"
    and r2: "\<forall>call \<in> set c2. snd (snd call) = REFRESH_CONTEXT"
    unfolding echoes_def by blast
  have "setValueCalls c = setValueCalls a @ (c1 @ c2)" by (simp add: 1 2)
  moreover have "\<forall>call \<in> set (c1 @ c2). snd (snd call) = REFRESH_CONTEXT"
    using r1 r2 by auto
  ultimately have "\<exists>calls. setValueCalls c = setValueCalls a @ calls
                \<and> (\<forall>call \<in> set calls. snd (snd call) = REFRESH_CONTEXT)"
    by blast
  then show ?thesis using assms by (simp add: echoes_def)
qed

lemma echoes_set_prop [simp]: "echoes acc (set_prop acc k v)"
  by (simp add: echoes_def set_prop_def)

lemma loose_eq_REFRESH [simp]: "loose_eq REFRESH_CONTEXT REFRESH_CONTEXT"
  by (simp add: loose_eq_def REFRESH_CONTEXT_def)

lemma strict_eq_REFRESH [simp]: "strict_eq REFRESH_CONTEXT REFRESH_CONTEXT"
  by (simp add: strict_eq_def REFRESH_CONTEXT_def)

lemma echo_suppressed_setOnState: "echo_suppressed setOnState"
  by (simp add: echo_suppressed_def setOnState_def Let_def)

lemma echo_suppressed_setLockTargetState: "echo_suppressed setLockTargetState"
  by (simp add: echo_suppressed_def setLockTargetState_def Let_def)

lemma echo_suppressed_setTargetPosition: "echo_suppressed setTargetPosition"
  by (simp add: echo_suppressed_def setTargetPosition_def Let_def)

lemma echo_suppressed_setTargetDoorState: "echo_suppressed setTargetDoorState"
  by (simp add: echo_suppressed_def setTargetDoorState_def Let_def)

lemma echo_suppressed_setBrightness: "echo_suppressed setBrightness"
  by (simp add: echo_suppressed_def setBrightness_def Let_def)

lemma echo_suppressed_executeAction:
  "echo_suppressed (\<lambda>srv v context st. Returned (executeAction srv v context st))"
  by (simp add: echo_suppressed_def executeAction_def Let_def)

lemma setValue_refresh:
  assumes "suppressing acc c"
  shows "\<exists>pl'. setValue srv c v REFRESH_CONTEXT (acc, pl)
                 = Returned (acc\<lparr>setValueCalls := setValueCalls acc @ [(c, v, REFRESH_CONTEXT)]\<rparr>, pl')
               \<and> quiet pl pl'"
proof -
  let ?acc = "acc\<lparr>setValueCalls := setValueCalls acc @ [(c, v, REFRESH_CONTEXT)]\<rparr>"
  have sh: "set_handler ?acc c = set_handler acc c"
    by (cases "variant acc") (simp_all add: set_handler_def)
  show ?thesis
  proof (cases "set_handler acc c")
    case None
    then show ?thesis using sh by (simp add: setValue_def Let_def)
  next
    case (Some handler)
    then have "echo_suppressed handler" using assms by (simp add: suppressing_def)
    then obtain pl' where "handler srv v REFRESH_CONTEXT (?acc, pl) = Returned (Called (), (?acc, pl'))"
      and "quiet pl pl'"
      unfolding echo_suppressed_def by blast
    then show ?thesis using sh Some by (simp add: setValue_def Let_def map_outcome_def)
  qed
qed

lemma suppressing_calls [simp]:
  "suppressing (acc\<lparr>setValueCalls := xs\<rparr>) c = suppressing acc c"
  by (cases "variant acc") (simp_all add: suppressing_def set_handler_def)


lemma suppressing_targets:
  "variant acc = SwitchAccessory \<Longrightarrow> suppressing acc On"
  "variant acc = LightAccessory \<Longrightarrow> suppressing acc On"
  "variant acc = LightAccessory \<Longrightarrow> suppressing acc Brightness"
  "variant acc = LockAccessory \<Longrightarrow> suppressing acc LockCurrentState"
  "variant acc = LockAccessory \<Longrightarrow> suppressing acc LockTargetState"
  "variant acc = GarageDoorAccessory \<Longrightarrow> suppressing acc CurrentDoorState"
  "variant acc = GarageDoorAccessory \<Longrightarrow> suppressing acc TargetDoorState"
  "variant acc \<in> {DoorAccessory, WindowAccessory, WindowCoveringAccessory}
     \<Longrightarrow> suppressing acc CurrentPosition"
  "variant acc \<in> {DoorAccessory, WindowAccessory, WindowCoveringAccessory}
     \<Longrightarrow> suppressing acc TargetPosition"
  by (auto simp: suppressing_def set_handler_def position_set_handler_def
        echo_suppressed_setOnState echo_suppressed_setLockTargetState
        echo_suppressed_setTargetPosition echo_suppressed_setTargetDoorState
        echo_suppressed_setBrightness)

lemma one_setValue:
  assumes "suppressing acc c"
  shows "\<exists>pl'. setValue srv c v REFRESH_CONTEXT (acc, pl)
                 = Returned (acc\<lparr>setValueCalls := setValueCalls acc @ [(c, v, REFRESH_CONTEXT)]\<rparr>, pl')
               \<and> quiet pl pl'"
  using assms by (rule setValue_refresh)

lemma two_setValues:
  assumes "suppressing acc c1" "suppressing acc c2"
  shows "\<exists>pl'. and_then (setValue srv c1 v1 REFRESH_CONTEXT (acc, pl))
                   (setValue srv c2 v2 REFRESH_CONTEXT)
                 = Returned (acc\<lparr>setValueCalls := setValueCalls acc
                               @ [(c1, v1, REFRESH_CONTEXT), (c2, v2, REFRESH_CONTEXT)]\<rparr>, pl')
               \<and> quiet pl pl'"
proof -
  let ?acc1 = "acc\<lparr>setValueCalls := setValueCalls acc @ [(c1, v1, REFRESH_CONTEXT)]\<rparr>"
  from setValue_refresh [OF assms(1), of srv v1 pl] obtain pl1 where
    1: "setValue srv c1 v1 REFRESH_CONTEXT (acc, pl) = Returned (?acc1, pl1)" and q1: "quiet pl pl1"
    by blast
  have "suppressing ?acc1 c2" using assms(2) by simp
  from setValue_refresh [OF this, of srv v2 pl1] obtain pl2 where
    2: "setValue srv c2 v2 REFRESH_CONTEXT (?acc1, pl1)
          = Returned (?acc1\<lparr>setValueCalls := setValueCalls ?acc1 @ [(c2, v2, REFRESH_CONTEXT)]\<rparr>, pl2)"
    and q2: "quiet pl1 pl2"
    by blast
  show ?thesis
    using 1 2 quiet_trans [OF q1 q2] by (simp add: and_then_def)
qed

lemma no_setValue:
  "\<exists>pl'. Returned (acc, pl) = Returned (acc\<lparr>setValueCalls := setValueCalls acc @ []\<rparr>, pl')
         \<and> quiet pl pl'"
  by simp

lemma update_method_calls:
  assumes "update_method (variant acc) prop = Some update"
  shows "\<exists>pl'. update srv v (acc, pl)
                 = Returned (acc\<lparr>setValueCalls := setValueCalls acc @ mirror_calls acc prop v\<rparr>, pl')
               \<and> quiet pl pl'"
proof (cases "variant acc")
  case SwitchAccessory
  have s: "suppressing acc On" using SwitchAccessory by (rule suppressing_targets)
  show ?thesis
    using assms SwitchAccessory one_setValue [OF s, of srv "JBool (truthy v)" pl]
    by (auto simp: update_method_def mirror_calls_def Switch_update_isOn_def split: if_splits)
next
  case LockAccessory
  have s: "suppressing acc LockCurrentState" "suppressing acc LockTargetState"
    using LockAccessory by (rule suppressing_targets)+
  show ?thesis
    using assms LockAccessory two_setValues [OF s, of srv
        "if truthy v then SECURED else UNSECURED" pl "if truthy v then SECURED else UNSECURED"]
    by (auto simp: update_method_def mirror_calls_def Lock_update_isOn_def split: if_splits)
next
  case GarageDoorAccessory
  have s: "suppressing acc CurrentDoorState" "suppressing acc TargetDoorState"
    using GarageDoorAccessory by (rule suppressing_targets)+
  show ?thesis
    using assms GarageDoorAccessory two_setValues [OF s, of srv
        "if truthy v then DOOR_OPEN else DOOR_CLOSED" pl "if truthy v then DOOR_OPEN else DOOR_CLOSED"]
    by (auto simp: update_method_def mirror_calls_def GarageDoor_update_isOn_def split: if_splits)
next
  case LightAccessory
  have s: "suppressing acc On" "suppressing acc Brightness"
    using LightAccessory by (rule suppressing_targets)+
  show ?thesis
    using assms LightAccessory one_setValue [OF s(1), of srv "JBool (truthy v)" pl]
      one_setValue [OF s(2), of srv v pl]
    by (auto simp: update_method_def mirror_calls_def Light_update_isOn_def
          Light_update_brightness_def split: if_splits)
next
  case DoorAccessory
  then have p: "variant acc \<in> {DoorAccessory, WindowAccessory, WindowCoveringAccessory}" by simp
  have s: "suppressing acc CurrentPosition" "suppressing acc TargetPosition"
    using p by (rule suppressing_targets)+
  show ?thesis
    using assms DoorAccessory
      two_setValues [OF s, of srv
        "JNum (if truthy v then 100 else 0)" pl "JNum (if truthy v then 100 else 0)"]
      two_setValues [OF s, of srv v pl v]
      no_setValue [of acc pl]
    by (auto simp: update_method_def position_update_method_def mirror_calls_def
          Position_update_isOn_def Position_update_brightness_def split: if_splits)
next
  case WindowAccessory
  then have p: "variant acc \<in> {DoorAccessory, WindowAccessory, WindowCoveringAccessory}" by simp
  have s: "suppressing acc CurrentPosition" "suppressing acc TargetPosition"
    using p by (rule suppressing_targets)+
  show ?thesis
    using assms WindowAccessory
      two_setValues [OF s, of srv
        "JNum (if truthy v then 100 else 0)" pl "JNum (if truthy v then 100 else 0)"]
      two_setValues [OF s, of srv v pl v]
      no_setValue [of acc pl]
    by (auto simp: update_method_def position_update_method_def mirror_calls_def
          Position_update_isOn_def Position_update_brightness_def split: if_splits)
next
  case WindowCoveringAccessory
  then have p: "variant acc \<in> {DoorAccessory, WindowAccessory, WindowCoveringAccessory}" by simp
  have s: "suppressing acc CurrentPosition" "suppressing acc TargetPosition"
    using p by (rule suppressing_targets)+
  show ?thesis
    using assms WindowCoveringAccessory
      two_setValues [OF s, of srv
        "JNum (if truthy v then 100 else 0)" pl "JNum (if truthy v then 100 else 0)"]
      two_setValues [OF s, of srv v pl v]
      no_setValue [of acc pl]
    by (auto simp: update_method_def position_update_method_def mirror_calls_def
          Position_update_isOn_def Position_update_brightness_def split: if_splits)
qed (use assms in \<open>simp_all add: update_method_def\<close>)

lemma mirror_calls_context: "\<forall>call \<in> set (mirror_calls acc prop v). snd (snd call) = REFRESH_CONTEXT"
  by (cases "variant acc") (auto simp: mirror_calls_def Let_def)

lemma mirror_calls_no_method:
  "update_method (variant acc) prop = None \<Longrightarrow> mirror_calls acc prop v = []"
  by (cases "variant acc")
     (auto simp: mirror_calls_def update_method_def position_update_method_def Let_def
        split: if_splits)


lemma refresh_updateCallback_calls:
  assumes "map_of (props acc) (''update_'' @ prop) = None"
  shows "\<exists>pl'. refresh_updateCallback srv prop v (acc, pl)
                 = Returned (acc\<lparr>setValueCalls := setValueCalls acc @ mirror_calls acc prop v\<rparr>, pl')
               \<and> quiet pl pl'"
proof (cases "update_method (variant acc) prop")
  case None
  then show ?thesis
    using assms by (simp add: refresh_updateCallback_def mirror_calls_no_method)
next
  case (Some update)
  let ?pl = "log_line ''%s: %s(%s)'' [JStr (name acc), JStr (''update_'' @ prop), v] pl"
  from update_method_calls [OF Some, of srv v ?pl] obtain pl' where
    u: "update srv v (acc, ?pl)
          = Returned (acc\<lparr>setValueCalls := setValueCalls acc @ mirror_calls acc prop v\<rparr>, pl')"
    and q: "quiet ?pl pl'"
    by blast
  have "quiet pl pl'" using quiet_trans [OF quiet_log_line q] .
  then show ?thesis
    using assms Some u by (simp add: refresh_updateCallback_def)
qed

lemma refresh_updateCallback_cases:
  "refresh_updateCallback srv prop v (acc, pl) = Threw pl
   \<or> (\<exists>acc' pl'. refresh_updateCallback srv prop v (acc, pl) = Returned (acc', pl')
         \<and> quiet pl pl' \<and> echoes acc acc')"
proof (cases "map_of (props acc) (''update_'' @ prop)")
  case None
  from refresh_updateCallback_calls [OF None, of srv v pl] obtain pl' where
    r: "refresh_updateCallback srv prop v (acc, pl)
          = Returned (acc\<lparr>setValueCalls := setValueCalls acc @ mirror_calls acc prop v\<rparr>, pl')"
    and q: "quiet pl pl'"
    by blast
  have m: "\<forall>call \<in> set (mirror_calls acc prop v). snd (snd call) = REFRESH_CONTEXT"
    by (rule mirror_calls_context)
  have "echoes acc (acc\<lparr>setValueCalls := setValueCalls acc @ mirror_calls acc prop v\<rparr>)"
    using m by (auto simp: echoes_def)
  then show ?thesis using r q by blast
next
  case (Some own)
  then show ?thesis by (simp add: refresh_updateCallback_def)
qed

lemma updateFromJSON_loop_quiet:
  "case updateFromJSON_loop kvs (Some (refresh_updateCallback srv)) (acc, pl) of
     Threw p \<Rightarrow> quiet pl p
   | Returned (acc', pl') \<Rightarrow> quiet pl pl' \<and> echoes acc acc'"
proof (induction kvs arbitrary: acc pl)
  case Nil
  show ?case by simp
next
  case (Cons kv kvs)
  obtain k v where kv: "kv = (k, v)" by (cases kv)
  show ?case
  proof (cases "k \<noteq> ''name'' \<and> \<not> loose_eq v (get_prop acc k)")
    case False
    then show ?thesis using Cons.IH [where acc = acc and pl = pl] by (auto simp: kv)
  next
    case True
    from refresh_updateCallback_cases [of srv k v "set_prop acc k v" pl]
    show ?thesis
    proof
      assume "refresh_updateCallback srv k v (set_prop acc k v, pl) = Threw pl"
      then show ?thesis using True by (simp add: kv)
    next
      assume "\<exists>acc' pl'. refresh_updateCallback srv k v (set_prop acc k v, pl)
                = Returned (acc', pl') \<and> quiet pl pl' \<and> echoes (set_prop acc k v) acc'"
      then obtain acc1 pl1 where
        r: "refresh_updateCallback srv k v (set_prop acc k v, pl) = Returned (acc1, pl1)"
        and q: "quiet pl pl1" and e: "echoes (set_prop acc k v) acc1"
        by blast
      have e1: "echoes acc acc1" using echoes_trans [OF echoes_set_prop e] .
      have step: "updateFromJSON_loop (kv # kvs) (Some (refresh_updateCallback srv)) (acc, pl)
                   = updateFromJSON_loop kvs (Some (refresh_updateCallback srv)) (acc1, pl1)"
        using True r by (simp add: kv)
      show ?thesis
        using Cons.IH [where acc = acc1 and pl = pl1] q e1 unfolding step
        by (auto split: outcome.splits intro: quiet_trans echoes_trans)
    qed
  qed
qed

lemma sent_quiet: "quiet pl1 pl2 \<Longrightarrow> sent pl pl2 = sent pl pl1"
  by (simp add: sent_def quiet_def)

lemma getStatus_refresh_quiet:
  "\<exists>pl1. quiet (snd (indigoRequestJSON srv (deviceURL acc) ''GET'' None None pl)) pl1
     \<and> platform_of (getStatus srv (Some (refresh_updateCallback srv)) (acc, pl)) = pl1
     \<and> (\<forall>e acc' pl'. getStatus srv (Some (refresh_updateCallback srv)) (acc, pl)
            = Returned (e, (acc', pl')) \<longrightarrow> echoes acc acc')"
proof (cases "indigoRequestJSON srv (deviceURL acc) ''GET'' None None pl")
  case (Pair r pl0)
  show ?thesis
  proof (cases r)
    case (Inl error)
    then show ?thesis using Pair by (simp add: getStatus_def platform_of_def)
  next
    case (Inr json)
    have g: "getStatus srv (Some (refresh_updateCallback srv)) (acc, pl)
             = map_outcome (Pair None) (updateFromJSON json (Some (refresh_updateCallback srv)) (acc, pl0))"
      using Pair Inr by (simp add: getStatus_def)
    show ?thesis
      using updateFromJSON_loop_quiet [where kvs = "own_props json" and srv = srv and acc = acc and pl = pl0]
      unfolding g Pair
      by (auto simp: updateFromJSON_def map_outcome_def platform_of_def echoes_def
            split: outcome.splits option.splits prod.splits)
  qed
qed


lemma loose_eq_bools [simp]:
  "loose_eq (JBool True) (JBool True)" "\<not> loose_eq (JBool True) (JBool False)"
  by (simp_all add: loose_eq_def)

lemma mirror_calls_isOn:
  "mirror_calls (set_prop acc ''isOn'' (JBool True)) ''isOn'' (JBool True) = isOn_mirror acc"
  by (cases "variant acc")
     (simp_all add: mirror_calls_def isOn_mirror_def get_prop_set_prop Let_def set_prop_def get_prop_def
        map_of_obj_put)

lemma refresh_queue:
  "requestQueue (platform_of (refresh srv (acc, pl)))
     = requestQueue pl @ [request_for pl (deviceURL acc) ''GET'' None]"
proof -
  let ?pl = "log_line ''%s: refresh()'' [JStr (name acc)] pl"
  obtain r pl0 where j: "indigoRequestJSON srv (deviceURL acc) ''GET'' None None ?pl = (r, pl0)"
    by (cases "indigoRequestJSON srv (deviceURL acc) ''GET'' None None ?pl")
  from indigoRequestJSON_queue [OF j]
  have 0: "requestQueue pl0 = requestQueue pl @ [request_for pl (deviceURL acc) ''GET'' None]"
    by simp
  from getStatus_refresh_quiet [of srv acc ?pl]
  have "quiet pl0 (platform_of (getStatus srv (Some (refresh_updateCallback srv)) (acc, ?pl)))"
    by (simp add: j)
  then show ?thesis using 0 by (simp add: refresh_def quiet_def)
qed

lemma refresh_echoes:
  "refresh srv (acc, pl) = Returned (e, (acc', pl')) \<Longrightarrow> echoes acc acc'"
  using getStatus_refresh_quiet [of srv acc "log_line ''%s: refresh()'' [JStr (name acc)] pl"]
  by (simp add: refresh_def)

lemma suppressing_all:
  "variant acc \<noteq> ThermostatAccessory \<Longrightarrow> c \<noteq> RotationSpeed \<Longrightarrow> suppressing acc c"
  by (cases "variant acc")
     (auto simp: suppressing_def set_handler_def position_set_handler_def
        echo_suppressed_setOnState echo_suppressed_setLockTargetState
        echo_suppressed_setTargetPosition echo_suppressed_setTargetDoorState
        echo_suppressed_setBrightness echo_suppressed_executeAction)


lemma mirror_calls_cong:
  "variant a = variant b \<Longrightarrow> get_prop a ''typeSupportsDim'' = get_prop b ''typeSupportsDim'' \<Longrightarrow>
     mirror_calls a k v = mirror_calls b k v"
  by (simp add: mirror_calls_def)

lemma mirror_all_cong:
  "variant a = variant b \<Longrightarrow> props a = props b \<Longrightarrow> mirror_all a kvs = mirror_all b kvs"
proof (induction kvs arbitrary: a b)
  case Nil
  show ?case by simp
next
  case (Cons kv kvs)
  obtain k v where kv: "kv = (k, v)" by (cases kv)
  have g: "get_prop a k' = get_prop b k'" for k'
    using Cons.prems by (simp add: get_prop_def)
  have s: "variant (set_prop a k v) = variant (set_prop b k v)"
    "props (set_prop a k v) = props (set_prop b k v)"
    using Cons.prems by (simp_all add: set_prop_def)
  have m: "mirror_calls (set_prop a k v) k v = mirror_calls (set_prop b k v) k v"
    using s by (intro mirror_calls_cong) (simp_all add: get_prop_def)
  show ?case
    using Cons.IH [OF s] Cons.IH [OF Cons.prems] m by (simp add: kv g)
qed

lemma plain_keys: "plain ps \<Longrightarrow> map_of ps (''update_'' @ k) = None"
  by (induction ps) (auto simp: plain_def)

lemma plain_obj_put: "plain ps \<Longrightarrow> take 7 k \<noteq> ''update_'' \<Longrightarrow> plain (obj_put ps k v)"
  by (induction ps) (auto simp: plain_def)

lemma updateFromJSON_loop_mirror:
  assumes "distinct (map fst kvs)" "plain (props acc)" "plain kvs"
  shows "\<exists>acc' pl'. updateFromJSON_loop kvs (Some (refresh_updateCallback srv)) (acc, pl)
            = Returned (acc', pl')
          \<and> quiet pl pl' \<and> (\<forall>k. get_prop acc' k = fetched acc kvs k)
          \<and> setValueCalls acc' = setValueCalls acc @ mirror_all acc kvs"
  using assms
proof (induction kvs arbitrary: acc pl)
  case Nil
  show ?case by (simp add: fetched_def)
next
  case (Cons kv kvs)
  obtain k v where kv: "kv = (k, v)" by (cases kv)
  have d: "distinct (map fst kvs)" and nk: "map_of kvs k = None"
    using Cons.prems(1) by (auto simp: kv map_of_eq_None_iff)
  have pk: "take 7 k \<noteq> ''update_''" and pr: "plain kvs"
    using Cons.prems(3) by (simp_all add: plain_def kv)
  show ?case
  proof (cases "k \<noteq> ''name'' \<and> \<not> loose_eq v (get_prop acc k)")
    case False
    from Cons.IH [OF d Cons.prems(2) pr, of pl] obtain acc' pl' where
      l: "updateFromJSON_loop kvs (Some (refresh_updateCallback srv)) (acc, pl) = Returned (acc', pl')"
      and q: "quiet pl pl'" and g: "\<forall>k'. get_prop acc' k' = fetched acc kvs k'"
      and c: "setValueCalls acc' = setValueCalls acc @ mirror_all acc kvs"
      by blast
    have f: "fetched acc kvs k' = fetched acc (kv # kvs) k'" for k'
      using False nk by (auto simp: fetched_def kv)
    show ?thesis
      using False l q g c f by (auto simp: kv)
  next
    case True
    let ?acc1 = "set_prop acc k v"
    let ?acc2 = "?acc1\<lparr>setValueCalls := setValueCalls ?acc1 @ mirror_calls ?acc1 k v\<rparr>"
    have p1: "plain (props ?acc1)"
      using Cons.prems(2) pk by (simp add: set_prop_def plain_obj_put)
    from refresh_updateCallback_calls [OF plain_keys [OF p1, of k], of srv v pl] obtain pl1 where
      r: "refresh_updateCallback srv k v (?acc1, pl) = Returned (?acc2, pl1)"
      and q1: "quiet pl pl1"
      by blast
    have p2: "plain (props ?acc2)" using p1 by simp
    from Cons.IH [OF d p2 pr, of pl1] obtain acc' pl' where
      l: "updateFromJSON_loop kvs (Some (refresh_updateCallback srv)) (?acc2, pl1) = Returned (acc', pl')"
      and q: "quiet pl1 pl'" and g: "\<forall>k'. get_prop acc' k' = fetched ?acc2 kvs k'"
      and c: "setValueCalls acc' = setValueCalls ?acc2 @ mirror_all ?acc2 kvs"
      by blast
    have f: "fetched ?acc2 kvs k' = fetched acc (kv # kvs) k'" for k'
      using True nk
      by (cases "k' = k")
         (auto simp: fetched_def kv get_prop_def set_prop_def map_of_obj_put split: option.splits)
    have m: "mirror_all ?acc2 kvs = mirror_all ?acc1 kvs"
      by (rule mirror_all_cong) simp_all
    have c': "setValueCalls acc' = setValueCalls acc @ mirror_all acc (kv # kvs)"
      using c True unfolding m by (simp add: kv set_prop_def)
    have step: "updateFromJSON_loop (kv # kvs) (Some (refresh_updateCallback srv)) (acc, pl)
                  = Returned (acc', pl')"
      using True r l by (simp add: kv)
    show ?thesis
      using step quiet_trans [OF q1 q] g f c' by auto
  qed
qed

lemma refresh_mirror:
  assumes reply: "srv (requestQueue pl @ [request_for pl (deviceURL acc) ''GET'' None]) = Response body"
    and json: "JSON_parse body = Some (JObj kvs)"
    and plain: "plain (props acc)" "plain kvs"
  shows "\<exists>acc' pl'. refresh srv (acc, pl) = Returned (None, (acc', pl'))
           \<and> (\<forall>k. get_prop acc' k = fetched acc kvs k)
           \<and> setValueCalls acc' = setValueCalls acc @ mirror_all acc kvs"
proof -
  let ?pl = "log_line ''%s: refresh()'' [JStr (name acc)] pl"
  obtain pl0 where j: "indigoRequestJSON srv (deviceURL acc) ''GET'' None None ?pl = (Inr (JObj kvs), pl0)"
    using reply json
    by (simp add: indigoRequestJSON_def indigoRequest_def Let_def request_for_def log_line_def
          split: prod.splits)
  from updateFromJSON_loop_mirror [OF JSON_parse_distinct [OF json] plain, of srv pl0]
  obtain acc1 pl1 where
    l: "updateFromJSON_loop kvs (Some (refresh_updateCallback srv)) (acc, pl0) = Returned (acc1, pl1)"
    and g: "\<forall>k. get_prop acc1 k = fetched acc kvs k"
    and c: "setValueCalls acc1 = setValueCalls acc @ mirror_all acc kvs"
    by blast
  show ?thesis
    using j l g c
    by (simp add: refresh_def getStatus_def updateFromJSON_def map_outcome_def get_prop_def)
qed

lemma steady_Cons:
  "map_of kvs k = None \<Longrightarrow> steady acc ((k, v) # kvs) k' \<Longrightarrow> steady acc kvs k'"
  by (auto simp: steady_def split: if_splits)

lemma mirror_calls_other:
  "k \<noteq> ''isOn'' \<Longrightarrow> k \<noteq> ''brightness'' \<Longrightarrow> mirror_calls acc k v = []"
  by (cases "variant acc") (simp_all add: mirror_calls_def)

lemma mirror_all_isOn_general:
  assumes "distinct (map fst kvs)" "steady acc kvs ''brightness''" "steady acc kvs ''typeSupportsDim''"
  shows "mirror_all acc kvs
     = (case map_of kvs ''isOn'' of
          None \<Rightarrow> []
        | Some v \<Rightarrow> if loose_eq v (get_prop acc ''isOn'') then []
                     else mirror_calls (set_prop acc ''isOn'' v) ''isOn'' v)"
  using assms
proof (induction kvs arbitrary: acc)
  case Nil
  show ?case by simp
next
  case (Cons kv kvs)
  obtain k v where kv: "kv = (k, v)" by (cases kv)
  have d: "distinct (map fst kvs)" and nk: "map_of kvs k = None"
    using Cons.prems(1) by (auto simp: kv map_of_eq_None_iff)
  have sb: "steady acc kvs ''brightness''" and sd: "steady acc kvs ''typeSupportsDim''"
    using Cons.prems(2,3) nk unfolding kv by (auto intro: steady_Cons)
  show ?case
  proof (cases "k \<noteq> ''name'' \<and> \<not> loose_eq v (get_prop acc k)")
    case False
    have "k = ''isOn'' \<Longrightarrow> k \<noteq> ''name''" by auto
    then show ?thesis
      using False Cons.IH [OF d sb sd] nk by (auto simp: kv)
  next
    case True
    let ?acc1 = "set_prop acc k v"
    have kb: "k \<noteq> ''brightness''" and kd: "k \<noteq> ''typeSupportsDim''"
      using True Cons.prems(2,3) by (auto simp: steady_def kv)
    have sb1: "steady ?acc1 kvs ''brightness''" and sd1: "steady ?acc1 kvs ''typeSupportsDim''"
      using sb sd kb kd by (auto simp: steady_def get_prop_set_prop split: option.splits)
    note IH = Cons.IH [OF d sb1 sd1]
    show ?thesis
    proof (cases "k = ''isOn''")
      case isOn: True
      then show ?thesis
        using True IH nk by (simp add: kv)
    next
      case False
      have mc: "mirror_calls (set_prop ?acc1 ''isOn'' w) ''isOn'' w
                  = mirror_calls (set_prop acc ''isOn'' w) ''isOn'' w" for w
        using kd by (intro mirror_calls_cong) (simp_all add: get_prop_set_prop, simp add: set_prop_def)
      show ?thesis
        using True False kb IH
        by (simp add: kv mirror_calls_other get_prop_set_prop mc split: option.splits)
    qed
  qed
qed

lemma mirror_all_isOn:
  assumes "distinct (map fst kvs)" "get_prop acc ''isOn'' = JBool False"
    "map_of kvs ''isOn'' = Some (JBool True)"
    "steady acc kvs ''brightness''" "steady acc kvs ''typeSupportsDim''"
  shows "mirror_all acc kvs = isOn_mirror acc"
  using mirror_all_isOn_general [OF assms(1,4,5)] assms(2,3)
  by (simp add: mirror_calls_isOn)


text \<open>
  C1. A refresh pushes one request, the GET of the device, and hence no PUT and no
  EXECUTE, whatever the server replies and whether it returns or throws. When it
  returns, the accessory has changed in its copied properties, its name and in calls of
  \<open>setValue\<close> only, and each of these calls carries \<open>REFRESH_CONTEXT\<close>. Every set handler
  other than the fan's speed and the thermostat's, given that context, calls back at
  once and pushes no request. When the reply is a JSON object and no property of the
  accessory or of the reply has a name that begins with \<^verbatim>\<open>update_\<close>, the refresh calls
  back without an error, the cache holds the fetched properties, and the calls of
  \<open>setValue\<close> made are those of \<open>mirror_all\<close>: for each changed property in turn, the calls
  of the class's method for it. If \<^verbatim>\<open>isOn\<close> goes from \<^verbatim>\<open>false\<close> to \<^verbatim>\<open>true\<close> while \<^verbatim>\<open>brightness\<close>
  and \<^verbatim>\<open>typeSupportsDim\<close> stay as cached, whatever else changes, these are the calls of
  \<open>isOn_mirror\<close>: one for a switch and a light, two for a lock, a garage door and a
  position accessory that does not dim, none for the others.
\<close>

theorem refresh_sends_no_write:
  "sent pl (platform_of (refresh srv (acc, pl))) = [request_for pl (deviceURL acc) ''GET'' None]
   \<and> writes (sent pl (platform_of (refresh srv (acc, pl)))) = []
   \<and> (\<forall>e acc' pl'. refresh srv (acc, pl) = Returned (e, (acc', pl')) \<longrightarrow> echoes acc acc')
   \<and> (\<forall>c. variant acc \<noteq> ThermostatAccessory \<and> c \<noteq> RotationSpeed \<longrightarrow> suppressing acc c)
   \<and> (\<forall>body kvs.
         srv (requestQueue pl @ [request_for pl (deviceURL acc) ''GET'' None]) = Response body
         \<and> JSON_parse body = Some (JObj kvs) \<and> plain (props acc) \<and> plain kvs
        \<longrightarrow> (\<exists>acc' pl'. refresh srv (acc, pl) = Returned (None, (acc', pl'))
               \<and> (\<forall>k. get_prop acc' k = fetched acc kvs k)
               \<and> setValueCalls acc' = setValueCalls acc @ mirror_all acc kvs)
            \<and> (get_prop acc ''isOn'' = JBool False \<and> map_of kvs ''isOn'' = Some (JBool True)
                \<and> steady acc kvs ''brightness'' \<and> steady acc kvs ''typeSupportsDim''
               \<longrightarrow> fetched acc kvs ''isOn'' = JBool True
                   \<and> mirror_all acc kvs = isOn_mirror acc))"
proof -
  have 1: "sent pl (platform_of (refresh srv (acc, pl)))
             = [request_for pl (deviceURL acc) ''GET'' None]"
    using refresh_queue [of srv acc pl] by (rule sent_append)
  have 2: "writes (sent pl (platform_of (refresh srv (acc, pl)))) = []"
    unfolding 1 by (simp add: writes_def request_for_def)
  have 3: "\<forall>e acc' pl'. refresh srv (acc, pl) = Returned (e, (acc', pl')) \<longrightarrow> echoes acc acc'"
    using refresh_echoes by blast
  have 4: "\<forall>c. variant acc \<noteq> ThermostatAccessory \<and> c \<noteq> RotationSpeed \<longrightarrow> suppressing acc c"
    using suppressing_all by blast
  have 5: "(\<exists>acc' pl'. refresh srv (acc, pl) = Returned (None, (acc', pl'))
               \<and> (\<forall>k. get_prop acc' k = fetched acc kvs k)
               \<and> setValueCalls acc' = setValueCalls acc @ mirror_all acc kvs)
            \<and> (get_prop acc ''isOn'' = JBool False \<and> map_of kvs ''isOn'' = Some (JBool True)
                \<and> steady acc kvs ''brightness'' \<and> steady acc kvs ''typeSupportsDim''
               \<longrightarrow> fetched acc kvs ''isOn'' = JBool True
                   \<and> mirror_all acc kvs = isOn_mirror acc)"
    if reply: "srv (requestQueue pl @ [request_for pl (deviceURL acc) ''GET'' None]) = Response body"
      and json: "JSON_parse body = Some (JObj kvs)"
      and plain: "plain (props acc)" "plain kvs"
    for body kvs
  proof -
    note a = refresh_mirror [of srv pl acc body kvs, OF reply json plain]
    have b: "fetched acc kvs ''isOn'' = JBool True \<and> mirror_all acc kvs = isOn_mirror acc"
      if "get_prop acc ''isOn'' = JBool False" "map_of kvs ''isOn'' = Some (JBool True)"
        "steady acc kvs ''brightness''" "steady acc kvs ''typeSupportsDim''"
      using mirror_all_isOn [OF JSON_parse_distinct [OF json] that] that(1,2)
      by (simp add: fetched_def)
    from a b show ?thesis by blast
  qed
  from 1 2 3 4 5 show ?thesis by blast
qed

theorem refresh_sends_no_write_witness:
  "writes (sent example_platform
      (platform_of (refresh server_switched (example_switch, example_platform)))) = []
   \<and> (\<exists>acc' pl'. refresh server_switched (example_switch, example_platform)
                     = Returned (None, (acc', pl'))
         \<and> get_prop acc' ''isOn'' = JBool True
         \<and> get_prop acc' ''lastChanged'' = JStr ''18:02''
         \<and> setValueCalls acc' = [(On, JBool True, REFRESH_CONTEXT)])
   \<and> suppressing example_switch On
   \<and> (\<exists>acc' pl'. refresh server_dimmed (example_dimmer, example_platform)
                     = Returned (None, (acc', pl'))
         \<and> setValueCalls acc'
             = [(Brightness, JNum 80, REFRESH_CONTEXT), (On, JBool True, REFRESH_CONTEXT)])"
proof -
  let ?kvs = "[(''id'', JNum 10), (''name'', JStr ''lamp''), (''typeSupportsOnOff'', JBool True),
               (''isOn'', JBool True), (''lastChanged'', JStr ''18:02'')]"
  let ?dim = "[(''id'', JNum 20), (''name'', JStr ''dimmer''), (''typeSupportsDim'', JBool True),
               (''brightness'', JNum 80), (''isOn'', JBool True)]"
  note T = refresh_sends_no_write [of example_platform server_switched example_switch]
  note D = refresh_sends_no_write [of example_platform server_dimmed example_dimmer]
  have reply: \<open>server_switched (requestQueue example_platform
                 @ [request_for example_platform (deviceURL example_switch) ''GET'' None])
     = Response ''{"id":10,"name":"lamp","typeSupportsOnOff":true,"isOn":true,"lastChanged":"18:02"}''\<close>
    by (simp add: server_switched_def)
  have json: \<open>JSON_parse
      ''{"id":10,"name":"lamp","typeSupportsOnOff":true,"isOn":true,"lastChanged":"18:02"}''
     = Some (JObj ?kvs)\<close>
    by (simp add: model_defs)
  have p: "plain (props example_switch)" "plain ?kvs"
    by (simp_all add: plain_def example_switch_def example_accessory_def)
  have on: "get_prop example_switch ''isOn'' = JBool False" "map_of ?kvs ''isOn'' = Some (JBool True)"
    "steady example_switch ?kvs ''brightness''" "steady example_switch ?kvs ''typeSupportsDim''"
    by (simp_all add: steady_def example_switch_def example_accessory_def get_prop_def)
  have v: "variant example_switch \<noteq> ThermostatAccessory \<and> On \<noteq> RotationSpeed"
    by (simp add: example_switch_def example_accessory_def)
  have m: "setValueCalls example_switch @ isOn_mirror example_switch
             = [(On, JBool True, REFRESH_CONTEXT)]"
    by (simp add: isOn_mirror_def example_switch_def example_accessory_def)
  have l: "fetched example_switch ?kvs ''lastChanged'' = JStr ''18:02''"
    by (simp add: fetched_def example_switch_def example_accessory_def get_prop_def loose_eq_def)
  from T have 2: "writes (sent example_platform
      (platform_of (refresh server_switched (example_switch, example_platform)))) = []"
    by blast
  from T v have 4: "suppressing example_switch On" by blast
  from T reply json p on
  have "\<exists>acc' pl'. refresh server_switched (example_switch, example_platform)
                     = Returned (None, (acc', pl'))
         \<and> get_prop acc' ''isOn'' = JBool True
         \<and> get_prop acc' ''lastChanged'' = fetched example_switch ?kvs ''lastChanged''
         \<and> setValueCalls acc' = setValueCalls example_switch @ isOn_mirror example_switch"
    by (metis (no_types, lifting))
  then have 5: "\<exists>acc' pl'. refresh server_switched (example_switch, example_platform)
                     = Returned (None, (acc', pl'))
         \<and> get_prop acc' ''isOn'' = JBool True
         \<and> get_prop acc' ''lastChanged'' = JStr ''18:02''
         \<and> setValueCalls acc' = [(On, JBool True, REFRESH_CONTEXT)]"
    unfolding m l .
  have dreply: \<open>server_dimmed (requestQueue example_platform
                 @ [request_for example_platform (deviceURL example_dimmer) ''GET'' None])
     = Response ''{"id":20,"name":"dimmer","typeSupportsDim":true,"brightness":80,"isOn":true}''\<close>
    by (simp add: server_dimmed_def)
  have djson: \<open>JSON_parse
      ''{"id":20,"name":"dimmer","typeSupportsDim":true,"brightness":80,"isOn":true}''
     = Some (JObj ?dim)\<close>
    by (simp add: model_defs)
  have dp: "plain (props example_dimmer)" "plain ?dim"
    by (simp_all add: plain_def example_dimmer_def example_accessory_def)
  have dm: "setValueCalls example_dimmer @ mirror_all example_dimmer ?dim
              = [(Brightness, JNum 80, REFRESH_CONTEXT), (On, JBool True, REFRESH_CONTEXT)]"
    by (simp add: mirror_calls_def example_dimmer_def example_accessory_def get_prop_def
          set_prop_def loose_eq_def)
  from D dreply djson dp
  have "\<exists>acc' pl'. refresh server_dimmed (example_dimmer, example_platform)
                     = Returned (None, (acc', pl'))
         \<and> setValueCalls acc' = setValueCalls example_dimmer @ mirror_all example_dimmer ?dim"
    by (metis (no_types, lifting))
  then have 6: "\<exists>acc' pl'. refresh server_dimmed (example_dimmer, example_platform)
                     = Returned (None, (acc', pl'))
         \<and> setValueCalls acc'
             = [(Brightness, JNum 80, REFRESH_CONTEXT), (On, JBool True, REFRESH_CONTEXT)]"
    unfolding dm .
  from 2 5 4 6 show ?thesis by (intro conjI)
qed

theorem refresh_mirror_counterexample:
  "get_prop example_idle_fan ''isOn'' = JBool False
   \<and> map_option (\<lambda>(e, acc, pl). (e, get_prop acc ''isOn'', setValueCalls acc))
       (result_of (refresh server_fan_on (example_idle_fan, example_platform)))
     = Some (None, JBool True, [])
   \<and> get_prop example_lock ''isOn'' = JBool False
   \<and> map_option (\<lambda>(e, acc, pl). (e, get_prop acc ''isOn'', setValueCalls acc))
       (result_of (refresh server_locked (example_lock, example_platform)))
     = Some (None, JBool True,
         [(LockCurrentState, SECURED, REFRESH_CONTEXT), (LockTargetState, SECURED, REFRESH_CONTEXT)])"
proof -
  have 1: "get_prop example_idle_fan ''isOn'' = JBool False"
    by (simp add: example_idle_fan_def example_accessory_def get_prop_def)
  have 2: "map_option (\<lambda>(e, acc, pl). (e, get_prop acc ''isOn'', setValueCalls acc))
       (result_of (refresh server_fan_on (example_idle_fan, example_platform)))
     = Some (None, JBool True, [])"
    by (simp add: example_idle_fan_def server_fan_on_def refresh_defs)
  have 3: "get_prop example_lock ''isOn'' = JBool False"
    by (simp add: example_lock_def example_accessory_def get_prop_def)
  have 4: "map_option (\<lambda>(e, acc, pl). (e, get_prop acc ''isOn'', setValueCalls acc))
       (result_of (refresh server_locked (example_lock, example_platform)))
     = Some (None, JBool True,
         [(LockCurrentState, SECURED, REFRESH_CONTEXT), (LockTargetState, SECURED, REFRESH_CONTEXT)])"
    by (simp add: example_lock_def server_locked_def refresh_defs)
  from 1 2 3 4 show ?thesis by (intro conjI)
qed

end
